theory Spec2Isabelle
  imports Complex_Main "HOL-Library.Char_ord" "HOL-Library.List_Lexorder"
  "HOL-Library.Log_Nat"
begin

chapter \<open>The program\<close>

section \<open>ChangeDetector: the IMDb import section of the sync command\<close>

text \<open>
  The embedding follows \<^verbatim>\<open>backend/cmd/sync/main.go\<close>. The file system is a map from
  paths to contents, the store is a record holding the dataset-derived tables (left
  abstract, of type \<open>'d\<close>) and the \<^verbatim>\<open>sync_state\<close> key/value table. \<^verbatim>\<open>log.Fatal\<close> ends the
  process: the run record then carries the message in \<open>fatal\<close> and the store as it was
  at that moment.
\<close>

type_synonym files = "string \<rightharpoonup> string"

datatype dl_reply = DlNetErr | DlStatus int string | DlWriteErr

datatype stage = SyncTitles | SyncGenres | SyncEpisodes | SyncRatings

record 'd store =
  tables :: 'd
  sync_state :: "string \<rightharpoonup> string"

record 'd run =
  store_after :: "'d store"
  stages_run :: "(stage \<times> string option) list"
  fatal :: "string option"

definition basicsURL :: string where
  "basicsURL = ''https://datasets.imdbws.com/title.basics.tsv.gz''"

definition episodesURL :: string where
  "episodesURL = ''https://datasets.imdbws.com/title.episode.tsv.gz''"

definition ratingsURL :: string where
  "ratingsURL = ''https://datasets.imdbws.com/title.ratings.tsv.gz''"

text \<open>
  \<^verbatim>\<open>downloadFile\<close>: a transport error and every status other than 200 and 304 are errors,
  304 keeps the local file, 200 replaces it with the body. \<open>DlWriteErr\<close> stands for a
  failing \<^verbatim>\<open>os.Create\<close> or \<^verbatim>\<open>io.Copy\<close>.
\<close>

definition downloadFile :: "(string \<Rightarrow> dl_reply) \<Rightarrow> string \<Rightarrow> string \<Rightarrow> files \<Rightarrow> string + files" where
  "downloadFile net url dest fs =
     (case net url of
        DlNetErr \<Rightarrow> Inl ''transport error''
      | DlWriteErr \<Rightarrow> Inl ''write error''
      | DlStatus code body \<Rightarrow>
          if code = 304 then Inr fs
          else if code \<noteq> 200 then Inl ''server returned another status''
          else Inr (fs(dest \<mapsto> body)))"

text \<open>
  \<^verbatim>\<open>hashFiles\<close>: the paths are sorted, every file is fed to one hasher in that order, and a
  file that cannot be opened is an error. SHA-256 with hex encoding is a library function
  and is taken as the parameter \<open>sha256_hex\<close>.
\<close>

fun hash_feed :: "files \<Rightarrow> string list \<Rightarrow> string \<Rightarrow> string + string" where
  "hash_feed fs [] acc = Inr acc"
| "hash_feed fs (p # ps) acc =
     (case fs p of
        None \<Rightarrow> Inl (''hash '' @ p)
      | Some c \<Rightarrow> hash_feed fs ps (acc @ c))"

definition hashFiles :: "(string \<Rightarrow> string) \<Rightarrow> files \<Rightarrow> string list \<Rightarrow> string + string" where
  "hashFiles sha256_hex fs paths =
     (case hash_feed fs (sort paths) [] of
        Inl e \<Rightarrow> Inl e
      | Inr bytes \<Rightarrow> Inr (sha256_hex bytes))"

definition getSyncState :: "'d store \<Rightarrow> string \<Rightarrow> string" where
  "getSyncState st key = (case sync_state st key of None \<Rightarrow> [] | Some v \<Rightarrow> v)"

text \<open>
  \<^verbatim>\<open>setSyncState\<close> only logs a warning when the upsert fails; \<open>ok\<close> says whether it
  succeeded.
\<close>

definition setSyncState :: "bool \<Rightarrow> 'd store \<Rightarrow> string \<Rightarrow> string \<Rightarrow> 'd store" where
  "setSyncState ok st key v =
     (if ok then st\<lparr>sync_state := (sync_state st)(key \<mapsto> v)\<rparr> else st)"

text \<open>
  The four stages \<^verbatim>\<open>syncTitles\<close>, \<^verbatim>\<open>syncGenres\<close>, \<^verbatim>\<open>syncEpisodes\<close>, \<^verbatim>\<open>syncRatings\<close> are
  taken as one parameter \<open>sync\<close>: given the stage, the files and the tables it returns an
  optional error and the tables as the stage left them (committed batches are not rolled
  back). None of them touches \<^verbatim>\<open>sync_state\<close>, which only \<^verbatim>\<open>getSyncState\<close> and
  \<^verbatim>\<open>setSyncState\<close> name. \<open>run_stages\<close> is the chain of
  \<^verbatim>\<open>if err := syncX(...); err != nil { log.Fatal(err) }\<close>.
\<close>

type_synonym 'd sync_fn = "stage \<Rightarrow> files \<Rightarrow> 'd \<Rightarrow> string option \<times> 'd"

fun run_stages :: "'d sync_fn \<Rightarrow> files \<Rightarrow> stage list \<Rightarrow> 'd \<Rightarrow>
    (stage \<times> string option) list \<Rightarrow> (stage \<times> string option) list \<times> string option \<times> 'd" where
  "run_stages sync fs [] d lg = (lg, None, d)"
| "run_stages sync fs (s # ss) d lg =
     (case sync s fs d of
        (Some e, d') \<Rightarrow> (lg @ [(s, Some e)], Some e, d')
      | (None, d') \<Rightarrow> run_stages sync fs ss d' (lg @ [(s, None)]))"

definition all_stages :: "stage list" where
  "all_stages = [SyncTitles, SyncGenres, SyncEpisodes, SyncRatings]"

definition dataset_paths :: "string \<Rightarrow> string list" where
  "dataset_paths dir =
     [dir @ ''/title.basics.tsv.gz'', dir @ ''/title.episode.tsv.gz'', dir @ ''/title.ratings.tsv.gz'']"

definition downloads :: "(string \<Rightarrow> dl_reply) \<Rightarrow> string \<Rightarrow> files \<Rightarrow> string + files" where
  "downloads net dir fs =
     (case downloadFile net basicsURL (dir @ ''/title.basics.tsv.gz'') fs of
        Inl e \<Rightarrow> Inl e
      | Inr fs1 \<Rightarrow>
          (case downloadFile net episodesURL (dir @ ''/title.episode.tsv.gz'') fs1 of
             Inl e \<Rightarrow> Inl e
           | Inr fs2 \<Rightarrow> downloadFile net ratingsURL (dir @ ''/title.ratings.tsv.gz'') fs2))"

record 'd world =
  w_net :: "string \<Rightarrow> dl_reply"
  w_sha256_hex :: "string \<Rightarrow> string"
  w_sync :: "'d sync_fn"
  w_checkpoint_ok :: bool

text \<open>Section 1 of \<^verbatim>\<open>main\<close>, from the downloads to \<^verbatim>\<open>setSyncState\<close>.\<close>

definition main_imdb_import :: "'d world \<Rightarrow> bool \<Rightarrow> string \<Rightarrow> files \<Rightarrow> 'd store \<Rightarrow> 'd run" where
  "main_imdb_import w forceImdb dir fs st =
     (case downloads (w_net w) dir fs of
        Inl e \<Rightarrow> \<lparr>store_after = st, stages_run = [], fatal = Some e\<rparr>
      | Inr fs' \<Rightarrow>
          (case hashFiles (w_sha256_hex w) fs' (dataset_paths dir) of
             Inl e \<Rightarrow> \<lparr>store_after = st, stages_run = [], fatal = Some e\<rparr>
           | Inr currentHash \<Rightarrow>
               let previousHash = getSyncState st ''imdb_files_hash'';
                   imdbChanged = (forceImdb \<or> currentHash \<noteq> previousHash)
               in if \<not> imdbChanged then \<lparr>store_after = st, stages_run = [], fatal = None\<rparr>
                  else
                    (case run_stages (w_sync w) fs' all_stages (tables st) [] of
                       (lg, Some e, d') \<Rightarrow>
                         \<lparr>store_after = st\<lparr>tables := d'\<rparr>, stages_run = lg, fatal = Some e\<rparr>
                     | (lg, None, d') \<Rightarrow>
                         \<lparr>store_after =
                            setSyncState (w_checkpoint_ok w) (st\<lparr>tables := d'\<rparr>)
                              ''imdb_files_hash'' currentHash,
                          stages_run = lg, fatal = None\<rparr>)))"

subsection \<open>A concrete run, used by the witnesses\<close>

definition demo_fs :: files where
  "demo_fs = [''d/title.basics.tsv.gz'' \<mapsto> ''b'', ''d/title.episode.tsv.gz'' \<mapsto> ''e'',
              ''d/title.ratings.tsv.gz'' \<mapsto> ''r'']"

definition demo_world :: "(stage \<Rightarrow> nat) world" where
  "demo_world = \<lparr>w_net = (\<lambda>_. DlStatus 304 []), w_sha256_hex = (\<lambda>b. b),
     w_sync = (\<lambda>s fs d. (None, d(s := d s + 1))), w_checkpoint_ok = True\<rparr>"

definition demo_world_failing :: "(stage \<Rightarrow> nat) world" where
  "demo_world_failing = demo_world\<lparr>w_sync := (\<lambda>s fs d. (if s = SyncEpisodes then Some ''episode insert'' else None, d(s := d s + 1)))\<rparr>"

definition demo_store :: "string \<Rightarrow> (stage \<Rightarrow> nat) store" where
  "demo_store h = \<lparr>tables = (\<lambda>_. 0), sync_state = [''imdb_files_hash'' \<mapsto> h]\<rparr>"

section \<open>BulkDiffImporter: the second pass of \<^verbatim>\<open>syncEpisodes\<close>\<close>

text \<open>
  \<^verbatim>\<open>strings.Split(line, "\t")\<close>: the fields between tab characters; a line without a tab
  is one field.
\<close>

fun split_tab :: "string \<Rightarrow> string list" where
  "split_tab [] = [[]]"
| "split_tab (c # cs) =
     (if c = CHR 0x09 then [] # split_tab cs
      else (case split_tab cs of [] \<Rightarrow> [[c]] | f # fs \<Rightarrow> (c # f) # fs))"

text \<open>
  \<^verbatim>\<open>strconv.Atoi\<close>: an optional sign, then one or more decimal digits and nothing else;
  a value outside the 64-bit signed range is an error.
\<close>

definition is_digit :: "char \<Rightarrow> bool" where
  "is_digit c = (48 \<le> (of_char c :: nat) \<and> (of_char c :: nat) \<le> 57)"

fun parse_digits :: "string \<Rightarrow> nat \<Rightarrow> nat option" where
  "parse_digits [] acc = Some acc"
| "parse_digits (c # cs) acc =
     (if is_digit c then parse_digits cs (acc * 10 + (of_char c - 48)) else None)"

definition Atoi :: "string \<Rightarrow> int option" where
  "Atoi s =
     (let (neg, ds) =
            (case s of
               [] \<Rightarrow> (False, s)
             | c # r \<Rightarrow> if c = CHR ''-'' then (True, r)
                        else if c = CHR ''+'' then (False, r) else (False, s))
      in if ds = [] then None
         else (case parse_digits ds 0 of
                 None \<Rightarrow> None
               | Some n \<Rightarrow>
                   let v = (if neg then - int n else int n)
                   in if - (2 ^ 63) \<le> v \<and> v < 2 ^ 63 then Some v else None))"

text \<open>The placeholder of a null field in the dataset: a backslash followed by \<open>N\<close>.\<close>

definition null_token :: string where
  "null_token = [CHR 0x5C, CHR ''N'']"

record ExistingEpisode =
  ex_ID :: int
  ex_DisplayName :: string

record EpisodeInsert =
  ins_SeasonID :: int
  ins_Episode :: int
  ins_DisplayName :: "string option"

record EpisodeUpdate =
  upd_ID :: int
  upd_DisplayName :: string

text \<open>
  The lookup tables the second pass reads: \<^verbatim>\<open>showCache\<close>, \<^verbatim>\<open>existingSeasons\<close> (after the
  first pass has inserted the new seasons), \<^verbatim>\<open>existingEpisodes\<close> and the \<^verbatim>\<open>episodeTitles\<close>
  collected by the title scan.
\<close>

record snapshot =
  showCache :: "string \<rightharpoonup> int"
  existingSeasons :: "int \<times> int \<rightharpoonup> int"
  existingEpisodes :: "int \<times> int \<rightharpoonup> ExistingEpisode"
  episodeTitles :: "string \<rightharpoonup> string"

text \<open>The variables of the scan loop. The counters are 64-bit in the source and far from
  their bound; they are integers here.\<close>

record scan_state =
  toInsert :: "EpisodeInsert list"
  toUpdate :: "EpisodeUpdate list"
  scanned :: int
  unchanged :: int
  skipped :: int

definition scan_init :: scan_state where
  "scan_init = \<lparr>toInsert = [], toUpdate = [], scanned = 0, unchanged = 0, skipped = 0\<rparr>"

text \<open>One iteration of \<^verbatim>\<open>for scanner.Scan() { ... }\<close>; every \<^verbatim>\<open>continue\<close> returns the
  state it has reached.\<close>

definition scan_line :: "snapshot \<Rightarrow> string \<Rightarrow> scan_state \<Rightarrow> scan_state" where
  "scan_line snap line st =
     (let fields = split_tab line in
      if length fields < 4 then st
      else
        let episodeImdbID = fields ! 0;
            parentImdbID = fields ! 1;
            seasonStr = fields ! 2;
            episodeStr = fields ! 3
        in if seasonStr = null_token \<or> episodeStr = null_token
           then st\<lparr>skipped := skipped st + 1\<rparr>
           else
             (case Atoi seasonStr of
                None \<Rightarrow> st
              | Some season \<Rightarrow>
                  (case Atoi episodeStr of
                     None \<Rightarrow> st
                   | Some episode \<Rightarrow>
                       (case showCache snap parentImdbID of
                          None \<Rightarrow> st
                        | Some showID \<Rightarrow>
                            (case existingSeasons snap (showID, season) of
                               None \<Rightarrow> st
                             | Some seasonID \<Rightarrow>
                                 let displayName =
                                       (case episodeTitles snap episodeImdbID of
                                          None \<Rightarrow> []
                                        | Some title \<Rightarrow> title);
                                     st1 = st\<lparr>scanned := scanned st + 1\<rparr>
                                 in (case existingEpisodes snap (seasonID, episode) of
                                       Some existing \<Rightarrow>
                                         if displayName \<noteq> [] \<and> ex_DisplayName existing \<noteq> displayName
                                         then st1\<lparr>toUpdate := toUpdate st1 @
                                                [\<lparr>upd_ID = ex_ID existing, upd_DisplayName = displayName\<rparr>]\<rparr>
                                         else st1\<lparr>unchanged := unchanged st1 + 1\<rparr>
                                     | None \<Rightarrow>
                                         st1\<lparr>toInsert := toInsert st1 @
                                                [\<lparr>ins_SeasonID = seasonID, ins_Episode = episode,
                                                  ins_DisplayName =
                                                    (if displayName \<noteq> [] then Some displayName else None)\<rparr>]\<rparr>))))))"

text \<open>The whole scan: the first line is the header and is skipped.\<close>

definition scan_file :: "snapshot \<Rightarrow> string list \<Rightarrow> scan_state" where
  "scan_file snap all_lines = fold (scan_line snap) (drop 1 all_lines) scan_init"

text \<open>
  The \<^verbatim>\<open>show_episodes\<close> table, restricted to the columns the import reads and writes.
  \<^verbatim>\<open>load_existingEpisodes\<close> is the loop over
  \<^verbatim>\<open>SELECT id, season_id, episode, display_name FROM show_episodes\<close>; a NULL name is
  scanned through \<^verbatim>\<open>sql.NullString\<close> and becomes the empty string.
\<close>

record episode_row =
  row_id :: int
  row_season_id :: int
  row_episode :: int
  row_display_name :: "string option"

definition stored_name :: "episode_row \<Rightarrow> string" where
  "stored_name r = (case row_display_name r of None \<Rightarrow> [] | Some n \<Rightarrow> n)"

definition remember_episode :: "episode_row \<Rightarrow> (int \<times> int \<rightharpoonup> ExistingEpisode) \<Rightarrow>
    (int \<times> int \<rightharpoonup> ExistingEpisode)" where
  "remember_episode r m =
     m((row_season_id r, row_episode r) \<mapsto> \<lparr>ex_ID = row_id r, ex_DisplayName = stored_name r\<rparr>)"

definition load_existingEpisodes :: "episode_row list \<Rightarrow> (int \<times> int \<rightharpoonup> ExistingEpisode)" where
  "load_existingEpisodes rows = fold remember_episode rows Map.empty"

text \<open>
  The update statement of one batch:
  \<^verbatim>\<open>UPDATE show_episodes SET display_name = CASE WHEN id = $1 THEN $2 ... END WHERE id IN (...)\<close>.
  The first matching \<^verbatim>\<open>WHEN\<close> gives the value.
\<close>

fun sql_case :: "EpisodeUpdate list \<Rightarrow> int \<Rightarrow> string option" where
  "sql_case [] i = None"
| "sql_case (u # us) i = (if upd_ID u = i then Some (upd_DisplayName u) else sql_case us i)"

definition update_batch :: "EpisodeUpdate list \<Rightarrow> episode_row list \<Rightarrow> episode_row list" where
  "update_batch batch rows =
     map (\<lambda>r. if row_id r \<in> set (map upd_ID batch)
              then r\<lparr>row_display_name := sql_case batch (row_id r)\<rparr> else r) rows"

text \<open>
  The batching loop \<^verbatim>\<open>for i := 0; i < len(xs); i += batchSize\<close> with
  \<^verbatim>\<open>batch := xs[i:end]\<close>, for a positive batch size.
\<close>

function batches :: "nat \<Rightarrow> 'a list \<Rightarrow> 'a list list" where
  "batches n xs = (if n = 0 \<or> xs = [] then [] else take n xs # batches n (drop n xs))"
  by pat_completeness auto
termination
  by (relation "measure (\<lambda>(n, xs). length xs)") auto

declare batches.simps [simp del]

text \<open>
  The update phase. A statement that fails makes \<^verbatim>\<open>syncEpisodes\<close> return the error, with
  the batches before it committed; \<open>ok k\<close> says whether the statement of batch \<open>k\<close>
  succeeds. A batch size that is not positive never gets a batch through (an empty
  statement, or a slice out of range).
\<close>

fun run_update_batches :: "(nat \<Rightarrow> bool) \<Rightarrow> nat \<Rightarrow> EpisodeUpdate list list \<Rightarrow>
    episode_row list \<Rightarrow> string option \<times> episode_row list" where
  "run_update_batches ok k [] rows = (None, rows)"
| "run_update_batches ok k (b # bs) rows =
     (if ok k then run_update_batches ok (Suc k) bs (update_batch b rows)
      else (Some ''episode update'', rows))"

definition update_episodes :: "(nat \<Rightarrow> bool) \<Rightarrow> int \<Rightarrow> EpisodeUpdate list \<Rightarrow>
    episode_row list \<Rightarrow> string option \<times> episode_row list" where
  "update_episodes ok batchSize upds rows =
     (if upds = [] then (None, rows)
      else if batchSize \<le> 0 then (Some ''episode update'', rows)
      else run_update_batches ok 0 (batches (nat batchSize) upds) rows)"

subsection \<open>A concrete table and dataset, used by the witnesses\<close>

definition demo_rows :: "episode_row list" where
  "demo_rows =
     [\<lparr>row_id = 700, row_season_id = 70, row_episode = 1, row_display_name = Some ''Pilot''\<rparr>,
      \<lparr>row_id = 701, row_season_id = 70, row_episode = 2, row_display_name = Some ''Old''\<rparr>]"

definition demo_snapshot :: snapshot where
  "demo_snapshot = \<lparr>showCache = [''tt1'' \<mapsto> 7], existingSeasons = [(7, 1) \<mapsto> 70],
     existingEpisodes = load_existingEpisodes demo_rows,
     episodeTitles = [''tt12'' \<mapsto> ''New'']\<rparr>"

definition line_null_season :: string where
  "line_null_season = ''tt11'' @ [CHR 0x09] @ ''tt1'' @ [CHR 0x09] @ null_token @ [CHR 0x09] @ ''1''"

definition line_bad_season :: string where
  "line_bad_season = ''tt11'' @ [CHR 0x09] @ ''tt1'' @ [CHR 0x09] @ ''abc'' @ [CHR 0x09] @ ''1''"

definition line_rename :: string where
  "line_rename = ''tt12'' @ [CHR 0x09] @ ''tt1'' @ [CHR 0x09] @ ''1'' @ [CHR 0x09] @ ''2''"

definition line_untitled :: string where
  "line_untitled = ''tt11'' @ [CHR 0x09] @ ''tt1'' @ [CHR 0x09] @ ''1'' @ [CHR 0x09] @ ''1''"

subsection \<open>Lines without a usable season or episode number\<close>

text \<open>
  The lines the claim speaks of, in the words of the specification: a line with its four
  fields whose season or episode field is the null placeholder or does not parse as an
  integer.
\<close>

definition number_missing_or_bad :: "string \<Rightarrow> bool" where
  "number_missing_or_bad line =
     (let fields = split_tab line in
      4 \<le> length fields \<and>
      (fields ! 2 = null_token \<or> fields ! 3 = null_token \<or>
       Atoi (fields ! 2) = None \<or> Atoi (fields ! 3) = None))"

subsection \<open>Updates of existing episode names\<close>

text \<open>An update is justified by the snapshot when its name is not empty and differs from
  the name the snapshot holds for the same episode id.\<close>

definition upd_justified :: "snapshot \<Rightarrow> EpisodeUpdate \<Rightarrow> bool" where
  "upd_justified snap u =
     (upd_DisplayName u \<noteq> [] \<and>
      (\<exists>k e. existingEpisodes snap k = Some e \<and> ex_ID e = upd_ID u \<and>
             ex_DisplayName e \<noteq> upd_DisplayName u))"

text \<open>What a sequence of update statements may do to the table: every row is left as it
  is or gets the name of an update with its id.\<close>

definition rows_step :: "EpisodeUpdate set \<Rightarrow> episode_row list \<Rightarrow> episode_row list \<Rightarrow> bool" where
  "rows_step U rows rows' =
     (length rows' = length rows \<and>
      (\<forall>i<length rows. rows' ! i = rows ! i \<or>
         (\<exists>u\<in>U. upd_ID u = row_id (rows ! i) \<and>
                 rows' ! i = (rows ! i)\<lparr>row_display_name := Some (upd_DisplayName u)\<rparr>)))"

section \<open>BulkDiffImporter: \<^verbatim>\<open>syncRatings\<close>\<close>

subsection \<open>Floating point\<close>

text \<open>
  A \<^verbatim>\<open>float64\<close> or \<^verbatim>\<open>float32\<close> value: a finite binary fraction, an infinity, or NaN. The
  sign of a zero is not kept; \<^verbatim>\<open>==\<close> does not tell the two zeros apart.
\<close>

datatype gofloat = Fin rat | PosInf | NegInf | NaN

text \<open>\<^verbatim>\<open>==\<close> on floats: NaN is equal to nothing.\<close>

definition float_eq :: "gofloat \<Rightarrow> gofloat \<Rightarrow> bool" where
  "float_eq a b = (a \<noteq> NaN \<and> a = b)"

text \<open>
  IEEE 754 rounding to nearest, ties to even, of a rational to the format with \<open>p\<close>
  significant bits and the exponents \<open>emin\<close> to \<open>emax\<close>. \<open>ilog2 x\<close> is the exponent of a
  positive \<open>x\<close>: \<open>2 ^ ilog2 x \<le> x < 2 ^ (ilog2 x + 1)\<close>. The spacing of the format around \<open>x\<close>
  is \<open>2 ^ (e - p + 1)\<close>, where \<open>e\<close> is that exponent and at least \<open>emin\<close> (below \<open>2 ^ emin\<close>
  the values are subnormal, evenly spaced). A result of \<open>2 ^ (emax + 1)\<close> or more is an
  infinity. \<^verbatim>\<open>float32\<close> is \<open>p = 24\<close>, \<open>emin = -126\<close>, \<open>emax = 127\<close>; \<^verbatim>\<open>float64\<close> is \<open>p = 53\<close>,
  \<open>emin = -1022\<close>, \<open>emax = 1023\<close>.
\<close>

definition pow2 :: "int \<Rightarrow> rat" where
  "pow2 e = (if 0 \<le> e then 2 ^ nat e else 1 / 2 ^ nat (- e))"

definition ilog2 :: "rat \<Rightarrow> int" where
  "ilog2 x = (if 1 \<le> x then int (floorlog 2 (nat \<lfloor>x\<rfloor>)) - 1
              else - int (floorlog 2 (nat (\<lceil>1 / x\<rceil> - 1))))"

definition round_half_even :: "rat \<Rightarrow> int" where
  "round_half_even y =
     (let f = \<lfloor>y\<rfloor>; r = y - of_int f
      in if r < 1 / 2 then f else if 1 / 2 < r then f + 1 else if even f then f else f + 1)"

definition round_float :: "nat \<Rightarrow> int \<Rightarrow> int \<Rightarrow> rat \<Rightarrow> gofloat" where
  "round_float p emin emax x =
     (if x = 0 then Fin 0
      else
        let e = max (ilog2 \<bar>x\<bar>) emin;
            q = pow2 (e - int p + 1);
            y = of_int (round_half_even (\<bar>x\<bar> / q)) * q
        in if pow2 (emax + 1) \<le> y then (if 0 < x then PosInf else NegInf)
           else Fin (if 0 < x then y else - y))"

definition round32 :: "rat \<Rightarrow> gofloat" where
  "round32 x = round_float 24 (- 126) 127 x"

definition round64 :: "rat \<Rightarrow> gofloat" where
  "round64 x = round_float 53 (- 1022) 1023 x"

text \<open>The conversion \<^verbatim>\<open>float64(float32(x))\<close> of a \<^verbatim>\<open>float64\<close>: rounding to \<^verbatim>\<open>float32\<close>; the
  way back is exact.\<close>

definition to_float32 :: "gofloat \<Rightarrow> gofloat" where
  "to_float32 v = (case v of Fin x \<Rightarrow> round32 x | _ \<Rightarrow> v)"

text \<open>
  \<^verbatim>\<open>strconv.ParseFloat(s, 64)\<close>. On a plain decimal (one or more digits, or digits, a
  point and digits) the result is the \<^verbatim>\<open>float64\<close> nearest to the number written, and a
  range error if that is an infinity. Every other string (a sign, an exponent, a
  hexadecimal or underscored number, an infinity, NaN, a point without digits on one
  side, anything malformed) is left to the parameter \<open>other\<close>.
\<close>

definition decimal_value :: "string \<Rightarrow> rat option" where
  "decimal_value s =
     (if CHR ''.'' \<in> set s then
        let ip = takeWhile (\<lambda>c. c \<noteq> CHR ''.'') s;
            fp = drop 1 (dropWhile (\<lambda>c. c \<noteq> CHR ''.'') s)
        in if ip = [] then None
           else if fp = [] then None
           else (case parse_digits ip 0 of
                   None \<Rightarrow> None
                 | Some i \<Rightarrow>
                     (case parse_digits fp 0 of
                        None \<Rightarrow> None
                      | Some f \<Rightarrow> Some (of_nat i + of_nat f / 10 ^ length fp)))
      else if s = [] then None
      else (case parse_digits s 0 of None \<Rightarrow> None | Some i \<Rightarrow> Some (of_nat i)))"

definition ParseFloat :: "(string \<Rightarrow> gofloat option) \<Rightarrow> string \<Rightarrow> gofloat option" where
  "ParseFloat other s =
     (case decimal_value s of
        None \<Rightarrow> other s
      | Some x \<Rightarrow> (case round64 x of Fin v \<Rightarrow> Some (Fin v) | _ \<Rightarrow> None))"

subsection \<open>The load of the existing ratings\<close>

text \<open>
  A row of \<^verbatim>\<open>SELECT imdb_id, COALESCE(num_votes, 0), COALESCE(average_rating, 0) FROM
  titles WHERE imdb_id IS NOT NULL\<close> as the server sends it. \<^verbatim>\<open>average_rating\<close> is a
  \<^verbatim>\<open>REAL\<close> column (\<^verbatim>\<open>schema.sql\<close>); its value arrives as text: from PostgreSQL 12 on the
  shortest decimal that reads back as the same \<^verbatim>\<open>REAL\<close>, from earlier servers eight
  significant digits (the driver sets \<^verbatim>\<open>extra_float_digits\<close> to 2). The driver (\<^verbatim>\<open>lib/pq\<close>
  v1.10.9 in the backend's README) decodes the text of a \<^verbatim>\<open>REAL\<close> with
  \<^verbatim>\<open>strconv.ParseFloat(s, 64)\<close>, and \<^verbatim>\<open>rows.Scan\<close> stores that \<^verbatim>\<open>float64\<close> in
  \<^verbatim>\<open>r.AverageRating\<close>.
\<close>

record rating_row =
  q_imdb_id :: string
  q_num_votes :: int
  q_average_rating :: string

record ExistingRating =
  er_NumVotes :: int
  er_AverageRating :: gofloat

text \<open>\<^verbatim>\<open>for rows.Next() { ... existingRatings[imdbID] = r }\<close>. A text the driver cannot
  decode ends the iteration: \<^verbatim>\<open>rows.Next\<close> is false after an error of the driver.\<close>

fun load_ratings :: "(string \<Rightarrow> gofloat option) \<Rightarrow> rating_row list \<Rightarrow>
    (string \<rightharpoonup> ExistingRating) \<Rightarrow> (string \<rightharpoonup> ExistingRating)" where
  "load_ratings other [] existingRatings = existingRatings"
| "load_ratings other (q # qs) existingRatings =
     (case ParseFloat other (q_average_rating q) of
        None \<Rightarrow> existingRatings
      | Some avg \<Rightarrow>
          load_ratings other qs
            (existingRatings(q_imdb_id q \<mapsto>
               \<lparr>er_NumVotes = q_num_votes q, er_AverageRating = avg\<rparr>)))"

subsection \<open>The scan of the ratings file\<close>

record RatingRecord =
  rr_ImdbID :: string
  rr_NumVotes :: int
  rr_AverageRating :: gofloat

text \<open>The variables of the scan loop, and \<open>issued\<close>: the batches handed to
  \<^verbatim>\<open>updateRatingsBatch\<close> so far, one update statement each.\<close>

record ratings_state =
  batch :: "RatingRecord list"
  rs_scanned :: int
  rs_updated :: int
  rs_unchanged :: int
  issued :: "RatingRecord list list"

definition ratings_init :: ratings_state where
  "ratings_init = \<lparr>batch = [], rs_scanned = 0, rs_updated = 0, rs_unchanged = 0, issued = []\<rparr>"

text \<open>The test under \<^verbatim>\<open>// Skip if unchanged\<close>.\<close>

definition rating_unchanged :: "(string \<rightharpoonup> ExistingRating) \<Rightarrow> string \<Rightarrow> int \<Rightarrow> gofloat \<Rightarrow> bool" where
  "rating_unchanged existingRatings imdbID numVotes averageRating =
     (case existingRatings imdbID of
        None \<Rightarrow> False
      | Some existing \<Rightarrow>
          er_NumVotes existing = numVotes \<and>
          float_eq (er_AverageRating existing) (to_float32 averageRating))"

text \<open>
  \<^verbatim>\<open>updateRatingsBatch\<close> is the parameter \<open>exec\<close>: an error, or the number of rows the
  statement affected. \<open>flush\<close> is the call with its error check.
\<close>

definition flush :: "(RatingRecord list \<Rightarrow> string + int) \<Rightarrow> ratings_state \<Rightarrow>
    string option \<times> ratings_state" where
  "flush exec st =
     (let st' = st\<lparr>issued := issued st @ [batch st]\<rparr> in
      case exec (batch st) of
        Inl e \<Rightarrow> (Some e, st')
      | Inr n \<Rightarrow> (None, st'\<lparr>rs_updated := rs_updated st' + n, batch := []\<rparr>))"

definition ratings_line :: "(string \<Rightarrow> gofloat option) \<Rightarrow> (RatingRecord list \<Rightarrow> string + int) \<Rightarrow>
    (string \<rightharpoonup> ExistingRating) \<Rightarrow> int \<Rightarrow> string \<Rightarrow> ratings_state \<Rightarrow>
    string option \<times> ratings_state" where
  "ratings_line other exec existingRatings batchSize line st =
     (let fields = split_tab line in
      if length fields < 3 then (None, st)
      else
        let imdbID = fields ! 0 in
        (case ParseFloat other (fields ! 1) of
           None \<Rightarrow> (None, st)
         | Some averageRating \<Rightarrow>
             (case Atoi (fields ! 2) of
                None \<Rightarrow> (None, st)
              | Some numVotes \<Rightarrow>
                  let st1 = st\<lparr>rs_scanned := rs_scanned st + 1\<rparr> in
                  if rating_unchanged existingRatings imdbID numVotes averageRating
                  then (None, st1\<lparr>rs_unchanged := rs_unchanged st1 + 1\<rparr>)
                  else
                    let st2 = st1\<lparr>batch := batch st1 @
                          [\<lparr>rr_ImdbID = imdbID, rr_NumVotes = numVotes, rr_AverageRating = averageRating\<rparr>]\<rparr>
                    in if batchSize \<le> int (length (batch st2)) then flush exec st2
                       else (None, st2))))"

fun ratings_loop :: "(string \<Rightarrow> gofloat option) \<Rightarrow> (RatingRecord list \<Rightarrow> string + int) \<Rightarrow>
    (string \<rightharpoonup> ExistingRating) \<Rightarrow> int \<Rightarrow> string list \<Rightarrow> ratings_state \<Rightarrow>
    string option \<times> ratings_state" where
  "ratings_loop other exec existingRatings batchSize [] st = (None, st)"
| "ratings_loop other exec existingRatings batchSize (l # ls) st =
     (case ratings_line other exec existingRatings batchSize l st of
        (Some e, st') \<Rightarrow> (Some e, st')
      | (None, st') \<Rightarrow> ratings_loop other exec existingRatings batchSize ls st')"

text \<open>
  \<^verbatim>\<open>syncRatings\<close>: the load (\<open>query\<close> is the error of \<^verbatim>\<open>db.Query\<close> or the rows it yields),
  the scan of the lines of the opened file (the header line skipped) and the final
  flush.
\<close>

definition syncRatings :: "(string \<Rightarrow> gofloat option) \<Rightarrow> (RatingRecord list \<Rightarrow> string + int) \<Rightarrow>
    string + rating_row list \<Rightarrow> int \<Rightarrow> string list \<Rightarrow> string option \<times> ratings_state" where
  "syncRatings other exec query batchSize all_lines =
     (case query of
        Inl e \<Rightarrow> (Some e, ratings_init)
      | Inr loaded \<Rightarrow>
          let existingRatings = load_ratings other loaded Map.empty in
          (case ratings_loop other exec existingRatings batchSize (drop 1 all_lines) ratings_init of
             (Some e, st) \<Rightarrow> (Some e, st)
           | (None, st) \<Rightarrow> if batch st \<noteq> [] then flush exec st else (None, st)))"

subsection \<open>A concrete table and ratings file\<close>

text \<open>
  Two titles whose stored votes and rating are those of the file. The \<^verbatim>\<open>REAL\<close> nearest
  to 7.3 is \<open>7654605 / 2 ^ 20\<close> (7.30000019073486328125), which the server sends as the
  text \<open>txt\<close>: \<^verbatim>\<open>7.3\<close> from PostgreSQL 12 on, \<^verbatim>\<open>7.3000002\<close> before. The \<^verbatim>\<open>float64\<close> nearest to
  7.3 is \<open>8219069319951155 / 2 ^ 50\<close>, the one nearest to 7.3000002 is
  \<open>8219069545131137 / 2 ^ 50\<close>. 7.5 is a value of both formats.
\<close>

definition stored_7_3 :: gofloat where
  "stored_7_3 = Fin (7654605 / 1048576)"

definition float64_7_3 :: gofloat where
  "float64_7_3 = Fin (8219069319951155 / 1125899906842624)"

definition float64_7_3000002 :: gofloat where
  "float64_7_3000002 = Fin (8219069545131137 / 1125899906842624)"

definition demo_rating_rows :: "string \<Rightarrow> rating_row list" where
  "demo_rating_rows txt =
     [\<lparr>q_imdb_id = ''tt1'', q_num_votes = 500, q_average_rating = txt\<rparr>,
      \<lparr>q_imdb_id = ''tt2'', q_num_votes = 10, q_average_rating = ''7.5''\<rparr>]"

definition demo_ratings_file :: "string list" where
  "demo_ratings_file =
     [''tconst'' @ [CHR 0x09] @ ''averageRating'' @ [CHR 0x09] @ ''numVotes'',
      ''tt1'' @ [CHR 0x09] @ ''7.3'' @ [CHR 0x09] @ ''500'',
      ''tt2'' @ [CHR 0x09] @ ''7.5'' @ [CHR 0x09] @ ''10'']"

section \<open>The TMDB detail API and the \<^verbatim>\<open>titles\<close> table\<close>

text \<open>
  A row of \<^verbatim>\<open>titles\<close>, with the columns the enrichment paths read and write; the server's
  \<^verbatim>\<open>Title\<close> struct, scanned from such a row, has the same fields and is modelled by the
  same record. A nullable column (a pointer field) is an \<open>option\<close>. Popularity is a
  finite float decoded from JSON, hence a rational; a time stamp is a number of
  nanoseconds; a date is the string \<^verbatim>\<open>YYYY-MM-DD\<close> that \<^verbatim>\<open>TO_CHAR\<close> gives back, and the
  cast \<^verbatim>\<open>$n::date\<close> of such a string is taken to succeed. Store statements are taken to
  succeed (the source ignores or only logs their errors).
\<close>

record Title =
  TitleID :: int
  TitleType :: string
  IMDbID :: "string option"
  ImageURL :: "string option"
  TMDBID :: "int option"
  OriginalLanguage :: "string option"
  ReleaseDate :: "string option"
  TMDBPopularity :: "rat option"
  RuntimeMinutes :: "int option"
  OriginCountry :: "string option"
  NeedsBackfillTMDB :: bool
  EpisodesCheckedAt :: "int option"

text \<open>
  An HTTP exchange: a transport error, or a status code with the struct as
  \<^verbatim>\<open>json.Decode\<close> left it and whether decoding succeeded.
\<close>

datatype 'a reply = NetErr | Reply int bool 'a

record find_result =
  fr_ID :: int
  fr_PosterPath :: string
  fr_OriginalLanguage :: string
  fr_Date :: string
  fr_Popularity :: rat
  fr_OriginCountry :: "string list"

record TMDBFindResponse =
  TVResults :: "find_result list"
  MovieResults :: "find_result list"

record tmdb_detail =
  PosterPath :: string
  d_OriginalLanguage :: string
  d_ReleaseDate :: string
  FirstAirDate :: string
  Popularity :: rat
  d_OriginCountry :: "string list"
  ProductionCountries :: "string list"
  Runtime :: rat

record TMDBEpisodeResponse =
  Name :: string
  Overview :: string
  StillPath :: string
  ep_AirDate :: string
  ep_Runtime :: int

text \<open>
  The three endpoints. \<open>get_find\<close> is keyed by the IMDb id; \<open>get_detail\<close> by the kind
  (\<open>True\<close> for \<^verbatim>\<open>/tv/\<close>, \<open>False\<close> for \<^verbatim>\<open>/movie/\<close>) and the TMDB id; \<open>get_episode\<close> by the
  four arguments of the call of \<^verbatim>\<open>fetchAndStoreEpisodeData\<close> that issues the request and
  the number of the attempt within that call, so that no two requests are forced to get
  the same answer.
\<close>

record tmdb_api =
  get_find :: "string \<Rightarrow> TMDBFindResponse reply"
  get_detail :: "bool \<Rightarrow> int \<Rightarrow> tmdb_detail reply"
  get_episode :: "int \<times> int \<times> int \<times> int \<Rightarrow> nat \<Rightarrow> TMDBEpisodeResponse reply"

datatype api_call = FindCall string | DetailCall bool int | EpisodeCall int int int

definition image_base_w500 :: string where
  "image_base_w500 = ''https://image.tmdb.org/t/p/w500''"

subsection \<open>SQL expressions\<close>

definition NULLIF :: "string \<Rightarrow> string \<Rightarrow> string option" where
  "NULLIF a b = (if a = b then None else Some a)"

definition COALESCE :: "'a option \<Rightarrow> 'a option \<Rightarrow> 'a option" where
  "COALESCE a b = (case a of Some x \<Rightarrow> Some x | None \<Rightarrow> b)"

text \<open>Go's conversion \<^verbatim>\<open>int(x)\<close> of a float: truncation towards zero.\<close>

definition go_int :: "rat \<Rightarrow> int" where
  "go_int x = (if 0 \<le> x then \<lfloor>x\<rfloor> else \<lceil>x\<rceil>)"

section \<open>BackfillScheduler\<close>

text \<open>
  The statement both backfill paths end with (\<^verbatim>\<open>tmdbBackfillBatch\<close> and
  \<^verbatim>\<open>maybeTMDBBackfill\<close> carry the same text):
  \<^verbatim>\<open>UPDATE titles SET tmdb_id = $1, image_url = CASE WHEN $2 = '' THEN image_url ELSE
  COALESCE(NULLIF($2, ''), image_url) END, original_language = COALESCE(NULLIF($3, ''),
  original_language), release_date = CASE WHEN $4 = '' THEN release_date ELSE $4::date
  END, tmdb_popularity = CASE WHEN $5::real = 0 THEN tmdb_popularity ELSE $5::real END,
  origin_country = COALESCE(NULLIF($6, ''), origin_country), runtime_minutes = CASE WHEN
  $7::int = 0 THEN runtime_minutes ELSE $7::int END, needs_backfill_tmdb = false\<close>.
  Every right-hand side reads the row as it was. The cast to \<^verbatim>\<open>real\<close> is the parameter
  \<open>real4\<close>.
\<close>

definition backfill_update :: "(rat \<Rightarrow> rat) \<Rightarrow> int \<Rightarrow> string \<Rightarrow> string \<Rightarrow> string \<Rightarrow> rat \<Rightarrow>
    string \<Rightarrow> int \<Rightarrow> Title \<Rightarrow> Title" where
  "backfill_update real4 p1 p2 p3 p4 p5 p6 p7 row =
     row\<lparr>TMDBID := Some p1,
         ImageURL := (if p2 = [] then ImageURL row else COALESCE (NULLIF p2 []) (ImageURL row)),
         OriginalLanguage := COALESCE (NULLIF p3 []) (OriginalLanguage row),
         ReleaseDate := (if p4 = [] then ReleaseDate row else Some p4),
         TMDBPopularity := (if real4 p5 = 0 then TMDBPopularity row else Some (real4 p5)),
         OriginCountry := COALESCE (NULLIF p6 []) (OriginCountry row),
         RuntimeMinutes := (if p7 = 0 then RuntimeMinutes row else Some p7),
         NeedsBackfillTMDB := False\<rparr>"

text \<open>From the decoded detail record to the statement: the origin country, the release
  date and the image URL are computed first, in both paths alike.\<close>

definition detail_originCountry :: "tmdb_detail \<Rightarrow> string" where
  "detail_originCountry detail =
     (if d_OriginCountry detail \<noteq> [] then hd (d_OriginCountry detail)
      else if ProductionCountries detail \<noteq> [] then hd (ProductionCountries detail)
      else [])"

definition detail_releaseDate :: "tmdb_detail \<Rightarrow> string" where
  "detail_releaseDate detail =
     (if d_ReleaseDate detail = [] then FirstAirDate detail else d_ReleaseDate detail)"

definition detail_imageURL :: "tmdb_detail \<Rightarrow> string" where
  "detail_imageURL detail =
     (if PosterPath detail \<noteq> [] then image_base_w500 @ PosterPath detail else [])"

definition merge_detail :: "(rat \<Rightarrow> rat) \<Rightarrow> int \<Rightarrow> tmdb_detail \<Rightarrow> Title \<Rightarrow> Title" where
  "merge_detail real4 tmdbID detail row =
     backfill_update real4 tmdbID (detail_imageURL detail) (d_OriginalLanguage detail)
       (detail_releaseDate detail) (Popularity detail) (detail_originCountry detail)
       (go_int (Runtime detail)) row"

text \<open>The choice of the TMDB id among the results of the Find API, the same chain of
  tests in both paths.\<close>

definition pick_tmdb_id :: "string \<Rightarrow> TMDBFindResponse \<Rightarrow> int" where
  "pick_tmdb_id ty result =
     (if ty = ''show'' \<and> TVResults result \<noteq> [] then fr_ID (hd (TVResults result))
      else if ty = ''movie'' \<and> MovieResults result \<noteq> [] then fr_ID (hd (MovieResults result))
      else if MovieResults result \<noteq> [] then fr_ID (hd (MovieResults result))
      else if TVResults result \<noteq> [] then fr_ID (hd (TVResults result))
      else 0)"

definition clear_flag :: "Title \<Rightarrow> Title" where
  "clear_flag row = row\<lparr>NeedsBackfillTMDB := False\<rparr>"

subsection \<open>One row of \<^verbatim>\<open>tmdbBackfillBatch\<close>\<close>

text \<open>
  The body of \<^verbatim>\<open>for _, r := range batch\<close>, on the row the page query selected. The result
  is the row as the statement of the iteration leaves it, the requests sent, and the
  branch that ended the iteration. The outer loop queries the flagged rows again, page
  after page, until none is left.

  An iteration issues at most one statement: \<^verbatim>\<open>UPDATE titles SET needs_backfill_tmdb =
  false WHERE id = $1\<close> on a failed lookup, the merge statement after a detail record was
  read, none after a 429. The statement may fail: the error of the flag-clearing
  statement is not looked at, the error of the merge statement is logged
  (\<^verbatim>\<open>DB update error\<close>) and \<^verbatim>\<open>updated\<close> is not incremented. \<open>stmt_ok\<close> tells whether the
  statement succeeds; a failed statement leaves the row as it was.
\<close>

definition exec_stmt :: "bool \<Rightarrow> (Title \<Rightarrow> Title) \<Rightarrow> Title \<Rightarrow> Title" where
  "exec_stmt stmt_ok stmt row = (if stmt_ok then stmt row else row)"

datatype row_outcome =
  NoExternalId | NoSecondaryId | DetailTransportError | Throttled | DetailOtherStatus | Merged
| MergeFailed

definition batch_resolve :: "tmdb_api \<Rightarrow> string \<Rightarrow> Title \<Rightarrow> int \<times> api_call list" where
  "batch_resolve api imdb r =
     (let tmdbID = (case TMDBID r of None \<Rightarrow> 0 | Some i \<Rightarrow> i) in
      if tmdbID = 0 then
        ((case get_find api imdb of
            NetErr \<Rightarrow> 0
          | Reply code decoded result \<Rightarrow>
              if code = 200 \<and> decoded then pick_tmdb_id (TitleType r) result else 0),
         [FindCall imdb])
      else (tmdbID, []))"

definition backfillRow :: "(rat \<Rightarrow> rat) \<Rightarrow> bool \<Rightarrow> tmdb_api \<Rightarrow> Title \<Rightarrow>
    Title \<times> api_call list \<times> row_outcome" where
  "backfillRow real4 stmt_ok api r =
     (case IMDbID r of
        None \<Rightarrow> (exec_stmt stmt_ok clear_flag r, [], NoExternalId)
      | Some imdb \<Rightarrow>
          if imdb = [] then (exec_stmt stmt_ok clear_flag r, [], NoExternalId)
          else
            (case batch_resolve api imdb r of
               (tmdbID, calls) \<Rightarrow>
                 if tmdbID = 0 then (exec_stmt stmt_ok clear_flag r, calls, NoSecondaryId)
                 else
                   let tv = (TitleType r = ''show'');
                       calls' = calls @ [DetailCall tv tmdbID]
                   in (case get_detail api tv tmdbID of
                         NetErr \<Rightarrow> (exec_stmt stmt_ok clear_flag r, calls', DetailTransportError)
                       | Reply code decoded detail \<Rightarrow>
                           if code \<noteq> 200 then
                             (if code = 429 then (r, calls', Throttled)
                              else (exec_stmt stmt_ok clear_flag r, calls', DetailOtherStatus))
                           else if stmt_ok then (merge_detail real4 tmdbID detail r, calls', Merged)
                           else (r, calls', MergeFailed))))"

subsection \<open>\<^verbatim>\<open>maybeTMDBBackfill\<close>\<close>

text \<open>
  The lazy path, on the struct \<open>title\<close> the handler holds and the stored \<open>row\<close> with its
  id. The result is the struct, the row and the requests sent. Here too a call issues at
  most one statement; after a failed flag-clearing statement the struct's flag is cleared
  all the same, after a failed merge statement (\<^verbatim>\<open>TMDB backfill update failed\<close>) the
  function returns with the struct as it was.
\<close>

definition maybeTMDBBackfill :: "(rat \<Rightarrow> rat) \<Rightarrow> bool \<Rightarrow> string \<Rightarrow> tmdb_api \<Rightarrow> Title \<Rightarrow> Title \<Rightarrow>
    Title \<times> Title \<times> api_call list" where
  "maybeTMDBBackfill real4 stmt_ok tmdbAPIKey api title row =
     (if \<not> NeedsBackfillTMDB title \<or> tmdbAPIKey = [] then (title, row, [])
      else if IMDbID title = None \<or> IMDbID title = Some []
      then (clear_flag title, exec_stmt stmt_ok clear_flag row, [])
      else
        let imdbID = (case IMDbID title of None \<Rightarrow> [] | Some i \<Rightarrow> i);
            known = (case TMDBID title of None \<Rightarrow> 0 | Some i \<Rightarrow> i);
            found = (if known = 0 then
                       (case get_find api imdbID of
                          NetErr \<Rightarrow> None
                        | Reply code decoded result \<Rightarrow>
                            if code \<noteq> 200 \<or> \<not> decoded then None
                            else Some (pick_tmdb_id (TitleType title) result))
                     else Some known);
            calls = (if known = 0 then [FindCall imdbID] else [])
        in (case found of
              None \<Rightarrow> (title, row, calls)
            | Some tmdbID \<Rightarrow>
                if tmdbID = 0 then (clear_flag title, exec_stmt stmt_ok clear_flag row, calls)
                else
                  let tv = (TitleType title = ''show'');
                      calls' = calls @ [DetailCall tv tmdbID]
                  in (case get_detail api tv tmdbID of
                        NetErr \<Rightarrow> (title, row, calls')
                      | Reply code decoded detail \<Rightarrow>
                          if code \<noteq> 200
                          then (clear_flag title, exec_stmt stmt_ok clear_flag row, calls')
                          else if \<not> decoded then (title, row, calls')
                          else if \<not> stmt_ok then (title, row, calls')
                          else
                            let t1 = title\<lparr>NeedsBackfillTMDB := False, TMDBID := Some tmdbID\<rparr>;
                                t2 = (if detail_originCountry detail \<noteq> []
                                      then t1\<lparr>OriginCountry := Some (detail_originCountry detail)\<rparr> else t1);
                                t3 = (if detail_imageURL detail \<noteq> []
                                      then t2\<lparr>ImageURL := Some (detail_imageURL detail)\<rparr> else t2);
                                t4 = (if 0 < Popularity detail
                                      then t3\<lparr>TMDBPopularity := Some (Popularity detail)\<rparr> else t3)
                            in (t4, merge_detail real4 tmdbID detail row, calls'))))"

subsection \<open>A concrete row and API, used by the witnesses\<close>

definition demo_title :: Title where
  "demo_title =
     \<lparr>TitleID = 1, TitleType = ''movie'', IMDbID = Some ''tt01'',
      ImageURL = Some ''https://image.tmdb.org/t/p/w500/old.jpg'', TMDBID = Some 42,
      OriginalLanguage = Some ''en'', ReleaseDate = Some ''2020-01-01'',
      TMDBPopularity = Some 5, RuntimeMinutes = Some 100, OriginCountry = Some ''US'',
      NeedsBackfillTMDB = True, EpisodesCheckedAt = None\<rparr>"

definition demo_detail :: tmdb_detail where
  "demo_detail =
     \<lparr>PosterPath = ''/new.jpg'', d_OriginalLanguage = [], d_ReleaseDate = [], FirstAirDate = [],
      Popularity = 0, d_OriginCountry = [], ProductionCountries = [], Runtime = 0\<rparr>"

definition demo_api :: "int \<Rightarrow> tmdb_api" where
  "demo_api code =
     \<lparr>get_find = (\<lambda>_. NetErr), get_detail = (\<lambda>tv i. Reply code True demo_detail),
      get_episode = (\<lambda>_ _. NetErr)\<rparr>"

subsection \<open>The fill-if-empty policy, in the words of the specification\<close>

text \<open>A real value: not null, not empty, not zero.\<close>

definition str_real :: "string option \<Rightarrow> bool" where
  "str_real v = (v \<noteq> None \<and> v \<noteq> Some [])"

definition int_real :: "int option \<Rightarrow> bool" where
  "int_real v = (v \<noteq> None \<and> v \<noteq> Some 0)"

definition rat_real :: "rat option \<Rightarrow> bool" where
  "rat_real v = (v \<noteq> None \<and> v \<noteq> Some 0)"

text \<open>Each of the six fields is as it was or holds a real value.\<close>

definition kept_or_real :: "Title \<Rightarrow> Title \<Rightarrow> bool" where
  "kept_or_real row row' =
     ((ImageURL row' = ImageURL row \<or> str_real (ImageURL row')) \<and>
      (OriginalLanguage row' = OriginalLanguage row \<or> str_real (OriginalLanguage row')) \<and>
      (ReleaseDate row' = ReleaseDate row \<or> str_real (ReleaseDate row')) \<and>
      (TMDBPopularity row' = TMDBPopularity row \<or> rat_real (TMDBPopularity row')) \<and>
      (OriginCountry row' = OriginCountry row \<or> str_real (OriginCountry row')) \<and>
      (RuntimeMinutes row' = RuntimeMinutes row \<or> int_real (RuntimeMinutes row')))"

section \<open>LazyFetchGate\<close>

text \<open>
  The server (the Go file that defines \<^verbatim>\<open>fetchAndStoreTMDBImage\<close>, \<^verbatim>\<open>maybeFetchImage\<close>,
  \<^verbatim>\<open>maybeFetchEpisodes\<close> and the page handlers). Two strings mark a negative result in an
  image column: \<^verbatim>\<open>fetchAndStoreTMDBImage\<close> writes \<^verbatim>\<open>'none'\<close> into \<^verbatim>\<open>titles.image_url\<close>, and
  the episode path writes \<^verbatim>\<open>TMDB_NOT_FOUND_DO_NOT_RETRY\<close> into \<^verbatim>\<open>show_episodes.image_url\<close>.
\<close>

definition title_sentinel :: string where
  "title_sentinel = ''none''"

definition episode_sentinel :: string where
  "episode_sentinel = ''TMDB_NOT_FOUND_DO_NOT_RETRY''"

definition hasImage :: "string option \<Rightarrow> bool" where
  "hasImage imageURL =
     (imageURL \<noteq> None \<and> imageURL \<noteq> Some [] \<and> imageURL \<noteq> Some ''TMDB_NOT_FOUND_DO_NOT_RETRY'')"

definition needsFetch :: "string option \<Rightarrow> string option \<Rightarrow> bool" where
  "needsFetch imageURL imdbID =
     (if imdbID = None \<or> imdbID = Some [] then False
      else imageURL = None \<or> imageURL = Some [])"

subsection \<open>\<^verbatim>\<open>fetchAndStoreTMDBImage\<close>\<close>

record picked =
  pk_posterPath :: string
  pk_tmdbID :: int
  pk_origLang :: string
  pk_releaseDate :: string
  pk_popularity :: rat
  pk_originCountry :: string

definition picked_zero :: picked where
  "picked_zero = \<lparr>pk_posterPath = [], pk_tmdbID = 0, pk_origLang = [], pk_releaseDate = [],
     pk_popularity = 0, pk_originCountry = []\<rparr>"

text \<open>The assignments that copy the id, language, date, popularity and (when the list is
  not empty) the first origin country of a result.\<close>

definition take_meta :: "find_result \<Rightarrow> picked \<Rightarrow> picked" where
  "take_meta x p =
     p\<lparr>pk_tmdbID := fr_ID x, pk_origLang := fr_OriginalLanguage x, pk_releaseDate := fr_Date x,
       pk_popularity := fr_Popularity x,
       pk_originCountry := (if fr_OriginCountry x \<noteq> [] then hd (fr_OriginCountry x)
                            else pk_originCountry p)\<rparr>"

definition pick_primary :: "string \<Rightarrow> TMDBFindResponse \<Rightarrow> picked" where
  "pick_primary titleType result =
     (if titleType = ''show'' \<and> TVResults result \<noteq> []
      then (take_meta (hd (TVResults result)) picked_zero)
             \<lparr>pk_posterPath := fr_PosterPath (hd (TVResults result))\<rparr>
      else if titleType = ''movie'' \<and> MovieResults result \<noteq> []
      then (take_meta (hd (MovieResults result)) picked_zero)
             \<lparr>pk_posterPath := fr_PosterPath (hd (MovieResults result))\<rparr>
      else picked_zero)"

text \<open>\<^verbatim>\<open>// Fallback: check both result types\<close>, one list at a time.\<close>

definition pick_fallback :: "find_result list \<Rightarrow> picked \<Rightarrow> picked" where
  "pick_fallback rs p =
     (if pk_posterPath p = [] \<and> rs \<noteq> [] then
        let p1 = p\<lparr>pk_posterPath := fr_PosterPath (hd rs)\<rparr>
        in if pk_tmdbID p1 = 0 then take_meta (hd rs) p1 else p1
      else p)"

definition pick_all :: "string \<Rightarrow> TMDBFindResponse \<Rightarrow> picked" where
  "pick_all titleType result =
     pick_fallback (TVResults result)
       (pick_fallback (MovieResults result) (pick_primary titleType result))"

text \<open>
  The two statements \<^verbatim>\<open>UPDATE titles SET image_url = ..., tmdb_id = ..., ... WHERE imdb_id
  = ...\<close>: \<open>img\<close> is \<^verbatim>\<open>'none'\<close> on a miss and the poster URL on a hit.
\<close>

definition store_image :: "string \<Rightarrow> string \<Rightarrow> picked \<Rightarrow> Title \<Rightarrow> Title" where
  "store_image imdbID img p row =
     (if IMDbID row = Some imdbID then
        row\<lparr>ImageURL := Some img, TMDBID := Some (pk_tmdbID p),
            OriginalLanguage := COALESCE (NULLIF (pk_origLang p) []) (OriginalLanguage row),
            ReleaseDate := (if pk_releaseDate p = [] then ReleaseDate row else Some (pk_releaseDate p)),
            TMDBPopularity := Some (pk_popularity p),
            OriginCountry := COALESCE (NULLIF (pk_originCountry p) []) (OriginCountry row),
            NeedsBackfillTMDB := False\<rparr>
      else row)"

text \<open>The result: the returned pair (URL, TMDB id), the requests sent, and the stored row
  with this IMDb id as the statement leaves it.\<close>

definition fetchAndStoreTMDBImage :: "string \<Rightarrow> tmdb_api \<Rightarrow> string \<Rightarrow> string \<Rightarrow> Title \<Rightarrow>
    (string \<times> int) \<times> api_call list \<times> Title" where
  "fetchAndStoreTMDBImage tmdbAPIKey api imdbID titleType row =
     (if tmdbAPIKey = [] \<or> imdbID = [] then (([], 0), [], row)
      else
        (case get_find api imdbID of
           NetErr \<Rightarrow> (([], 0), [FindCall imdbID], row)
         | Reply code decoded result \<Rightarrow>
             if code \<noteq> 200 then (([], 0), [FindCall imdbID], row)
             else if \<not> decoded then (([], 0), [FindCall imdbID], row)
             else
               let p = pick_all titleType result;
                   tv = (titleType = ''show'');
                   ask = (pk_originCountry p = [] \<and> pk_tmdbID p \<noteq> 0 \<and> tmdbAPIKey \<noteq> []);
                   p' = (if ask then
                           (case get_detail api tv (pk_tmdbID p) of
                              NetErr \<Rightarrow> p
                            | Reply dcode ddecoded detail \<Rightarrow>
                                if dcode = 200 \<and> ddecoded
                                then p\<lparr>pk_originCountry := detail_originCountry detail\<rparr> else p)
                         else p);
                   calls = FindCall imdbID # (if ask then [DetailCall tv (pk_tmdbID p)] else [])
               in if pk_posterPath p' = []
                  then (([], pk_tmdbID p'), calls, store_image imdbID ''none'' p' row)
                  else ((image_base_w500 @ pk_posterPath p', pk_tmdbID p'), calls,
                        store_image imdbID (image_base_w500 @ pk_posterPath p') p' row)))"

subsection \<open>\<^verbatim>\<open>maybeFetchImage\<close>\<close>

definition maybeFetchImage :: "string \<Rightarrow> tmdb_api \<Rightarrow> Title \<Rightarrow> Title \<Rightarrow> Title \<times> api_call list \<times> Title" where
  "maybeFetchImage tmdbAPIKey api title row =
     (if \<not> needsFetch (ImageURL title) (IMDbID title) then (title, [], row)
      else
        (case fetchAndStoreTMDBImage tmdbAPIKey api
                (case IMDbID title of None \<Rightarrow> [] | Some i \<Rightarrow> i) (TitleType title) row of
           ((url, tmdbID), calls, row') \<Rightarrow>
             let t1 = (if url \<noteq> [] then title\<lparr>ImageURL := Some url\<rparr> else title\<lparr>ImageURL := None\<rparr>);
                 t2 = (if tmdbID \<noteq> 0 then t1\<lparr>TMDBID := Some tmdbID\<rparr> else t1)
             in (t2, calls, row')))"

subsection \<open>The image post-processing of \<^verbatim>\<open>handleTitlesList\<close>\<close>

record TitleListItem =
  li_TitleID :: int
  li_Type :: string
  li_IMDbID :: "string option"
  li_ImageURL :: "string option"

text \<open>
  Between the query and the template: every item that \<^verbatim>\<open>needsFetch\<close> is fetched (\<open>fetch\<close>
  gives the URL \<^verbatim>\<open>fetchAndStoreTMDBImage\<close> returns for an IMDb id and a type) and takes a
  non-empty URL; then the loop under
  \<^verbatim>\<open>// Strip "TMDB_NOT_FOUND_DO_NOT_RETRY" sentinel so templates don't render it\<close> runs.
  The result is the list the template receives.
\<close>

definition list_fetch_item :: "(string \<Rightarrow> string \<Rightarrow> string) \<Rightarrow> TitleListItem \<Rightarrow> TitleListItem" where
  "list_fetch_item fetch item =
     (if needsFetch (li_ImageURL item) (li_IMDbID item) then
        let url = fetch (case li_IMDbID item of None \<Rightarrow> [] | Some i \<Rightarrow> i) (li_Type item)
        in if url \<noteq> [] then item\<lparr>li_ImageURL := Some url\<rparr> else item
      else item)"

definition list_strip_item :: "TitleListItem \<Rightarrow> TitleListItem" where
  "list_strip_item item =
     (if li_ImageURL item = Some ''TMDB_NOT_FOUND_DO_NOT_RETRY''
      then item\<lparr>li_ImageURL := None\<rparr> else item)"

definition handleTitlesList_items :: "(string \<Rightarrow> string \<Rightarrow> string) \<Rightarrow> TitleListItem list \<Rightarrow>
    TitleListItem list" where
  "handleTitlesList_items fetch items = map list_strip_item (map (list_fetch_item fetch) items)"

subsection \<open>Shows, seasons and episodes as the server loads them\<close>

record Episode =
  EpisodeID :: int
  SeasonID :: int
  EpisodeNumber :: int
  DisplayName :: "string option"
  EpImageURL :: "string option"
  AirDate :: "string option"
  EpRuntimeMinutes :: "int option"
  Synopsis :: "string option"

record Season =
  s_SeasonID :: int
  SeasonNumber :: int
  Episodes :: "Episode list"

record Show =
  ShowID :: int
  ShowTitle :: Title
  Seasons :: "Season list"

subsection \<open>\<^verbatim>\<open>fetchAndStoreEpisodeData\<close>\<close>

text \<open>The named results of the function.\<close>

record fetched =
  f_imageURL :: string
  f_airDate :: string
  f_displayName :: string
  f_synopsis :: string
  f_runtime :: int
  f_ok :: bool
  f_notFound :: bool

definition fetched_zero :: fetched where
  "fetched_zero = \<lparr>f_imageURL = [], f_airDate = [], f_displayName = [], f_synopsis = [],
     f_runtime = 0, f_ok = False, f_notFound = False\<rparr>"

text \<open>The statements on \<^verbatim>\<open>show_episodes\<close>: the full update of an episode (id, image, air
  date, runtime, name, synopsis) and the sentinel alone.\<close>

datatype store_stmt =
  StoreEpisodeData int string string int string string
| StoreEpisodeSentinel int

definition image_base_w400 :: string where
  "image_base_w400 = ''https://image.tmdb.org/t/p/w400''"

text \<open>
  \<^verbatim>\<open>for attempt := 0; attempt < 3; attempt++\<close>: a transport error returns, a 429 is tried
  again, any other answer leaves the loop; after three 429 the last answer is kept. The
  third argument counts the attempts left; the result is the answer and the number of
  requests sent.
\<close>

fun attempts :: "(nat \<Rightarrow> 'a reply) \<Rightarrow> nat \<Rightarrow> nat \<Rightarrow> 'a reply \<Rightarrow> 'a reply \<times> nat" where
  "attempts get k 0 prev = (prev, k)"
| "attempts get k (Suc n) prev =
     (case get k of
        NetErr \<Rightarrow> (NetErr, Suc k)
      | Reply code decoded body \<Rightarrow>
          if code = 429 then attempts get (Suc k) n (Reply code decoded body)
          else (Reply code decoded body, Suc k))"

definition fetchAndStoreEpisodeData :: "string \<Rightarrow> tmdb_api \<Rightarrow> int \<Rightarrow> int \<Rightarrow> int \<Rightarrow> int \<Rightarrow>
    fetched \<times> api_call list \<times> store_stmt list" where
  "fetchAndStoreEpisodeData tmdbAPIKey api tmdbID seasonNum episodeNum episodeID =
     (if tmdbAPIKey = [] then (fetched_zero, [], [])
      else
        (case attempts (get_episode api (tmdbID, seasonNum, episodeNum, episodeID)) 0 3 NetErr of
           (resp, n) \<Rightarrow>
             let calls = replicate n (EpisodeCall tmdbID seasonNum episodeNum) in
             (case resp of
                NetErr \<Rightarrow> (fetched_zero, calls, [])
              | Reply code decoded ep \<Rightarrow>
                  if code = 404 then (fetched_zero\<lparr>f_notFound := True\<rparr>, calls, [])
                  else if code \<noteq> 200 then (fetched_zero, calls, [])
                  else if \<not> decoded then (fetched_zero, calls, [])
                  else
                    let imageURL = (if StillPath ep \<noteq> [] then image_base_w400 @ StillPath ep else []);
                        dbImageURL = (if imageURL = [] then ''TMDB_NOT_FOUND_DO_NOT_RETRY'' else imageURL)
                    in (\<lparr>f_imageURL = imageURL, f_airDate = ep_AirDate ep, f_displayName = Name ep,
                         f_synopsis = Overview ep, f_runtime = ep_Runtime ep, f_ok = True,
                         f_notFound = False\<rparr>,
                        calls,
                        [StoreEpisodeData episodeID dbImageURL (ep_AirDate ep) (ep_Runtime ep)
                           (Name ep) (Overview ep)]))))"

subsection \<open>\<^verbatim>\<open>stripEpisodeSentinels\<close>\<close>

definition strip_episode :: "Episode \<Rightarrow> Episode" where
  "strip_episode ep =
     (if EpImageURL ep = Some ''TMDB_NOT_FOUND_DO_NOT_RETRY'' then ep\<lparr>EpImageURL := None\<rparr> else ep)"

definition stripEpisodeSentinels :: "Show \<Rightarrow> Show" where
  "stripEpisodeSentinels show =
     show\<lparr>Seasons := map (\<lambda>s. s\<lparr>Episodes := map strip_episode (Episodes s)\<rparr>) (Seasons show)\<rparr>"

subsection \<open>\<^verbatim>\<open>maybeFetchEpisodes\<close>\<close>

record epRef =
  seasonIdx :: nat
  episodeIdx :: nat
  seasonNum :: int
  episodeNum :: int
  episodeID :: int

record epResult =
  r_ref :: epRef
  r_fetched :: fetched

text \<open>\<^verbatim>\<open>// Collect episodes needing fetch\<close>: the two nested loops over seasons and
  episodes, in order.\<close>

definition wants_fetch :: "Episode \<Rightarrow> bool" where
  "wants_fetch ep =
     (EpImageURL ep = None \<or> EpImageURL ep = Some [] \<or>
      EpImageURL ep = Some ''TMDB_NOT_FOUND_DO_NOT_RETRY'')"

definition season_refs :: "nat \<times> Season \<Rightarrow> epRef list" where
  "season_refs = (\<lambda>(si, season).
     map (\<lambda>(ei, ep). \<lparr>seasonIdx = si, episodeIdx = ei, seasonNum = SeasonNumber season,
                       episodeNum = EpisodeNumber ep, episodeID = EpisodeID ep\<rparr>)
       (filter (\<lambda>(ei, ep). wants_fetch ep) (enumerate 0 (Episodes season))))"

definition collect_toFetch :: "Season list \<Rightarrow> epRef list" where
  "collect_toFetch seasons = concat (map season_refs (enumerate 0 seasons))"

text \<open>The first round: one call of \<^verbatim>\<open>fetchAndStoreEpisodeData\<close> per entry, each writing
  its own slot of \<^verbatim>\<open>results\<close>.\<close>

definition fetch_ref :: "string \<Rightarrow> tmdb_api \<Rightarrow> int \<Rightarrow> epRef \<Rightarrow> fetched \<times> api_call list \<times> store_stmt list" where
  "fetch_ref tmdbAPIKey api tmdbID ref =
     fetchAndStoreEpisodeData tmdbAPIKey api tmdbID (seasonNum ref) (episodeNum ref) (episodeID ref)"

definition first_results :: "string \<Rightarrow> tmdb_api \<Rightarrow> int \<Rightarrow> epRef list \<Rightarrow> epResult list" where
  "first_results tmdbAPIKey api tmdbID toFetch =
     map (\<lambda>ref. \<lparr>r_ref = ref, r_fetched = fst (fetch_ref tmdbAPIKey api tmdbID ref)\<rparr>) toFetch"

definition first_calls :: "string \<Rightarrow> tmdb_api \<Rightarrow> int \<Rightarrow> epRef list \<Rightarrow> api_call list" where
  "first_calls tmdbAPIKey api tmdbID toFetch =
     concat (map (\<lambda>ref. fst (snd (fetch_ref tmdbAPIKey api tmdbID ref))) toFetch)"

definition first_writes :: "string \<Rightarrow> tmdb_api \<Rightarrow> int \<Rightarrow> epRef list \<Rightarrow> store_stmt list" where
  "first_writes tmdbAPIKey api tmdbID toFetch =
     concat (map (\<lambda>ref. snd (snd (fetch_ref tmdbAPIKey api tmdbID ref))) toFetch)"

text \<open>\<^verbatim>\<open>seasonNotFound\<close>: per season number, the count of not-found results and the count
  of results.\<close>

definition bump_stats :: "epResult \<Rightarrow> (int \<rightharpoonup> nat \<times> nat) \<Rightarrow> (int \<rightharpoonup> nat \<times> nat)" where
  "bump_stats res m =
     (let sn = seasonNum (r_ref res);
          st = (case m sn of None \<Rightarrow> (0, 0) | Some x \<Rightarrow> x)
      in m(sn \<mapsto> (fst st + (if f_notFound (r_fetched res) then 1 else 0), snd st + 1)))"

definition seasonNotFound :: "epResult list \<Rightarrow> (int \<rightharpoonup> nat \<times> nat)" where
  "seasonNotFound results = fold bump_stats results Map.empty"

text \<open>\<^verbatim>\<open>episodeOffset\<close>: per season number, the number of episodes of the seasons before
  it in \<^verbatim>\<open>show.Seasons\<close>. A missing key reads as 0.\<close>

fun episodeOffset_loop :: "Season list \<Rightarrow> int \<Rightarrow> (int \<rightharpoonup> int) \<Rightarrow> (int \<rightharpoonup> int)" where
  "episodeOffset_loop [] cumulative m = m"
| "episodeOffset_loop (s # ss) cumulative m =
     episodeOffset_loop ss (cumulative + int (length (Episodes s))) (m(SeasonNumber s \<mapsto> cumulative))"

definition episodeOffset :: "Season list \<Rightarrow> (int \<rightharpoonup> int)" where
  "episodeOffset seasons = episodeOffset_loop seasons 0 Map.empty"

definition offset_of :: "(int \<rightharpoonup> int) \<Rightarrow> int \<Rightarrow> int" where
  "offset_of m sn = (case m sn of None \<Rightarrow> 0 | Some v \<Rightarrow> v)"

text \<open>\<^verbatim>\<open>omniRetry\<close>: the indices into \<^verbatim>\<open>results\<close> that pass the three tests of the loop.\<close>

definition omni_candidate :: "epResult list \<Rightarrow> nat \<Rightarrow> bool" where
  "omni_candidate results i =
     (let res = results ! i in
      f_notFound (r_fetched res) \<and>
      (case seasonNotFound results (seasonNum (r_ref res)) of
         None \<Rightarrow> False
       | Some (nf, tot) \<Rightarrow> nf = tot) \<and>
      seasonNum (r_ref res) \<noteq> 1)"

definition omniRetry :: "epResult list \<Rightarrow> nat list" where
  "omniRetry results = filter (omni_candidate results) [0..<length results]"

text \<open>The retry of one index: season 1, the absolute episode number; the slot is
  replaced only when the call succeeded.\<close>

definition absEp :: "(int \<rightharpoonup> int) \<Rightarrow> epRef \<Rightarrow> int" where
  "absEp offsets ref = offset_of offsets (seasonNum ref) + episodeNum ref"

definition retry_one :: "string \<Rightarrow> tmdb_api \<Rightarrow> int \<Rightarrow> (int \<rightharpoonup> int) \<Rightarrow> nat \<Rightarrow>
    epResult list \<times> api_call list \<times> store_stmt list \<Rightarrow> epResult list \<times> api_call list \<times> store_stmt list" where
  "retry_one tmdbAPIKey api tmdbID offsets idx = (\<lambda>(results, calls, writes).
     let ref = r_ref (results ! idx) in
     (case fetchAndStoreEpisodeData tmdbAPIKey api tmdbID 1 (absEp offsets ref) (episodeID ref) of
        (f, c, w) \<Rightarrow>
          ((if f_ok f
            then results[idx := \<lparr>r_ref = ref, r_fetched = f\<lparr>f_ok := True, f_notFound := False\<rparr>\<rparr>]
            else results),
           calls @ c, writes @ w)))"

definition retry_round :: "string \<Rightarrow> tmdb_api \<Rightarrow> int \<Rightarrow> (int \<rightharpoonup> int) \<Rightarrow> epResult list \<Rightarrow>
    epResult list \<times> api_call list \<times> store_stmt list" where
  "retry_round tmdbAPIKey api tmdbID offsets results =
     fold (retry_one tmdbAPIKey api tmdbID offsets) (omniRetry results) (results, [], [])"

text \<open>\<^verbatim>\<open>// Update in-memory structs for immediate rendering\<close>.\<close>

definition apply_fetched :: "fetched \<Rightarrow> Episode \<Rightarrow> Episode" where
  "apply_fetched f ep =
     (let e1 = (if f_imageURL f \<noteq> [] then ep\<lparr>EpImageURL := Some (f_imageURL f)\<rparr> else ep);
          e2 = (if f_airDate f \<noteq> [] then e1\<lparr>AirDate := Some (f_airDate f)\<rparr> else e1);
          e3 = (if f_displayName f \<noteq> [] \<and> DisplayName e2 = None
                then e2\<lparr>DisplayName := Some (f_displayName f)\<rparr> else e2);
          e4 = (if f_synopsis f \<noteq> [] then e3\<lparr>Synopsis := Some (f_synopsis f)\<rparr> else e3)
      in if f_runtime f \<noteq> 0 then e4\<lparr>EpRuntimeMinutes := Some (f_runtime f)\<rparr> else e4)"

definition apply_result :: "epResult \<Rightarrow> Season list \<times> store_stmt list \<Rightarrow> Season list \<times> store_stmt list" where
  "apply_result res = (\<lambda>(seasons, writes).
     if \<not> f_ok (r_fetched res) then
       (seasons,
        writes @ (if f_notFound (r_fetched res) then [StoreEpisodeSentinel (episodeID (r_ref res))] else []))
     else
       let si = seasonIdx (r_ref res); ei = episodeIdx (r_ref res); season = seasons ! si
       in (seasons[si := season\<lparr>Episodes :=
              (Episodes season)[ei := apply_fetched (r_fetched res) (Episodes season ! ei)]\<rparr>],
           writes))"

definition cooldown :: int where
  "cooldown = 24 * 3600 * 1000000000"

record gate_result =
  g_show :: Show
  g_calls :: "api_call list"
  g_writes :: "store_stmt list"
  g_row :: Title

text \<open>The rounds, once the gate has let the request through with a non-empty
  \<^verbatim>\<open>toFetch\<close>; the row gets \<^verbatim>\<open>episodes_checked_at = NOW()\<close>.\<close>

definition fetch_rounds :: "string \<Rightarrow> tmdb_api \<Rightarrow> int \<Rightarrow> int \<Rightarrow> Title \<Rightarrow> Show \<Rightarrow> epRef list \<Rightarrow> gate_result" where
  "fetch_rounds tmdbAPIKey api now tmdbID row show toFetch =
     (let results = first_results tmdbAPIKey api tmdbID toFetch;
          offsets = episodeOffset (Seasons show)
      in (case retry_round tmdbAPIKey api tmdbID offsets results of
            (results', calls2, writes2) \<Rightarrow>
              (case fold apply_result results' (Seasons show, []) of
                 (seasons', writes3) \<Rightarrow>
                   \<lparr>g_show = stripEpisodeSentinels (show\<lparr>Seasons := seasons'\<rparr>),
                    g_calls = first_calls tmdbAPIKey api tmdbID toFetch @ calls2,
                    g_writes = first_writes tmdbAPIKey api tmdbID toFetch @ writes2 @ writes3,
                    g_row = (if TitleID row = TitleID (ShowTitle show)
                             then row\<lparr>EpisodesCheckedAt := Some now\<rparr> else row)\<rparr>)))"

text \<open>The gate. \<open>now\<close> is the clock in nanoseconds, \<open>row\<close> the stored row of the show's
  title.\<close>

definition maybeFetchEpisodes :: "string \<Rightarrow> tmdb_api \<Rightarrow> int \<Rightarrow> Title \<Rightarrow> Show \<Rightarrow> gate_result" where
  "maybeFetchEpisodes tmdbAPIKey api now row show =
     (if tmdbAPIKey = [] then \<lparr>g_show = show, g_calls = [], g_writes = [], g_row = row\<rparr>
      else if IMDbID (ShowTitle show) = None \<or> IMDbID (ShowTitle show) = Some []
      then \<lparr>g_show = show, g_calls = [], g_writes = [], g_row = row\<rparr>
      else
        let known = (case TMDBID (ShowTitle show) of None \<Rightarrow> 0 | Some i \<Rightarrow> i);
            looked = (if known = 0
                      then fetchAndStoreTMDBImage tmdbAPIKey api
                             (case IMDbID (ShowTitle show) of None \<Rightarrow> [] | Some i \<Rightarrow> i) ''show'' row
                      else (([], known), [], row));
            tmdbID = snd (fst looked);
            calls0 = fst (snd looked);
            row' = snd (snd looked);
            show1 = (if known = 0 \<and> tmdbID \<noteq> 0
                     then show\<lparr>ShowTitle := (ShowTitle show)\<lparr>TMDBID := Some tmdbID\<rparr>\<rparr> else show)
        in if tmdbID = 0 then \<lparr>g_show = show1, g_calls = calls0, g_writes = [], g_row = row'\<rparr>
           else if (case EpisodesCheckedAt (ShowTitle show1) of
                      None \<Rightarrow> False
                    | Some t \<Rightarrow> now - t < cooldown)
           then \<lparr>g_show = stripEpisodeSentinels show1, g_calls = calls0, g_writes = [], g_row = row'\<rparr>
           else
             let toFetch = collect_toFetch (Seasons show1) in
             if toFetch = []
             then \<lparr>g_show = stripEpisodeSentinels show1, g_calls = calls0, g_writes = [], g_row = row'\<rparr>
             else
               let r = fetch_rounds tmdbAPIKey api now tmdbID row' show1 toFetch
               in r\<lparr>g_calls := calls0 @ g_calls r\<rparr>)"

subsection \<open>A concrete show and API, used by the witnesses\<close>

definition demo_episode :: "int \<Rightarrow> int \<Rightarrow> string option \<Rightarrow> Episode" where
  "demo_episode sid n img =
     \<lparr>EpisodeID = sid * 100 + n, SeasonID = sid, EpisodeNumber = n, DisplayName = None,
      EpImageURL = img, AirDate = None, EpRuntimeMinutes = None, Synopsis = None\<rparr>"

definition demo_season :: "int \<Rightarrow> nat \<Rightarrow> string option \<Rightarrow> Season" where
  "demo_season n k img =
     \<lparr>s_SeasonID = n, SeasonNumber = n,
      Episodes = map (\<lambda>i. demo_episode n (int i) img) [1..<Suc k]\<rparr>"

definition demo_show_title :: Title where
  "demo_show_title =
     \<lparr>TitleID = 9, TitleType = ''show'', IMDbID = Some ''tt09'', ImageURL = Some ''p'',
      TMDBID = Some 77, OriginalLanguage = None, ReleaseDate = None, TMDBPopularity = None,
      RuntimeMinutes = None, OriginCountry = None, NeedsBackfillTMDB = False,
      EpisodesCheckedAt = None\<rparr>"

definition demo_show :: Show where
  "demo_show = \<lparr>ShowID = 5, ShowTitle = demo_show_title,
     Seasons = [demo_season 1 24 (Some ''x''), demo_season 2 24 (Some ''x''), demo_season 3 2 None]\<rparr>"

definition demo_still :: TMDBEpisodeResponse where
  "demo_still = \<lparr>Name = ''N'', Overview = ''O'', StillPath = ''/s.jpg'', ep_AirDate = [], ep_Runtime = 0\<rparr>"

definition demo_ep_api :: tmdb_api where
  "demo_ep_api =
     \<lparr>get_find = (\<lambda>_. NetErr), get_detail = (\<lambda>_ _. NetErr),
      get_episode = (\<lambda>(t, s, e, i) k. if s = 1 \<and> e = 49 then Reply 200 True demo_still
                                        else Reply 404 False demo_still)\<rparr>"

subsection \<open>Sentinels on the way to the template\<close>

definition demo_find_no_poster :: TMDBFindResponse where
  "demo_find_no_poster =
     \<lparr>TVResults = [],
      MovieResults = [\<lparr>fr_ID = 42, fr_PosterPath = [], fr_OriginalLanguage = ''en'',
                       fr_Date = ''2020-01-01'', fr_Popularity = 1, fr_OriginCountry = [''US'']\<rparr>]\<rparr>"

definition demo_miss_api :: tmdb_api where
  "demo_miss_api =
     \<lparr>get_find = (\<lambda>_. Reply 200 True demo_find_no_poster), get_detail = (\<lambda>_ _. NetErr),
      get_episode = (\<lambda>_ _. NetErr)\<rparr>"

definition demo_unfetched_title :: Title where
  "demo_unfetched_title =
     \<lparr>TitleID = 1, TitleType = ''movie'', IMDbID = Some ''tt01'', ImageURL = None, TMDBID = None,
      OriginalLanguage = None, ReleaseDate = None, TMDBPopularity = None, RuntimeMinutes = None,
      OriginCountry = None, NeedsBackfillTMDB = True, EpisodesCheckedAt = None\<rparr>"

definition demo_missed_title :: Title where
  "demo_missed_title =
     \<lparr>TitleID = 1, TitleType = ''movie'', IMDbID = Some ''tt01'', ImageURL = Some ''none'',
      TMDBID = Some 42, OriginalLanguage = Some ''en'', ReleaseDate = Some ''2020-01-01'',
      TMDBPopularity = Some 1, RuntimeMinutes = None, OriginCountry = Some ''US'',
      NeedsBackfillTMDB = False, EpisodesCheckedAt = None\<rparr>"

definition demo_missed_item :: TitleListItem where
  "demo_missed_item =
     \<lparr>li_TitleID = 1, li_Type = ''movie'', li_IMDbID = Some ''tt01'', li_ImageURL = Some ''none''\<rparr>"

definition demo_sentinel_show :: Show where
  "demo_sentinel_show =
     \<lparr>ShowID = 5, ShowTitle = demo_show_title,
      Seasons = [demo_season 1 1 (Some ''TMDB_NOT_FOUND_DO_NOT_RETRY'')]\<rparr>"

subsection \<open>Requests under the cooldown\<close>

definition is_episode_call :: "api_call \<Rightarrow> bool" where
  "is_episode_call c = (case c of EpisodeCall t s e \<Rightarrow> True | _ \<Rightarrow> False)"

definition demo_checked_show :: Show where
  "demo_checked_show =
     \<lparr>ShowID = 5, ShowTitle = demo_show_title\<lparr>EpisodesCheckedAt := Some 1000\<rparr>,
      Seasons = [demo_season 1 2 None, demo_season 2 1 (Some ''TMDB_NOT_FOUND_DO_NOT_RETRY'')]\<rparr>"

text \<open>
  A show that TMDB does not know: the Find API answers 200 with no result. The row before
  its first view, and the row as the miss branch of \<^verbatim>\<open>fetchAndStoreTMDBImage\<close> leaves it
  (\<^verbatim>\<open>image_url = 'none', tmdb_id = 0\<close>); \<open>checked\<close> is its \<^verbatim>\<open>episodes_checked_at\<close>.
\<close>

definition demo_nomatch_api :: tmdb_api where
  "demo_nomatch_api =
     \<lparr>get_find = (\<lambda>_. Reply 200 True \<lparr>TVResults = [], MovieResults = []\<rparr>),
      get_detail = (\<lambda>_ _. NetErr), get_episode = (\<lambda>_ _. NetErr)\<rparr>"

definition demo_unviewed_title :: "int option \<Rightarrow> Title" where
  "demo_unviewed_title checked =
     \<lparr>TitleID = 9, TitleType = ''show'', IMDbID = Some ''tt09'', ImageURL = None, TMDBID = None,
      OriginalLanguage = None, ReleaseDate = None, TMDBPopularity = None, RuntimeMinutes = None,
      OriginCountry = None, NeedsBackfillTMDB = False, EpisodesCheckedAt = checked\<rparr>"

definition demo_unmatched_title :: "int option \<Rightarrow> Title" where
  "demo_unmatched_title checked =
     \<lparr>TitleID = 9, TitleType = ''show'', IMDbID = Some ''tt09'', ImageURL = Some ''none'',
      TMDBID = Some 0, OriginalLanguage = None, ReleaseDate = None, TMDBPopularity = Some 0,
      RuntimeMinutes = None, OriginCountry = None, NeedsBackfillTMDB = False,
      EpisodesCheckedAt = checked\<rparr>"

definition demo_unmatched_show :: "int option \<Rightarrow> Show" where
  "demo_unmatched_show checked =
     \<lparr>ShowID = 5, ShowTitle = demo_unmatched_title checked, Seasons = [demo_season 1 2 None]\<rparr>"

subsection \<open>The omniseason retry\<close>

text \<open>\<^verbatim>\<open>seasonNotFound\<close> in closed form: the two counts of a season that has a result.\<close>

definition stat_of :: "(int \<rightharpoonup> nat \<times> nat) \<Rightarrow> int \<Rightarrow> nat \<times> nat" where
  "stat_of m sn = (case m sn of None \<Rightarrow> (0, 0) | Some x \<Rightarrow> x)"

definition in_season :: "int \<Rightarrow> epResult \<Rightarrow> bool" where
  "in_season sn res = (seasonNum (r_ref res) = sn)"

definition is_notFound :: "epResult \<Rightarrow> bool" where
  "is_notFound res = f_notFound (r_fetched res)"

text \<open>The requests of the retry round: one call per index of \<open>omniRetry\<close>, in order.\<close>

definition retry_call :: "string \<Rightarrow> tmdb_api \<Rightarrow> int \<Rightarrow> (int \<rightharpoonup> int) \<Rightarrow> epRef \<Rightarrow>
    fetched \<times> api_call list \<times> store_stmt list" where
  "retry_call key api tmdbID offsets ref =
     fetchAndStoreEpisodeData key api tmdbID 1 (absEp offsets ref) (episodeID ref)"

text \<open>\<^verbatim>\<open>episodeOffset\<close> on seasons in strictly ascending order of their numbers, as
  \<^verbatim>\<open>getShowByID\<close> loads them (\<^verbatim>\<open>ORDER BY season\<close>, unique per show).\<close>

definition episodes_before :: "Season list \<Rightarrow> int \<Rightarrow> int" where
  "episodes_before seasons sn =
     sum_list (map (\<lambda>s. int (length (Episodes s))) (filter (\<lambda>s. SeasonNumber s < sn) seasons))"

text \<open>\<^verbatim>\<open>toFetch\<close> names every episode at most once, by its place in \<^verbatim>\<open>show.Seasons\<close>.\<close>

definition ref_place :: "epRef \<Rightarrow> nat \<times> nat" where
  "ref_place ref = (seasonIdx ref, episodeIdx ref)"

text \<open>The scenario of two seasons of 24 episodes, all with images, and a third season
  whose two episodes are requested and not found.\<close>

definition demo_ref :: "int \<Rightarrow> epRef" where
  "demo_ref n = \<lparr>seasonIdx = 2, episodeIdx = nat n - 1, seasonNum = 3, episodeNum = n, episodeID = 300 + n\<rparr>"

chapter \<open>Properties\<close>

section \<open>ChangeDetector: the IMDb import section of the sync command\<close>

subsection \<open>Facts about the stage chain\<close>

lemma run_stages_ok:
  "run_stages sy fs ss d lg = (lg', None, d') \<Longrightarrow>
     lg' = lg @ map (\<lambda>s. (s, None)) ss"
proof (induction ss arbitrary: d lg)
  case Nil
  then show ?case by simp
next
  case (Cons s ss)
  obtain r d1 where r: "sy s fs d = (r, d1)" by (cases "sy s fs d")
  with Cons.prems have "r = None" by (cases r) auto
  with Cons.prems r have "run_stages sy fs ss d1 (lg @ [(s, None)]) = (lg', None, d')"
    by simp
  from Cons.IH [OF this] show ?case by simp
qed

lemma run_stages_err:
  "run_stages sy fs ss d lg = (lg', Some e, d') \<Longrightarrow>
     \<exists>pre s. lg' = lg @ map (\<lambda>s. (s, None)) pre @ [(s, Some e)] \<and> length pre < length ss"
proof (induction ss arbitrary: d lg)
  case Nil
  then show ?case by simp
next
  case (Cons s ss)
  obtain r d1 where r: "sy s fs d = (r, d1)" by (cases "sy s fs d")
  show ?case
  proof (cases r)
    case None
    with Cons.prems r have "run_stages sy fs ss d1 (lg @ [(s, None)]) = (lg', Some e, d')"
      by simp
    from Cons.IH [OF this] obtain pre s' where
      "lg' = (lg @ [(s, None)]) @ map (\<lambda>s. (s, None)) pre @ [(s', Some e)]" "length pre < length ss"
      by blast
    then have "lg' = lg @ map (\<lambda>s. (s, None)) (s # pre) @ [(s', Some e)] \<and>
        length (s # pre) < length (s # ss)" by simp
    then show ?thesis by blast
  next
    case (Some e')
    with Cons.prems r have "lg' = lg @ map (\<lambda>s. (s, None)) [] @ [(s, Some e)]" by auto
    then show ?thesis by (metis length_greater_0_conv list.size(3) list.distinct(1))
  qed
qed

subsection \<open>A concrete run, used by the witnesses\<close>

lemma demo_hash: "hashFiles (\<lambda>b. b) demo_fs (dataset_paths ''d'') = Inr ''ber''"
  by (simp add: hashFiles_def dataset_paths_def demo_fs_def)

lemma demo_dl: "downloads (\<lambda>_. DlStatus 304 []) ''d'' demo_fs = Inr demo_fs"
  by (simp add: downloads_def downloadFile_def)



lemma run_stages_err_fatal:
  "run_stages sy fs ss d lg = (lg', r, d') \<Longrightarrow> (\<forall>x\<in>set lg. snd x = None) \<Longrightarrow>
     (r = None) = (\<forall>x\<in>set lg'. snd x = None)"
proof (cases r)
  case None
  assume "run_stages sy fs ss d lg = (lg', r, d')" "\<forall>x\<in>set lg. snd x = None"
  with None run_stages_ok [of sy fs ss d lg lg' d'] show ?thesis by auto
next
  case (Some e)
  assume "run_stages sy fs ss d lg = (lg', r, d')" "\<forall>x\<in>set lg. snd x = None"
  with Some run_stages_err [of sy fs ss d lg lg' e d'] show ?thesis by auto
qed

text \<open>
  Claim C6. The checkpoint table changes only in a run in which all four stages (titles,
  genres, episodes, ratings) were executed, in this order, each without error; a run that
  aborts, and in particular a run in which some stage reports a store error, leaves the
  checkpoint table exactly as it was before the run.
\<close>

theorem C6_checkpoint_only_after_all_stages:
  fixes w :: "'d world"
  defines "r \<equiv> \<lambda>force dir fs st. main_imdb_import w force dir fs st"
  shows "(fatal (r force dir fs st) \<noteq> None \<longrightarrow>
            sync_state (store_after (r force dir fs st)) = sync_state st) \<and>
         ((\<exists>s e. (s, Some e) \<in> set (stages_run (r force dir fs st))) \<longrightarrow>
            fatal (r force dir fs st) \<noteq> None) \<and>
         (sync_state (store_after (r force dir fs st)) \<noteq> sync_state st \<longrightarrow>
            stages_run (r force dir fs st) = map (\<lambda>s. (s, None)) all_stages \<and>
            fatal (r force dir fs st) = None)"
proof -
  let ?R = "main_imdb_import w force dir fs st"
  show ?thesis
  proof (cases "downloads (w_net w) dir fs")
    case (Inl e)
    then show ?thesis by (simp add: r_def main_imdb_import_def)
  next
    case (Inr fs')
    note dl = this
    show ?thesis
    proof (cases "hashFiles (w_sha256_hex w) fs' (dataset_paths dir)")
      case (Inl e)
      with dl show ?thesis by (simp add: r_def main_imdb_import_def)
    next
      case (Inr h)
      note hs = this
      show ?thesis
      proof (cases "force \<or> h \<noteq> getSyncState st ''imdb_files_hash''")
        case False
        with dl hs show ?thesis by (simp add: r_def main_imdb_import_def)
      next
        case True
        obtain lg res d' where rs: "run_stages (w_sync w) fs' all_stages (tables st) [] = (lg, res, d')"
          by (cases "run_stages (w_sync w) fs' all_stages (tables st) []") auto
        show ?thesis
        proof (cases res)
          case None
          with rs have lg: "lg = map (\<lambda>s. (s, None)) all_stages"
            using run_stages_ok [of "w_sync w" fs' all_stages "tables st" "[]" lg d'] by simp
          from dl hs True rs None have
            "stages_run ?R = lg" "fatal ?R = None"
            by (auto simp add: main_imdb_import_def Let_def setSyncState_def)
          with lg show ?thesis by (auto simp: r_def)
        next
          case (Some e)
          from dl hs True rs Some have
            "fatal ?R = Some e" "sync_state (store_after ?R) = sync_state st"
            by (auto simp add: main_imdb_import_def Let_def setSyncState_def)
          then show ?thesis by (simp add: r_def)
        qed
      qed
    qed
  qed
qed

lemma demo_run_ok:
  "main_imdb_import demo_world True ''d'' demo_fs (demo_store ''old'') =
     \<lparr>store_after = \<lparr>tables = (\<lambda>_. 1), sync_state = [''imdb_files_hash'' \<mapsto> ''ber'']\<rparr>,
      stages_run = [(SyncTitles, None), (SyncGenres, None), (SyncEpisodes, None), (SyncRatings, None)],
      fatal = None\<rparr>"
  apply (simp add: main_imdb_import_def demo_dl demo_hash demo_world_def all_stages_def demo_store_def Let_def setSyncState_def getSyncState_def)
  apply (rule ext)
  subgoal for s by (cases s) simp_all
  done

lemma demo_run_failing:
  "fatal (main_imdb_import demo_world_failing True ''d'' demo_fs (demo_store ''old'')) = Some ''episode insert'' \<and>
   stages_run (main_imdb_import demo_world_failing True ''d'' demo_fs (demo_store ''old'')) =
     [(SyncTitles, None), (SyncGenres, None), (SyncEpisodes, Some ''episode insert'')]"
  by (simp add: main_imdb_import_def demo_dl demo_hash demo_world_failing_def demo_world_def all_stages_def Let_def)

theorem C6_witness:
  "fatal (main_imdb_import demo_world_failing True ''d'' demo_fs (demo_store ''old'')) \<noteq> None \<and>
   sync_state (store_after (main_imdb_import demo_world_failing True ''d'' demo_fs (demo_store ''old'')))
     = sync_state (demo_store ''old'') \<and>
   sync_state (store_after (main_imdb_import demo_world True ''d'' demo_fs (demo_store ''old'')))
     \<noteq> sync_state (demo_store ''old'') \<and>
   stages_run (main_imdb_import demo_world True ''d'' demo_fs (demo_store ''old''))
     = map (\<lambda>s. (s, None)) all_stages \<and>
   fatal (main_imdb_import demo_world True ''d'' demo_fs (demo_store ''old'')) = None"
proof -
  have f: "fatal (main_imdb_import demo_world_failing True ''d'' demo_fs (demo_store ''old'')) \<noteq> None"
    using demo_run_failing by simp
  have c: "sync_state (store_after (main_imdb_import demo_world True ''d'' demo_fs (demo_store ''old'')))
     \<noteq> sync_state (demo_store ''old'')"
  proof
    assume "sync_state (store_after (main_imdb_import demo_world True ''d'' demo_fs (demo_store ''old'')))
      = sync_state (demo_store ''old'')"
    then have "sync_state (store_after (main_imdb_import demo_world True ''d'' demo_fs (demo_store ''old'')))
      ''imdb_files_hash'' = sync_state (demo_store ''old'') ''imdb_files_hash''"
      by simp
    then show False unfolding demo_run_ok by (simp add: demo_store_def)
  qed
  show ?thesis
    using f c
      C6_checkpoint_only_after_all_stages [of demo_world_failing True "''d''" demo_fs "demo_store ''old''"]
      C6_checkpoint_only_after_all_stages [of demo_world True "''d''" demo_fs "demo_store ''old''"]
    by blast
qed

section \<open>BulkDiffImporter: the second pass of \<^verbatim>\<open>syncEpisodes\<close>\<close>

subsection \<open>A concrete table and dataset, used by the witnesses\<close>

lemma split_null: "split_tab line_null_season = [''tt11'', ''tt1'', null_token, ''1'']"
  by (simp add: line_null_season_def null_token_def)

lemma split_bad: "split_tab line_bad_season = [''tt11'', ''tt1'', ''abc'', ''1'']"
  by (simp add: line_bad_season_def)

lemma Atoi_abc: "Atoi ''abc'' = None"  by (simp add: Atoi_def is_digit_def)

lemma Atoi_1: "Atoi ''1'' = Some 1"  by (simp add: Atoi_def is_digit_def)

lemma Atoi_2: "Atoi ''2'' = Some 2"  by (simp add: Atoi_def is_digit_def)

subsection \<open>Lines without a usable season or episode number\<close>

text \<open>
  Claim C7 as stated fails: a line whose season field is \<open>abc\<close> is one of the lines the
  claim speaks of (\<open>number_missing_or_bad\<close>), and the scan leaves the \<open>skipped\<close> counter
  as it was.
\<close>

theorem C7_counterexample:
  "number_missing_or_bad line_bad_season \<and>
   skipped (scan_line demo_snapshot line_bad_season scan_init) \<noteq> skipped scan_init + 1"
  by (simp add: number_missing_or_bad_def scan_line_def split_bad Atoi_abc Atoi_1 null_token_def scan_init_def)

text \<open>
  Claim C7, amended. For every line with its four fields: when the season or the episode
  field is the null placeholder, the line is skipped, nothing is imported and \<open>skipped\<close>
  is incremented by one; when neither is the placeholder and one of them does not parse
  as an integer, the line is skipped and nothing is imported, and no counter changes. In
  both cases the scan goes on with the next line (\<open>scan_line\<close> has no error result).
\<close>

theorem C7_null_counted_unparseable_dropped:
  assumes "4 \<le> length (split_tab line)"
  shows "(split_tab line ! 2 = null_token \<or> split_tab line ! 3 = null_token \<longrightarrow>
            scan_line snap line st = st\<lparr>skipped := skipped st + 1\<rparr>) \<and>
         (split_tab line ! 2 \<noteq> null_token \<and> split_tab line ! 3 \<noteq> null_token \<and>
          (Atoi (split_tab line ! 2) = None \<or> Atoi (split_tab line ! 3) = None) \<longrightarrow>
            scan_line snap line st = st)"
  using assms by (auto simp: scan_line_def Let_def split: option.splits)

theorem C7_witness:
  "4 \<le> length (split_tab line_null_season) \<and> split_tab line_null_season ! 2 = null_token \<and>
   scan_line demo_snapshot line_null_season scan_init = scan_init\<lparr>skipped := 1\<rparr> \<and>
   4 \<le> length (split_tab line_bad_season) \<and> split_tab line_bad_season ! 2 \<noteq> null_token \<and>
   split_tab line_bad_season ! 3 \<noteq> null_token \<and> Atoi (split_tab line_bad_season ! 2) = None \<and>
   scan_line demo_snapshot line_bad_season scan_init = scan_init"
proof -
  have a: "4 \<le> length (split_tab line_null_season)" by (simp add: split_null)
  have b: "split_tab line_null_season ! 2 = null_token" by (simp add: split_null)
  have c: "4 \<le> length (split_tab line_bad_season)" by (simp add: split_bad)
  have d: "split_tab line_bad_season ! 2 \<noteq> null_token" "split_tab line_bad_season ! 3 \<noteq> null_token"
    by (simp_all add: split_bad null_token_def)
  have e: "Atoi (split_tab line_bad_season ! 2) = None" by (simp add: split_bad Atoi_abc)
  have "skipped scan_init = 0" by (simp add: scan_init_def)
  with a b c d e
    C7_null_counted_unparseable_dropped [OF a, of demo_snapshot scan_init]
    C7_null_counted_unparseable_dropped [OF c, of demo_snapshot scan_init]
  show ?thesis by simp
qed

subsection \<open>Updates of existing episode names\<close>

lemma scan_line_toUpdate:
  assumes "\<forall>u\<in>set (toUpdate st). upd_justified snap u"
  shows "\<forall>u\<in>set (toUpdate (scan_line snap line st)). upd_justified snap u"
  using assms
  by (auto simp: scan_line_def Let_def upd_justified_def split: option.splits)

lemma fold_scan_line_toUpdate:
  "\<forall>u\<in>set (toUpdate st). upd_justified snap u \<Longrightarrow>
   \<forall>u\<in>set (toUpdate (fold (scan_line snap) ls st)). upd_justified snap u"
proof (induction ls arbitrary: st)
  case Nil
  then show ?case by simp
next
  case (Cons l ls)
  from scan_line_toUpdate [OF Cons.prems]
  have "\<forall>u\<in>set (toUpdate (scan_line snap l st)). upd_justified snap u" .
  from Cons.IH [OF this] show ?case by simp
qed

lemma scan_file_toUpdate:
  "\<forall>u\<in>set (toUpdate (scan_file snap ls)). upd_justified snap u"
  unfolding scan_file_def
  by (rule fold_scan_line_toUpdate) (simp add: scan_init_def)

lemma load_fold_from_rows:
  "fold remember_episode rows m k = Some e \<Longrightarrow>
   m k = Some e \<or> (\<exists>r\<in>set rows. e = \<lparr>ex_ID = row_id r, ex_DisplayName = stored_name r\<rparr>)"
proof (induction rows arbitrary: m)
  case Nil
  then show ?case by simp
next
  case (Cons r rows)
  from Cons.prems have "fold remember_episode rows (remember_episode r m) k = Some e" by simp
  from Cons.IH [OF this] have "remember_episode r m k = Some e \<or>
     (\<exists>r\<in>set rows. e = \<lparr>ex_ID = row_id r, ex_DisplayName = stored_name r\<rparr>)" .
  then show ?case
  proof
    assume "remember_episode r m k = Some e"
    then show ?thesis
      by (cases "k = (row_season_id r, row_episode r)") (auto simp: remember_episode_def)
  next
    assume "\<exists>r\<in>set rows. e = \<lparr>ex_ID = row_id r, ex_DisplayName = stored_name r\<rparr>"
    then show ?thesis by auto
  qed
qed

lemma load_existingEpisodes_from_rows:
  assumes "load_existingEpisodes rows k = Some e"
  shows "\<exists>r\<in>set rows. row_id r = ex_ID e \<and> stored_name r = ex_DisplayName e"
proof -
  from assms load_fold_from_rows [of rows Map.empty k e]
  obtain r where "r \<in> set rows" "e = \<lparr>ex_ID = row_id r, ex_DisplayName = stored_name r\<rparr>"
    unfolding load_existingEpisodes_def by auto
  then show ?thesis by auto
qed

lemma sql_case_hit:
  "i \<in> set (map upd_ID bt) \<Longrightarrow>
     \<exists>u\<in>set bt. upd_ID u = i \<and> sql_case bt i = Some (upd_DisplayName u)"
  by (induction bt) auto

lemma rows_step_refl: "rows_step U rows rows"
  by (simp add: rows_step_def)

lemma update_batch_step:
  assumes "set bt \<subseteq> U"
  shows "rows_step U rows (update_batch bt rows)"
proof -
  {
    fix i assume i: "i < length rows"
    let ?r = "rows ! i"
    have "update_batch bt rows ! i = ?r \<or>
        (\<exists>u\<in>U. upd_ID u = row_id ?r \<and>
           update_batch bt rows ! i = ?r\<lparr>row_display_name := Some (upd_DisplayName u)\<rparr>)"
    proof (cases "row_id ?r \<in> set (map upd_ID bt)")
      case True
      from sql_case_hit [OF True] obtain u where
        u: "u \<in> set bt" "upd_ID u = row_id ?r" "sql_case bt (row_id ?r) = Some (upd_DisplayName u)"
        by blast
      have "update_batch bt rows ! i = ?r\<lparr>row_display_name := Some (upd_DisplayName u)\<rparr>"
        using i True u(3) by (simp add: update_batch_def)
      with u assms show ?thesis by blast
    next
      case False
      with i show ?thesis by (simp add: update_batch_def)
    qed
  }
  then show ?thesis by (simp add: rows_step_def update_batch_def)
qed

lemma rows_step_trans:
  assumes "rows_step U a b" "rows_step U b c"
  shows "rows_step U a c"
proof -
  have len: "length b = length a" "length c = length b" using assms by (simp_all add: rows_step_def)
  {
    fix i assume i: "i < length a"
    have ab: "b ! i = a ! i \<or> (\<exists>u\<in>U. upd_ID u = row_id (a ! i) \<and>
        b ! i = (a ! i)\<lparr>row_display_name := Some (upd_DisplayName u)\<rparr>)"
      using assms(1) i by (simp add: rows_step_def)
    have bc: "c ! i = b ! i \<or> (\<exists>u\<in>U. upd_ID u = row_id (b ! i) \<and>
        c ! i = (b ! i)\<lparr>row_display_name := Some (upd_DisplayName u)\<rparr>)"
      using assms(2) i len by (simp add: rows_step_def)
    have "c ! i = a ! i \<or> (\<exists>u\<in>U. upd_ID u = row_id (a ! i) \<and>
        c ! i = (a ! i)\<lparr>row_display_name := Some (upd_DisplayName u)\<rparr>)"
    proof (cases "b ! i = a ! i")
      case True
      with bc show ?thesis by simp
    next
      case False
      with ab obtain u where u: "u \<in> U" "upd_ID u = row_id (a ! i)"
        "b ! i = (a ! i)\<lparr>row_display_name := Some (upd_DisplayName u)\<rparr>" by blast
      show ?thesis
      proof (cases "c ! i = b ! i")
        case True
        with u show ?thesis by auto
      next
        case False
        with bc obtain v where v: "v \<in> U" "upd_ID v = row_id (b ! i)"
          "c ! i = (b ! i)\<lparr>row_display_name := Some (upd_DisplayName v)\<rparr>" by blast
        from v(2) u(3) have "upd_ID v = row_id (a ! i)" by simp
        moreover from v(3) u(3) have "c ! i = (a ! i)\<lparr>row_display_name := Some (upd_DisplayName v)\<rparr>"
          by simp
        ultimately show ?thesis using v(1) by blast
      qed
    qed
  }
  then show ?thesis using len by (simp add: rows_step_def)
qed

lemma run_update_batches_step:
  "(\<forall>b\<in>set bs. set b \<subseteq> U) \<Longrightarrow> rows_step U rows (snd (run_update_batches ok k bs rows))"
proof (induction bs arbitrary: k rows)
  case Nil
  then show ?case by (simp add: rows_step_refl)
next
  case (Cons b bs)
  show ?case
  proof (cases "ok k")
    case True
    have 1: "rows_step U rows (update_batch b rows)"
      using Cons.prems by (simp add: update_batch_step)
    have 2: "rows_step U (update_batch b rows) (snd (run_update_batches ok (Suc k) bs (update_batch b rows)))"
      using Cons.IH Cons.prems by simp
    from rows_step_trans [OF 1 2] True show ?thesis by simp
  next
    case False
    then show ?thesis by (simp add: rows_step_refl)
  qed
qed

lemma batches_subset: "\<forall>b\<in>set (batches n xs). set b \<subseteq> set xs"
proof (induction n xs rule: batches.induct)
  case (1 n xs)
  show ?case
  proof (cases "n = 0 \<or> xs = []")
    case True
    then show ?thesis by (simp add: batches.simps)
  next
    case False
    have "set (take n xs) \<subseteq> set xs" by (rule set_take_subset)
    moreover have "\<forall>b\<in>set (batches n (drop n xs)). set b \<subseteq> set xs"
      using 1 False set_drop_subset [of n xs] by blast
    ultimately show ?thesis using False by (subst batches.simps) simp
  qed
qed

lemma update_episodes_step: "rows_step (set upds) rows (snd (update_episodes ok batchSize upds rows))"
  unfolding update_episodes_def
  using run_update_batches_step [of "batches (nat batchSize) upds" "set upds" rows ok 0] batches_subset [of "nat batchSize" upds]
  by (simp add: rows_step_refl)

lemma split_rename: "split_tab line_rename = [''tt12'', ''tt1'', ''1'', ''2'']"
  by (simp add: line_rename_def)

lemma split_untitled: "split_tab line_untitled = [''tt11'', ''tt1'', ''1'', ''1'']"
  by (simp add: line_untitled_def)

lemma demo_existing:
  "load_existingEpisodes demo_rows (70, 1) = Some \<lparr>ex_ID = 700, ex_DisplayName = ''Pilot''\<rparr>"
  "load_existingEpisodes demo_rows (70, 2) = Some \<lparr>ex_ID = 701, ex_DisplayName = ''Old''\<rparr>"
  by (simp_all add: load_existingEpisodes_def demo_rows_def remember_episode_def stored_name_def)

lemma demo_scan:
  "scan_file demo_snapshot [''header'', line_rename, line_untitled] =
     \<lparr>toInsert = [], toUpdate = [\<lparr>upd_ID = 701, upd_DisplayName = ''New''\<rparr>],
      scanned = 2, unchanged = 1, skipped = 0\<rparr>"
  by (simp add: scan_file_def scan_line_def split_rename split_untitled Atoi_1 Atoi_2 null_token_def
      demo_snapshot_def demo_existing scan_init_def)

lemma demo_update:
  "update_episodes (\<lambda>_. True) 5000 [\<lparr>upd_ID = 701, upd_DisplayName = ''New''\<rparr>] demo_rows =
     (None,
      [\<lparr>row_id = 700, row_season_id = 70, row_episode = 1, row_display_name = Some ''Pilot''\<rparr>,
       \<lparr>row_id = 701, row_season_id = 70, row_episode = 2, row_display_name = Some ''New''\<rparr>])"
  by (simp add: update_episodes_def batches.simps update_batch_def demo_rows_def)

text \<open>
  Claim C10. With the snapshot loaded from the stored rows, every update the scan collects
  carries a non-empty name that differs from the stored name of the row with its id; and
  the update phase, from any table state and whatever statements fail, keeps the number
  of rows and leaves every row as it was or sets its name to the non-empty name of a
  collected update for that row. So no stored name is ever replaced by an empty one.
\<close>

theorem C10_episode_name_updated_only_when_nonempty_and_different:
  assumes "existingEpisodes snap = load_existingEpisodes rows0"
  shows "(\<forall>u\<in>set (toUpdate (scan_file snap ls)).
            upd_DisplayName u \<noteq> [] \<and>
            (\<exists>r\<in>set rows0. row_id r = upd_ID u \<and> stored_name r \<noteq> upd_DisplayName u)) \<and>
         length (snd (update_episodes ok batchSize (toUpdate (scan_file snap ls)) rows)) = length rows \<and>
         (\<forall>i<length rows.
            snd (update_episodes ok batchSize (toUpdate (scan_file snap ls)) rows) ! i = rows ! i \<or>
            (\<exists>u\<in>set (toUpdate (scan_file snap ls)).
               upd_ID u = row_id (rows ! i) \<and> upd_DisplayName u \<noteq> [] \<and>
               snd (update_episodes ok batchSize (toUpdate (scan_file snap ls)) rows) ! i =
                 (rows ! i)\<lparr>row_display_name := Some (upd_DisplayName u)\<rparr>))"
proof -
  let ?U = "toUpdate (scan_file snap ls)"
  have just: "\<forall>u\<in>set ?U. upd_justified snap u" by (rule scan_file_toUpdate)
  have 1: "\<forall>u\<in>set ?U. upd_DisplayName u \<noteq> [] \<and>
            (\<exists>r\<in>set rows0. row_id r = upd_ID u \<and> stored_name r \<noteq> upd_DisplayName u)"
  proof
    fix u assume "u \<in> set ?U"
    with just have j: "upd_justified snap u" by blast
    then obtain k e where e: "existingEpisodes snap k = Some e" "ex_ID e = upd_ID u"
      "ex_DisplayName e \<noteq> upd_DisplayName u" by (auto simp: upd_justified_def)
    from e(1) assms have "load_existingEpisodes rows0 k = Some e" by simp
    from load_existingEpisodes_from_rows [OF this] e(2,3)
    have "\<exists>r\<in>set rows0. row_id r = upd_ID u \<and> stored_name r \<noteq> upd_DisplayName u" by auto
    with j show "upd_DisplayName u \<noteq> [] \<and>
            (\<exists>r\<in>set rows0. row_id r = upd_ID u \<and> stored_name r \<noteq> upd_DisplayName u)"
      by (simp add: upd_justified_def)
  qed
  have st: "rows_step (set ?U) rows (snd (update_episodes ok batchSize ?U rows))"
    by (rule update_episodes_step)
  have 2: "length (snd (update_episodes ok batchSize ?U rows)) = length rows"
    using st by (simp add: rows_step_def)
  have 3: "\<forall>i<length rows.
            snd (update_episodes ok batchSize ?U rows) ! i = rows ! i \<or>
            (\<exists>u\<in>set ?U. upd_ID u = row_id (rows ! i) \<and> upd_DisplayName u \<noteq> [] \<and>
               snd (update_episodes ok batchSize ?U rows) ! i =
                 (rows ! i)\<lparr>row_display_name := Some (upd_DisplayName u)\<rparr>)"
  proof (intro allI impI)
    fix i assume "i < length rows"
    with st have "snd (update_episodes ok batchSize ?U rows) ! i = rows ! i \<or>
       (\<exists>u\<in>set ?U. upd_ID u = row_id (rows ! i) \<and>
               snd (update_episodes ok batchSize ?U rows) ! i =
                 (rows ! i)\<lparr>row_display_name := Some (upd_DisplayName u)\<rparr>)"
      by (simp add: rows_step_def)
    with 1 show "snd (update_episodes ok batchSize ?U rows) ! i = rows ! i \<or>
            (\<exists>u\<in>set ?U. upd_ID u = row_id (rows ! i) \<and> upd_DisplayName u \<noteq> [] \<and>
               snd (update_episodes ok batchSize ?U rows) ! i =
                 (rows ! i)\<lparr>row_display_name := Some (upd_DisplayName u)\<rparr>)"
      by blast
  qed
  from 1 2 3 show ?thesis by blast
qed

theorem C10_witness:
  "existingEpisodes demo_snapshot = load_existingEpisodes demo_rows \<and>
   toUpdate (scan_file demo_snapshot [''header'', line_rename, line_untitled]) =
     [\<lparr>upd_ID = 701, upd_DisplayName = ''New''\<rparr>] \<and>
   map row_display_name
     (snd (update_episodes (\<lambda>_. True) 5000
        (toUpdate (scan_file demo_snapshot [''header'', line_rename, line_untitled])) demo_rows)) =
     [Some ''Pilot'', Some ''New''] \<and>
   length (snd (update_episodes (\<lambda>_. True) 5000
        (toUpdate (scan_file demo_snapshot [''header'', line_rename, line_untitled])) demo_rows)) =
     length demo_rows"
proof -
  have h: "existingEpisodes demo_snapshot = load_existingEpisodes demo_rows"
    by (simp add: demo_snapshot_def)
  from C10_episode_name_updated_only_when_nonempty_and_different
         [OF h, of "[''header'', line_rename, line_untitled]" "\<lambda>_. True" 5000 demo_rows]
  have "length (snd (update_episodes (\<lambda>_. True) 5000
        (toUpdate (scan_file demo_snapshot [''header'', line_rename, line_untitled])) demo_rows)) =
     length demo_rows" by blast
  with h show ?thesis by (simp add: demo_scan demo_update)
qed

section \<open>BulkDiffImporter: \<^verbatim>\<open>syncRatings\<close>\<close>

subsection \<open>Floating point\<close>

text \<open>The exponent \<open>ilog2\<close> finds is the one of the binade of \<open>x\<close>.\<close>

lemma ilog2_bounds:
  assumes "0 < x"
  shows "pow2 (ilog2 x) \<le> x \<and> x < pow2 (ilog2 x + 1)"
proof (cases "1 \<le> x")
  case True
  define n where "n = nat \<lfloor>x\<rfloor>"
  define k where "k = floorlog 2 n"
  from True have fl: "1 \<le> \<lfloor>x\<rfloor>" by simp
  then have n: "0 < n" "of_nat n = (of_int \<lfloor>x\<rfloor> :: rat)" by (simp_all add: n_def)
  from floorlog_bounds [of n 2] n have b: "2 ^ (k - 1) \<le> n" "n < 2 ^ k" by (simp_all add: k_def)
  from n(1) have k: "0 < k"
    using floorlog_eq_zero_iff [of 2 n] by (cases "floorlog 2 n = 0") (simp_all add: k_def)
  have il: "ilog2 x = int k - 1" using True by (simp add: ilog2_def k_def n_def)
  from b(1) have "(of_nat (2 ^ (k - 1)) :: rat) \<le> of_nat n" by (simp only: of_nat_le_iff)
  then have "(2::rat) ^ (k - 1) \<le> of_int \<lfloor>x\<rfloor>" using n by simp
  also have "\<dots> \<le> x" by simp
  finally have lo: "(2::rat) ^ (k - 1) \<le> x" .
  from b(2) have "Suc n \<le> 2 ^ k" by simp
  then have "(of_nat (Suc n) :: rat) \<le> of_nat (2 ^ k)" by (simp only: of_nat_le_iff)
  then have "of_int \<lfloor>x\<rfloor> + 1 \<le> (2::rat) ^ k" using n by simp
  moreover have "x < of_int \<lfloor>x\<rfloor> + 1" by linarith
  ultimately have hi: "x < (2::rat) ^ k" by linarith
  from k have "nat (int k - 1) = k - 1" "nat (int k) = k" by simp_all
  with lo hi k show ?thesis by (simp add: il pow2_def)
next
  case False
  define m where "m = \<lceil>1 / x\<rceil>"
  define n where "n = nat (m - 1)"
  define k where "k = floorlog 2 n"
  from False assms have y: "1 < 1 / x" by simp
  then have m: "2 \<le> m" unfolding m_def by linarith
  then have n: "0 < n" "int n = m - 1" by (simp_all add: n_def)
  from floorlog_bounds [of n 2] n have b: "2 ^ (k - 1) \<le> n" "n < 2 ^ k" by (simp_all add: k_def)
  from n(1) have k: "0 < k"
    using floorlog_eq_zero_iff [of 2 n] by (cases "floorlog 2 n = 0") (simp_all add: k_def)
  have il: "ilog2 x = - int k" using False by (simp add: ilog2_def k_def n_def m_def)
  from b(2) have "Suc n \<le> 2 ^ k" by simp
  then have "int (Suc n) \<le> int (2 ^ k)" by (simp only: of_nat_le_iff)
  then have "m \<le> 2 ^ k" using n by simp
  then have "(of_int m :: rat) \<le> of_int (2 ^ k)" by (simp only: of_int_le_iff)
  then have "(of_int m :: rat) \<le> 2 ^ k" by simp
  moreover have "1 / x \<le> of_int m" unfolding m_def by simp
  ultimately have "1 / x \<le> (2::rat) ^ k" by linarith
  with assms have lo: "1 / (2::rat) ^ k \<le> x"
    by (simp add: field_simps)
  from b(1) have "int (2 ^ (k - 1)) \<le> int n" by (simp only: of_nat_le_iff)
  then have "2 ^ (k - 1) \<le> m - 1" using n by simp
  then have "(of_int (2 ^ (k - 1)) :: rat) \<le> of_int (m - 1)" by (simp only: of_int_le_iff)
  then have "(2::rat) ^ (k - 1) \<le> of_int m - 1" by simp
  moreover have "of_int m - 1 < 1 / x" unfolding m_def by linarith
  ultimately have "(2::rat) ^ (k - 1) < 1 / x" by linarith
  with assms have hi: "x < 1 / (2::rat) ^ (k - 1)"
    by (simp add: field_simps)
  show ?thesis
  proof (cases "k = 1")
    case True
    with lo hi show ?thesis by (simp add: il pow2_def)
  next
    case False
    with k have "nat (int k - 1) = k - 1" "\<not> 0 \<le> 1 - int k" by simp_all
    with lo hi k show ?thesis by (simp add: il pow2_def)
  qed
qed

text \<open>The two roundings of 7.3, and the values that both formats hold.\<close>

lemma round32_7_3: "round32 (73 / 10) = stored_7_3"
  by code_simp

lemma round64_7_3: "round64 (73 / 10) = float64_7_3"
  by code_simp

lemma float64_7_3_to_float32: "to_float32 float64_7_3 = stored_7_3"
  by code_simp

lemma stored_7_3_fixed: "to_float32 stored_7_3 = stored_7_3"
  by code_simp

lemma float64_7_3_not_stored: "float64_7_3 \<noteq> stored_7_3"
  by code_simp

subsection \<open>A concrete table and ratings file\<close>

lemma decimal_7_3: "decimal_value ''7.3'' = Some (73 / 10)"
  by code_simp

lemma decimal_7_5: "decimal_value ''7.5'' = Some (15 / 2)"
  by code_simp

lemma ParseFloat_7_3: "ParseFloat other ''7.3'' = Some float64_7_3"
  unfolding ParseFloat_def decimal_7_3 by (simp add: round64_7_3 float64_7_3_def)

lemma round64_7_5: "round64 (15 / 2) = Fin (15 / 2)"
  by code_simp

lemma ParseFloat_7_5: "ParseFloat other ''7.5'' = Some (Fin (15 / 2))"
  unfolding ParseFloat_def decimal_7_5 by (simp add: round64_7_5)

text \<open>Had the server sent every digit of the stored value, the driver would have read the
  stored value.\<close>

lemma decimal_exact_text:
  "decimal_value ''7.30000019073486328125'' = Some (7654605 / 1048576)"
  by (simp add: decimal_value_def is_digit_def)

lemma round64_stored_7_3: "round64 (7654605 / 1048576) = Fin (7654605 / 1048576)"
  by code_simp

lemma ParseFloat_exact_text: "ParseFloat other ''7.30000019073486328125'' = Some stored_7_3"
  unfolding ParseFloat_def decimal_exact_text by (simp add: round64_stored_7_3 stored_7_3_def)

lemma decimal_7_3000002: "decimal_value ''7.3000002'' = Some (36500001 / 5000000)"
  by (simp add: decimal_value_def is_digit_def)

lemma round64_7_3000002: "round64 (36500001 / 5000000) = float64_7_3000002"
  by code_simp

lemma ParseFloat_7_3000002: "ParseFloat other ''7.3000002'' = Some float64_7_3000002"
  unfolding ParseFloat_def decimal_7_3000002 by (simp add: round64_7_3000002 float64_7_3000002_def)

lemma float64_7_3000002_not_stored: "float64_7_3000002 \<noteq> stored_7_3"
  by code_simp

lemma demo_loaded:
  assumes "ParseFloat other txt = Some v"
  shows "load_ratings other (demo_rating_rows txt) Map.empty =
     [''tt1'' \<mapsto> \<lparr>er_NumVotes = 500, er_AverageRating = v\<rparr>,
      ''tt2'' \<mapsto> \<lparr>er_NumVotes = 10, er_AverageRating = Fin (15 / 2)\<rparr>]"
  using assms by (simp add: demo_rating_rows_def ParseFloat_7_5)

lemma split_rating_lines:
  "split_tab (''tt1'' @ [CHR 0x09] @ ''7.3'' @ [CHR 0x09] @ ''500'') = [''tt1'', ''7.3'', ''500'']"
  "split_tab (''tt2'' @ [CHR 0x09] @ ''7.5'' @ [CHR 0x09] @ ''10'') = [''tt2'', ''7.5'', ''10'']"
  by simp_all

lemma Atoi_500: "Atoi ''500'' = Some 500"
  by (simp add: Atoi_def is_digit_def)

lemma Atoi_10: "Atoi ''10'' = Some 10"
  by (simp add: Atoi_def is_digit_def)

lemma to_float32_7_5: "to_float32 (Fin (15 / 2)) = Fin (15 / 2)"
  by code_simp

lemma demo_unchanged_tests:
  assumes "ParseFloat other txt = Some v" "v \<noteq> stored_7_3"
  shows "\<not> rating_unchanged (load_ratings other (demo_rating_rows txt) Map.empty) ''tt1'' 500 float64_7_3"
    and "rating_unchanged (load_ratings other (demo_rating_rows txt) Map.empty) ''tt2'' 10 (Fin (15 / 2))"
  unfolding demo_loaded [OF assms(1)] using assms(2)
  by (simp_all add: rating_unchanged_def float_eq_def float64_7_3_to_float32 to_float32_7_5)

lemma demo_ratings_run:
  assumes "ParseFloat other txt = Some v" "v \<noteq> stored_7_3"
  shows "syncRatings other exec (Inr (demo_rating_rows txt)) 1000 demo_ratings_file =
     flush exec \<lparr>batch = [\<lparr>rr_ImdbID = ''tt1'', rr_NumVotes = 500, rr_AverageRating = float64_7_3\<rparr>],
                 rs_scanned = 2, rs_updated = 0, rs_unchanged = 1, issued = []\<rparr>"
  unfolding syncRatings_def demo_ratings_file_def
  by (simp add: Let_def ratings_line_def split_rating_lines ParseFloat_7_3 ParseFloat_7_5 Atoi_500
      Atoi_10 demo_unchanged_tests [OF assms] ratings_init_def)

text \<open>
  Claim C8 says that a row whose stored votes and rating are the source's, at the
  precision of the column, is classified unchanged and gets no update statement. The
  code at the input above: the title \<^verbatim>\<open>tt1\<close> has 500 votes and the \<^verbatim>\<open>REAL\<close> nearest to 7.3
  stored, the file says 7.3 and 500; the source value reduced to \<^verbatim>\<open>float32\<close> is the
  stored value. The load reads the text \<^verbatim>\<open>7.3\<close> of the stored value at 64 bits, which is
  not the stored value; the test compares that with the source value reduced to
  \<^verbatim>\<open>float32\<close> and fails; the row is handed to the update statement, which stores the
  same \<^verbatim>\<open>REAL\<close> again. It is the same with the text \<^verbatim>\<open>7.3000002\<close> of an earlier server. The
  title \<^verbatim>\<open>tt2\<close>, whose rating 7.5 is a value of both formats, is counted unchanged.
\<close>

theorem C8_rating_equal_at_stored_precision_is_rewritten:
  "ParseFloat other ''7.3'' = Some float64_7_3 \<and>
   to_float32 float64_7_3 = stored_7_3 \<and>
   round32 (73 / 10) = stored_7_3 \<and>
   load_ratings other (demo_rating_rows ''7.3'') Map.empty ''tt1'' =
     Some \<lparr>er_NumVotes = 500, er_AverageRating = float64_7_3\<rparr> \<and>
   float64_7_3 \<noteq> stored_7_3 \<and>
   \<not> rating_unchanged (load_ratings other (demo_rating_rows ''7.3'') Map.empty) ''tt1'' 500 float64_7_3 \<and>
   issued (snd (syncRatings other exec (Inr (demo_rating_rows ''7.3'')) 1000 demo_ratings_file)) =
     [[\<lparr>rr_ImdbID = ''tt1'', rr_NumVotes = 500, rr_AverageRating = float64_7_3\<rparr>]] \<and>
   rs_unchanged (snd (syncRatings other exec (Inr (demo_rating_rows ''7.3'')) 1000 demo_ratings_file)) = 1 \<and>
   issued (snd (syncRatings other exec (Inr (demo_rating_rows ''7.3000002'')) 1000 demo_ratings_file)) =
     [[\<lparr>rr_ImdbID = ''tt1'', rr_NumVotes = 500, rr_AverageRating = float64_7_3\<rparr>]]"
proof -
  note new = ParseFloat_7_3 [of other] float64_7_3_not_stored
  note old = ParseFloat_7_3000002 [of other] float64_7_3000002_not_stored
  have "issued (snd (syncRatings other exec (Inr (demo_rating_rows ''7.3'')) 1000 demo_ratings_file)) =
     [[\<lparr>rr_ImdbID = ''tt1'', rr_NumVotes = 500, rr_AverageRating = float64_7_3\<rparr>]]"
    "rs_unchanged (snd (syncRatings other exec (Inr (demo_rating_rows ''7.3'')) 1000 demo_ratings_file)) = 1"
    unfolding demo_ratings_run [OF new] by (simp_all add: flush_def Let_def split: sum.splits)
  moreover have "issued (snd (syncRatings other exec (Inr (demo_rating_rows ''7.3000002'')) 1000
                                demo_ratings_file)) =
     [[\<lparr>rr_ImdbID = ''tt1'', rr_NumVotes = 500, rr_AverageRating = float64_7_3\<rparr>]]"
    unfolding demo_ratings_run [OF old] by (simp add: flush_def Let_def split: sum.splits)
  moreover have "load_ratings other (demo_rating_rows ''7.3'') Map.empty ''tt1'' =
     Some \<lparr>er_NumVotes = 500, er_AverageRating = float64_7_3\<rparr>"
    unfolding demo_loaded [OF new(1)] by simp
  ultimately show ?thesis
    using new float64_7_3_to_float32 round32_7_3 demo_unchanged_tests(1) [OF new]
    by simp
qed

section \<open>BackfillScheduler\<close>

subsection \<open>A concrete row and API, used by the witnesses\<close>

lemma demo_backfill_merged:
  "backfillRow (\<lambda>x. x) True (demo_api 200) demo_title =
     (demo_title\<lparr>ImageURL := Some ''https://image.tmdb.org/t/p/w500/new.jpg'',
                 NeedsBackfillTMDB := False\<rparr>,
      [DetailCall False 42], Merged)"
  by (simp add: backfillRow_def batch_resolve_def demo_title_def demo_api_def demo_detail_def
      merge_detail_def backfill_update_def detail_imageURL_def detail_releaseDate_def
      detail_originCountry_def image_base_w500_def NULLIF_def COALESCE_def go_int_def)

lemma demo_backfill_throttled:
  "backfillRow (\<lambda>x. x) True (demo_api 429) demo_title = (demo_title, [DetailCall False 42], Throttled)"
  by (simp add: backfillRow_def batch_resolve_def demo_title_def demo_api_def)

lemma demo_backfill_other:
  "backfillRow (\<lambda>x. x) True (demo_api 404) demo_title =
     (clear_flag demo_title, [DetailCall False 42], DetailOtherStatus)"
  by (simp add: backfillRow_def batch_resolve_def demo_title_def demo_api_def exec_stmt_def)

lemma demo_backfill_merge_failed:
  "backfillRow (\<lambda>x. x) False (demo_api 200) demo_title =
     (demo_title, [DetailCall False 42], MergeFailed)"
  by (simp add: backfillRow_def batch_resolve_def demo_title_def demo_api_def)

subsection \<open>The fill-if-empty policy, in the words of the specification\<close>

text \<open>
  Claim C1 as stated fails: a row whose \<^verbatim>\<open>image_url\<close> holds a real URL gets the fetched
  poster URL when the detail record carries a poster path.
\<close>

theorem C1_counterexample:
  "str_real (ImageURL demo_title) \<and>
   snd (snd (backfillRow (\<lambda>x. x) True (demo_api 200) demo_title)) = Merged \<and>
   ImageURL (fst (backfillRow (\<lambda>x. x) True (demo_api 200) demo_title)) \<noteq> ImageURL demo_title"
  unfolding demo_backfill_merged by (simp add: demo_title_def str_real_def)

lemma kept_or_real_refl: "kept_or_real row row"
  by (simp add: kept_or_real_def)

lemma kept_or_real_clear: "kept_or_real row (clear_flag row)"
  by (simp add: kept_or_real_def clear_flag_def)

lemma merge_detail_fields:
  "ImageURL (merge_detail real4 tmdbID detail row) =
     (if PosterPath detail = [] then ImageURL row else Some (image_base_w500 @ PosterPath detail))"
  "OriginalLanguage (merge_detail real4 tmdbID detail row) =
     (if d_OriginalLanguage detail = [] then OriginalLanguage row else Some (d_OriginalLanguage detail))"
  "ReleaseDate (merge_detail real4 tmdbID detail row) =
     (if detail_releaseDate detail = [] then ReleaseDate row else Some (detail_releaseDate detail))"
  "TMDBPopularity (merge_detail real4 tmdbID detail row) =
     (if real4 (Popularity detail) = 0 then TMDBPopularity row else Some (real4 (Popularity detail)))"
  "OriginCountry (merge_detail real4 tmdbID detail row) =
     (if detail_originCountry detail = [] then OriginCountry row else Some (detail_originCountry detail))"
  "RuntimeMinutes (merge_detail real4 tmdbID detail row) =
     (if go_int (Runtime detail) = 0 then RuntimeMinutes row else Some (go_int (Runtime detail)))"
  "TMDBID (merge_detail real4 tmdbID detail row) = Some tmdbID"
  "NeedsBackfillTMDB (merge_detail real4 tmdbID detail row) = False"
  by (simp_all add: merge_detail_def backfill_update_def detail_imageURL_def NULLIF_def COALESCE_def
      image_base_w500_def)

lemma kept_or_real_merge: "kept_or_real row (merge_detail real4 tmdbID detail row)"
  by (simp add: kept_or_real_def merge_detail_fields str_real_def int_real_def rat_real_def
      image_base_w500_def)

lemma kept_or_real_exec_clear: "kept_or_real row (exec_stmt stmt_ok clear_flag row)"
  by (simp add: exec_stmt_def kept_or_real_refl kept_or_real_clear)

lemma backfillRow_kept_or_real: "kept_or_real r (fst (backfillRow real4 stmt_ok api r))"
  by (auto simp: backfillRow_def Let_def kept_or_real_refl kept_or_real_exec_clear kept_or_real_merge
      split: option.splits prod.splits reply.splits)

lemma maybeTMDBBackfill_kept_or_real:
  "kept_or_real row (fst (snd (maybeTMDBBackfill real4 stmt_ok key api title row)))"
  by (auto simp: maybeTMDBBackfill_def Let_def kept_or_real_refl kept_or_real_exec_clear
      kept_or_real_merge split: option.splits prod.splits reply.splits)

lemma batch_resolve_known:
  "TMDBID r = Some i \<Longrightarrow> i \<noteq> 0 \<Longrightarrow> batch_resolve api imdb r = (i, [])"
  by (simp add: batch_resolve_def)

lemma backfillRow_tmdb_id:
  assumes "int_real (TMDBID r)"
  shows "TMDBID (fst (backfillRow real4 stmt_ok api r)) = TMDBID r"
proof -
  from assms obtain i where i: "TMDBID r = Some i" "i \<noteq> 0"
    by (cases "TMDBID r") (auto simp: int_real_def)
  show ?thesis
    using i
    by (auto simp: backfillRow_def Let_def batch_resolve_known [OF i] clear_flag_def exec_stmt_def
        merge_detail_fields split: option.splits reply.splits)
qed

text \<open>
  Claim C1, amended. In both backfill paths each of the six fields \<^verbatim>\<open>image_url\<close>,
  \<^verbatim>\<open>original_language\<close>, \<^verbatim>\<open>release_date\<close>, \<^verbatim>\<open>tmdb_popularity\<close>, \<^verbatim>\<open>origin_country\<close>,
  \<^verbatim>\<open>runtime_minutes\<close> is left as it was or ends with a real value, so a real value is
  never replaced by an empty, null or zero one. In the merge of a fetched detail record a
  field takes the fetched value exactly when that value is not empty (not zero), whether
  or not the field already held a real value, and keeps its prior value otherwise;
  \<^verbatim>\<open>tmdb_id\<close> is set to the resolved id, which in the batch path is the stored id whenever
  that one is not null and not zero.
\<close>

theorem C1_field_kept_unless_fetched_value_is_real:
  "kept_or_real r (fst (backfillRow real4 stmt_ok api r)) \<and>
   kept_or_real row (fst (snd (maybeTMDBBackfill real4 stmt_ok key api title row))) \<and>
   (int_real (TMDBID r) \<longrightarrow> TMDBID (fst (backfillRow real4 stmt_ok api r)) = TMDBID r) \<and>
   ImageURL (merge_detail real4 tmdbID detail row) =
     (if PosterPath detail = [] then ImageURL row else Some (image_base_w500 @ PosterPath detail)) \<and>
   OriginalLanguage (merge_detail real4 tmdbID detail row) =
     (if d_OriginalLanguage detail = [] then OriginalLanguage row else Some (d_OriginalLanguage detail)) \<and>
   ReleaseDate (merge_detail real4 tmdbID detail row) =
     (if detail_releaseDate detail = [] then ReleaseDate row else Some (detail_releaseDate detail)) \<and>
   TMDBPopularity (merge_detail real4 tmdbID detail row) =
     (if real4 (Popularity detail) = 0 then TMDBPopularity row else Some (real4 (Popularity detail))) \<and>
   OriginCountry (merge_detail real4 tmdbID detail row) =
     (if detail_originCountry detail = [] then OriginCountry row else Some (detail_originCountry detail)) \<and>
   RuntimeMinutes (merge_detail real4 tmdbID detail row) =
     (if go_int (Runtime detail) = 0 then RuntimeMinutes row else Some (go_int (Runtime detail))) \<and>
   TMDBID (merge_detail real4 tmdbID detail row) = Some tmdbID"
  using backfillRow_kept_or_real [of r real4 stmt_ok api]
    maybeTMDBBackfill_kept_or_real [of row real4 stmt_ok key api title]
    backfillRow_tmdb_id [of r real4 stmt_ok api]
    merge_detail_fields [of real4 tmdbID detail row]
  by simp

theorem C1_witness:
  "int_real (TMDBID demo_title) \<and>
   kept_or_real demo_title (fst (backfillRow (\<lambda>x. x) True (demo_api 200) demo_title)) \<and>
   TMDBID (fst (backfillRow (\<lambda>x. x) True (demo_api 200) demo_title)) = Some 42 \<and>
   ImageURL (fst (backfillRow (\<lambda>x. x) True (demo_api 200) demo_title)) =
     Some ''https://image.tmdb.org/t/p/w500/new.jpg'' \<and>
   OriginalLanguage (fst (backfillRow (\<lambda>x. x) True (demo_api 200) demo_title)) = Some ''en'' \<and>
   ImageURL (merge_detail (\<lambda>x. x) 42 demo_detail demo_title) =
     Some ''https://image.tmdb.org/t/p/w500/new.jpg'' \<and>
   OriginCountry (merge_detail (\<lambda>x. x) 42 demo_detail demo_title) = Some ''US''"
proof -
  have h: "int_real (TMDBID demo_title)" by (simp add: int_real_def demo_title_def)
  have e: "PosterPath demo_detail = ''/new.jpg''" "detail_originCountry demo_detail = []"
    by (simp_all add: demo_detail_def detail_originCountry_def)
  have t: "TMDBID demo_title = Some 42" "OriginCountry demo_title = Some ''US''"
    by (simp_all add: demo_title_def)
  from C1_field_kept_unless_fetched_value_is_real
         [of demo_title "\<lambda>x. x" True "demo_api 200" demo_title "[]" demo_title 42 demo_detail]
       h e t
  have "kept_or_real demo_title (fst (backfillRow (\<lambda>x. x) True (demo_api 200) demo_title))"
    "TMDBID (fst (backfillRow (\<lambda>x. x) True (demo_api 200) demo_title)) = Some 42"
    "ImageURL (merge_detail (\<lambda>x. x) 42 demo_detail demo_title) =
       Some ''https://image.tmdb.org/t/p/w500/new.jpg''"
    "OriginCountry (merge_detail (\<lambda>x. x) 42 demo_detail demo_title) = Some ''US''"
    by (simp_all add: image_base_w500_def)
  moreover have "ImageURL (fst (backfillRow (\<lambda>x. x) True (demo_api 200) demo_title)) =
       Some ''https://image.tmdb.org/t/p/w500/new.jpg''"
    "OriginalLanguage (fst (backfillRow (\<lambda>x. x) True (demo_api 200) demo_title)) = Some ''en''"
    unfolding demo_backfill_merged by (simp_all add: demo_title_def)
  ultimately show ?thesis using h by simp
qed

subsection \<open>Which rows keep the flag\<close>

text \<open>
  Claim C5 as stated fails: 429 is not the only outcome after which a row is processed
  again. The detail call of the row below answers 200; the merge statement fails; the
  iteration ends outside the throttling branch and the flag is still set.
\<close>

theorem C5_counterexample:
  "NeedsBackfillTMDB demo_title \<and>
   get_detail (demo_api 200) False 42 = Reply 200 True demo_detail \<and>
   snd (snd (backfillRow (\<lambda>x. x) False (demo_api 200) demo_title)) \<noteq> Throttled \<and>
   NeedsBackfillTMDB (fst (backfillRow (\<lambda>x. x) False (demo_api 200) demo_title))"
  unfolding demo_backfill_merge_failed by (simp add: demo_title_def demo_api_def)

lemma backfillRow_throttled_iff:
  "snd (snd (backfillRow real4 stmt_ok api r)) = Throttled \<longleftrightarrow>
     (\<exists>imdb tmdbID calls decoded detail.
        IMDbID r = Some imdb \<and> imdb \<noteq> [] \<and> batch_resolve api imdb r = (tmdbID, calls) \<and>
        tmdbID \<noteq> 0 \<and> get_detail api (TitleType r = ''show'') tmdbID = Reply 429 decoded detail)"
  by (auto simp: backfillRow_def Let_def split: option.splits prod.splits reply.splits)

lemma backfillRow_merge_failed_iff:
  "snd (snd (backfillRow real4 stmt_ok api r)) = MergeFailed \<longleftrightarrow>
     \<not> stmt_ok \<and>
     (\<exists>imdb tmdbID calls decoded detail.
        IMDbID r = Some imdb \<and> imdb \<noteq> [] \<and> batch_resolve api imdb r = (tmdbID, calls) \<and>
        tmdbID \<noteq> 0 \<and> get_detail api (TitleType r = ''show'') tmdbID = Reply 200 decoded detail)"
  by (auto simp: backfillRow_def Let_def split: option.splits prod.splits reply.splits)

lemma backfillRow_flag:
  "NeedsBackfillTMDB (fst (backfillRow real4 stmt_ok api r)) =
     (NeedsBackfillTMDB r \<and> (snd (snd (backfillRow real4 stmt_ok api r)) = Throttled \<or> \<not> stmt_ok))"
  by (auto simp: backfillRow_def Let_def clear_flag_def exec_stmt_def merge_detail_fields
      split: option.splits prod.splits reply.splits)

lemma backfillRow_row:
  "fst (backfillRow real4 stmt_ok api r) =
     (case snd (snd (backfillRow real4 stmt_ok api r)) of
        Throttled \<Rightarrow> r
      | MergeFailed \<Rightarrow> r
      | Merged \<Rightarrow> fst (backfillRow real4 stmt_ok api r)
      | _ \<Rightarrow> exec_stmt stmt_ok clear_flag r)"
  by (auto simp: backfillRow_def Let_def split: option.splits prod.splits reply.splits)

text \<open>
  Claim C5, amended. For a flagged row processed by the batch: the flag is still set
  afterwards exactly when the iteration ended in the throttling branch or the statement
  of the iteration failed. The throttling branch is taken exactly when the row has an
  IMDb id, a TMDB id was known or resolved, and the detail call answered 429; it issues
  no statement and leaves the row untouched. The four other failed lookups (no IMDb id,
  no TMDB id resolved, transport error of the detail call, a status other than 200 and
  429) issue the flag-clearing statement, which leaves the row with only its flag cleared
  when it succeeds. The merge statement fails only after a detail call that answered 200,
  and then leaves the row, flag included, as it was.
\<close>

theorem C5_flag_kept_iff_throttled_or_statement_failed:
  assumes "NeedsBackfillTMDB r"
  shows "(NeedsBackfillTMDB (fst (backfillRow real4 stmt_ok api r)) \<longleftrightarrow>
            snd (snd (backfillRow real4 stmt_ok api r)) = Throttled \<or> \<not> stmt_ok) \<and>
         (snd (snd (backfillRow real4 stmt_ok api r)) = Throttled \<longleftrightarrow>
            (\<exists>imdb tmdbID calls decoded detail.
               IMDbID r = Some imdb \<and> imdb \<noteq> [] \<and> batch_resolve api imdb r = (tmdbID, calls) \<and>
               tmdbID \<noteq> 0 \<and>
               get_detail api (TitleType r = ''show'') tmdbID = Reply 429 decoded detail)) \<and>
         (snd (snd (backfillRow real4 stmt_ok api r)) = Throttled \<longrightarrow>
            fst (backfillRow real4 stmt_ok api r) = r) \<and>
         (snd (snd (backfillRow real4 stmt_ok api r)) \<in>
            {NoExternalId, NoSecondaryId, DetailTransportError, DetailOtherStatus} \<longrightarrow>
            fst (backfillRow real4 stmt_ok api r) = (if stmt_ok then clear_flag r else r)) \<and>
         (snd (snd (backfillRow real4 stmt_ok api r)) = MergeFailed \<longleftrightarrow>
            \<not> stmt_ok \<and>
            (\<exists>imdb tmdbID calls decoded detail.
               IMDbID r = Some imdb \<and> imdb \<noteq> [] \<and> batch_resolve api imdb r = (tmdbID, calls) \<and>
               tmdbID \<noteq> 0 \<and>
               get_detail api (TitleType r = ''show'') tmdbID = Reply 200 decoded detail)) \<and>
         (snd (snd (backfillRow real4 stmt_ok api r)) = MergeFailed \<longrightarrow>
            fst (backfillRow real4 stmt_ok api r) = r)"
proof -
  have 1: "NeedsBackfillTMDB (fst (backfillRow real4 stmt_ok api r)) \<longleftrightarrow>
            snd (snd (backfillRow real4 stmt_ok api r)) = Throttled \<or> \<not> stmt_ok"
    using assms backfillRow_flag [of real4 stmt_ok api r] by simp
  have 3: "snd (snd (backfillRow real4 stmt_ok api r)) = Throttled \<longrightarrow>
            fst (backfillRow real4 stmt_ok api r) = r"
    using backfillRow_row [of real4 stmt_ok api r] by auto
  have 4: "snd (snd (backfillRow real4 stmt_ok api r)) \<in>
            {NoExternalId, NoSecondaryId, DetailTransportError, DetailOtherStatus} \<longrightarrow>
            fst (backfillRow real4 stmt_ok api r) = (if stmt_ok then clear_flag r else r)"
    using backfillRow_row [of real4 stmt_ok api r] by (auto simp: exec_stmt_def)
  have 6: "snd (snd (backfillRow real4 stmt_ok api r)) = MergeFailed \<longrightarrow>
            fst (backfillRow real4 stmt_ok api r) = r"
    using backfillRow_row [of real4 stmt_ok api r] by auto
  from 1 backfillRow_throttled_iff [of real4 stmt_ok api r] 3 4
    backfillRow_merge_failed_iff [of real4 stmt_ok api r] 6
  show ?thesis by blast
qed

theorem C5_witness:
  "NeedsBackfillTMDB demo_title \<and>
   snd (snd (backfillRow (\<lambda>x. x) True (demo_api 429) demo_title)) = Throttled \<and>
   NeedsBackfillTMDB (fst (backfillRow (\<lambda>x. x) True (demo_api 429) demo_title)) \<and>
   fst (backfillRow (\<lambda>x. x) True (demo_api 429) demo_title) = demo_title \<and>
   snd (snd (backfillRow (\<lambda>x. x) True (demo_api 404) demo_title)) = DetailOtherStatus \<and>
   \<not> NeedsBackfillTMDB (fst (backfillRow (\<lambda>x. x) True (demo_api 404) demo_title)) \<and>
   fst (backfillRow (\<lambda>x. x) True (demo_api 404) demo_title) = clear_flag demo_title \<and>
   snd (snd (backfillRow (\<lambda>x. x) False (demo_api 200) demo_title)) = MergeFailed \<and>
   NeedsBackfillTMDB (fst (backfillRow (\<lambda>x. x) False (demo_api 200) demo_title)) \<and>
   fst (backfillRow (\<lambda>x. x) False (demo_api 200) demo_title) = demo_title"
proof -
  have h: "NeedsBackfillTMDB demo_title" by (simp add: demo_title_def)
  have a: "snd (snd (backfillRow (\<lambda>x. x) True (demo_api 429) demo_title)) = Throttled"
    by (simp add: demo_backfill_throttled)
  have b: "snd (snd (backfillRow (\<lambda>x. x) True (demo_api 404) demo_title)) = DetailOtherStatus"
    by (simp add: demo_backfill_other)
  have c: "snd (snd (backfillRow (\<lambda>x. x) False (demo_api 200) demo_title)) = MergeFailed"
    by (simp add: demo_backfill_merge_failed)
  from C5_flag_kept_iff_throttled_or_statement_failed [OF h, of "\<lambda>x. x" True "demo_api 429"]
       C5_flag_kept_iff_throttled_or_statement_failed [OF h, of "\<lambda>x. x" True "demo_api 404"]
       C5_flag_kept_iff_throttled_or_statement_failed [OF h, of "\<lambda>x. x" False "demo_api 200"]
       h a b c
  show ?thesis by (simp add: clear_flag_def)
qed

section \<open>LazyFetchGate\<close>

subsection \<open>Sentinels on the way to the template\<close>

lemma demo_miss_stored:
  "fetchAndStoreTMDBImage ''k'' demo_miss_api ''tt01'' ''movie'' demo_unfetched_title =
     (([], 42), [FindCall ''tt01''], demo_missed_title)"
  by (simp add: fetchAndStoreTMDBImage_def demo_miss_api_def demo_find_no_poster_def pick_all_def
      pick_primary_def pick_fallback_def take_meta_def picked_zero_def store_image_def
      demo_unfetched_title_def demo_missed_title_def NULLIF_def COALESCE_def Let_def)

text \<open>
  Claim C3 says that no sentinel reaches a template or a caller. The code at the inputs
  below: after a miss \<^verbatim>\<open>fetchAndStoreTMDBImage\<close> stores \<^verbatim>\<open>'none'\<close> in the title row; the list
  handler passes an item holding \<^verbatim>\<open>'none'\<close> to its template unchanged (its strip loop
  tests the episode sentinel only); \<^verbatim>\<open>maybeFetchImage\<close> leaves \<^verbatim>\<open>'none'\<close> in the title of
  a detail page, and \<^verbatim>\<open>hasImage\<close> takes it for a real image; and \<^verbatim>\<open>maybeFetchEpisodes\<close>
  returns before \<^verbatim>\<open>stripEpisodeSentinels\<close> when no API key is set, so a stored episode
  sentinel stays in the show handed to the template.
\<close>

theorem C3_title_sentinel_reaches_the_template:
  "ImageURL (snd (snd (fetchAndStoreTMDBImage ''k'' demo_miss_api ''tt01'' ''movie'' demo_unfetched_title)))
     = Some title_sentinel \<and>
   map li_ImageURL (handleTitlesList_items (\<lambda>_ _. []) [demo_missed_item]) = [Some title_sentinel] \<and>
   ImageURL (fst (maybeFetchImage ''k'' demo_miss_api demo_missed_title demo_missed_title))
     = Some title_sentinel \<and>
   hasImage (Some title_sentinel) \<and>
   map (map EpImageURL \<circ> Episodes)
     (Seasons (g_show (maybeFetchEpisodes [] demo_miss_api 0 demo_show_title demo_sentinel_show)))
     = [[Some episode_sentinel]]"
  unfolding demo_miss_stored
  by (simp add: title_sentinel_def episode_sentinel_def handleTitlesList_items_def list_fetch_item_def
      list_strip_item_def needsFetch_def demo_missed_item_def maybeFetchImage_def demo_missed_title_def
      hasImage_def maybeFetchEpisodes_def demo_sentinel_show_def demo_season_def demo_episode_def)

text \<open>Where \<^verbatim>\<open>stripEpisodeSentinels\<close> does run, no episode keeps the episode sentinel.\<close>

lemma stripEpisodeSentinels_clean:
  "\<forall>s\<in>set (Seasons (stripEpisodeSentinels show)). \<forall>ep\<in>set (Episodes s).
     EpImageURL ep \<noteq> Some episode_sentinel"
  by (auto simp: stripEpisodeSentinels_def strip_episode_def episode_sentinel_def)

subsection \<open>Requests under the cooldown\<close>

lemma fetchAndStoreTMDBImage_calls:
  "\<forall>c\<in>set (fst (snd (fetchAndStoreTMDBImage key api imdbID titleType row))). \<not> is_episode_call c"
  by (auto simp: fetchAndStoreTMDBImage_def Let_def is_episode_call_def split: reply.splits)

lemma maybeFetchEpisodes_cooldown:
  assumes "EpisodesCheckedAt (ShowTitle sh) = Some t" "now - t < cooldown"
  shows "g_calls (maybeFetchEpisodes key api now row sh) =
           (if key = [] \<or> IMDbID (ShowTitle sh) = None \<or> IMDbID (ShowTitle sh) = Some [] then []
            else if (case TMDBID (ShowTitle sh) of None \<Rightarrow> 0 | Some i \<Rightarrow> i) = 0
            then fst (snd (fetchAndStoreTMDBImage key api
                   (case IMDbID (ShowTitle sh) of None \<Rightarrow> [] | Some i \<Rightarrow> i) ''show'' row))
            else [])"
    and "g_writes (maybeFetchEpisodes key api now row sh) = []"
  using assms by (auto simp: maybeFetchEpisodes_def Let_def)

text \<open>
  When the show's \<^verbatim>\<open>episodes_checked_at\<close> is less than 24 hours before the clock,
  \<^verbatim>\<open>maybeFetchEpisodes\<close> sends no episode request and issues no episode statement,
  whatever the episodes hold; with a known TMDB id it sends no request at all. A title
  image is eligible for fetch exactly when the title has a non-empty IMDb id and the
  image is null or empty; so \<^verbatim>\<open>maybeFetchImage\<close> on a title whose image holds a sentinel
  sends no request and changes nothing.
\<close>

lemma cooldown_sends_no_episode_request:
  "(EpisodesCheckedAt (ShowTitle sh) = Some t \<and> now - t < cooldown \<longrightarrow>
      (\<forall>c\<in>set (g_calls (maybeFetchEpisodes key api now row sh)). \<not> is_episode_call c) \<and>
      ((\<exists>i. TMDBID (ShowTitle sh) = Some i \<and> i \<noteq> 0) \<longrightarrow>
         g_calls (maybeFetchEpisodes key api now row sh) = []) \<and>
      g_writes (maybeFetchEpisodes key api now row sh) = []) \<and>
   (needsFetch imageURL imdbID \<longleftrightarrow>
      imdbID \<noteq> None \<and> imdbID \<noteq> Some [] \<and> (imageURL = None \<or> imageURL = Some [])) \<and>
   (ImageURL title = Some title_sentinel \<or> ImageURL title = Some episode_sentinel \<longrightarrow>
      maybeFetchImage key api title row = (title, [], row))"
proof -
  have 1: "EpisodesCheckedAt (ShowTitle sh) = Some t \<and> now - t < cooldown \<longrightarrow>
      (\<forall>c\<in>set (g_calls (maybeFetchEpisodes key api now row sh)). \<not> is_episode_call c) \<and>
      ((\<exists>i. TMDBID (ShowTitle sh) = Some i \<and> i \<noteq> 0) \<longrightarrow>
         g_calls (maybeFetchEpisodes key api now row sh) = []) \<and>
      g_writes (maybeFetchEpisodes key api now row sh) = []"
  proof
    assume a: "EpisodesCheckedAt (ShowTitle sh) = Some t \<and> now - t < cooldown"
    then have c: "EpisodesCheckedAt (ShowTitle sh) = Some t" "now - t < cooldown" by simp_all
    have "\<forall>c\<in>set (g_calls (maybeFetchEpisodes key api now row sh)). \<not> is_episode_call c"
      unfolding maybeFetchEpisodes_cooldown(1) [OF c]
      using fetchAndStoreTMDBImage_calls
        [of key api "case IMDbID (ShowTitle sh) of None \<Rightarrow> [] | Some i \<Rightarrow> i" "''show''" row]
      by auto
    moreover have "(\<exists>i. TMDBID (ShowTitle sh) = Some i \<and> i \<noteq> 0) \<longrightarrow>
         g_calls (maybeFetchEpisodes key api now row sh) = []"
      unfolding maybeFetchEpisodes_cooldown(1) [OF c] by auto
    ultimately show "(\<forall>c\<in>set (g_calls (maybeFetchEpisodes key api now row sh)). \<not> is_episode_call c) \<and>
      ((\<exists>i. TMDBID (ShowTitle sh) = Some i \<and> i \<noteq> 0) \<longrightarrow>
         g_calls (maybeFetchEpisodes key api now row sh) = []) \<and>
      g_writes (maybeFetchEpisodes key api now row sh) = []"
      using maybeFetchEpisodes_cooldown(2) [OF c] by simp
  qed
  have 2: "needsFetch imageURL imdbID \<longleftrightarrow>
      imdbID \<noteq> None \<and> imdbID \<noteq> Some [] \<and> (imageURL = None \<or> imageURL = Some [])"
    by (simp add: needsFetch_def)
  have 3: "ImageURL title = Some title_sentinel \<or> ImageURL title = Some episode_sentinel \<longrightarrow>
      maybeFetchImage key api title row = (title, [], row)"
    by (auto simp: maybeFetchImage_def needsFetch_def title_sentinel_def episode_sentinel_def)
  from 1 2 3 show ?thesis by blast
qed

lemma cooldown_demo:
  "EpisodesCheckedAt (ShowTitle demo_checked_show) = Some 1000 \<and>
   (3600000000000 :: int) - 1000 < cooldown \<and>
   TMDBID (ShowTitle demo_checked_show) = Some 77 \<and>
   g_calls (maybeFetchEpisodes ''k'' demo_ep_api 3600000000000 demo_show_title demo_checked_show) = [] \<and>
   g_writes (maybeFetchEpisodes ''k'' demo_ep_api 3600000000000 demo_show_title demo_checked_show) = [] \<and>
   ImageURL demo_missed_title = Some title_sentinel \<and>
   maybeFetchImage ''k'' demo_ep_api demo_missed_title demo_show_title =
     (demo_missed_title, [], demo_show_title)"
proof -
  have a: "EpisodesCheckedAt (ShowTitle demo_checked_show) = Some 1000"
    by (simp add: demo_checked_show_def)
  have b: "(3600000000000 :: int) - 1000 < cooldown" by (simp add: cooldown_def)
  have c: "TMDBID (ShowTitle demo_checked_show) = Some 77"
    by (simp add: demo_checked_show_def demo_show_title_def)
  have d: "ImageURL demo_missed_title = Some title_sentinel"
    by (simp add: demo_missed_title_def title_sentinel_def)
  from cooldown_sends_no_episode_request
         [where sh = demo_checked_show and t = 1000 and now = 3600000000000 and key = "''k''"
            and api = demo_ep_api and row = demo_show_title and title = demo_missed_title]
       a b c d
  show ?thesis by simp
qed

lemma demo_nomatch_stored:
  "fetchAndStoreTMDBImage ''k'' demo_nomatch_api ''tt09'' ''show'' (demo_unviewed_title checked) =
     (([], 0), [FindCall ''tt09''], demo_unmatched_title checked)"
  by (simp add: fetchAndStoreTMDBImage_def demo_nomatch_api_def pick_all_def pick_primary_def
      pick_fallback_def picked_zero_def store_image_def demo_unviewed_title_def
      demo_unmatched_title_def NULLIF_def COALESCE_def Let_def)

lemma demo_nomatch_again:
  "fetchAndStoreTMDBImage ''k'' demo_nomatch_api ''tt09'' ''show'' (demo_unmatched_title checked) =
     (([], 0), [FindCall ''tt09''], demo_unmatched_title checked)"
  by (simp add: fetchAndStoreTMDBImage_def demo_nomatch_api_def pick_all_def pick_primary_def
      pick_fallback_def picked_zero_def store_image_def demo_unmatched_title_def NULLIF_def
      COALESCE_def Let_def)

text \<open>
  Claim C9 says that a title image holding a negative sentinel triggers no external call
  on a repeat view. The code at the input below: a show with an IMDb id that TMDB does
  not know. Its first view stores \<^verbatim>\<open>image_url = 'none'\<close> and \<^verbatim>\<open>tmdb_id = 0\<close>. On every later
  view of the show page \<^verbatim>\<open>maybeFetchImage\<close> sends nothing, as the claim says; but
  \<^verbatim>\<open>maybeFetchEpisodes\<close> reads the stored TMDB id 0 as no id and calls
  \<^verbatim>\<open>fetchAndStoreTMDBImage\<close> before its cooldown test: the Find request is sent again, and
  the row is written again and left as it was, so the next view does the same. This is so
  whatever the clock and \<^verbatim>\<open>episodes_checked_at\<close> are.
\<close>

theorem C9_repeat_view_of_unmatched_show_sends_find:
  "snd (snd (fetchAndStoreTMDBImage ''k'' demo_nomatch_api ''tt09'' ''show'' (demo_unviewed_title checked)))
     = demo_unmatched_title checked \<and>
   ImageURL (demo_unmatched_title checked) = Some title_sentinel \<and>
   TMDBID (demo_unmatched_title checked) = Some 0 \<and>
   maybeFetchImage ''k'' demo_nomatch_api (demo_unmatched_title checked) (demo_unmatched_title checked)
     = (demo_unmatched_title checked, [], demo_unmatched_title checked) \<and>
   g_calls (maybeFetchEpisodes ''k'' demo_nomatch_api now (demo_unmatched_title checked)
              (demo_unmatched_show checked)) = [FindCall ''tt09''] \<and>
   g_row (maybeFetchEpisodes ''k'' demo_nomatch_api now (demo_unmatched_title checked)
            (demo_unmatched_show checked)) = demo_unmatched_title checked \<and>
   g_show (maybeFetchEpisodes ''k'' demo_nomatch_api now (demo_unmatched_title checked)
             (demo_unmatched_show checked)) = demo_unmatched_show checked"
proof -
  have i: "IMDbID (demo_unmatched_title checked) = Some ''tt09''"
    "TMDBID (demo_unmatched_title checked) = Some 0"
    "ImageURL (demo_unmatched_title checked) = Some ''none''"
    by (simp_all add: demo_unmatched_title_def)
  have g: "maybeFetchEpisodes ''k'' demo_nomatch_api now (demo_unmatched_title checked)
             (demo_unmatched_show checked) =
           \<lparr>g_show = demo_unmatched_show checked, g_calls = [FindCall ''tt09''], g_writes = [],
            g_row = demo_unmatched_title checked\<rparr>"
    by (simp add: maybeFetchEpisodes_def demo_unmatched_show_def i demo_nomatch_again Let_def)
  have m: "maybeFetchImage ''k'' demo_nomatch_api (demo_unmatched_title checked)
             (demo_unmatched_title checked)
           = (demo_unmatched_title checked, [], demo_unmatched_title checked)"
    by (simp add: maybeFetchImage_def needsFetch_def i)
  show ?thesis
    unfolding g demo_nomatch_stored using m i by (simp add: title_sentinel_def)
qed

subsection \<open>The omniseason retry\<close>

text \<open>Two filters have the same length exactly when the weaker one lets nothing else
  through.\<close>

lemma filter_conj_length:
  "length (filter (\<lambda>x. P x \<and> Q x) xs) = length (filter P xs) \<longleftrightarrow> (\<forall>x\<in>set xs. P x \<longrightarrow> Q x)"
proof (induction xs)
  case Nil
  then show ?case by simp
next
  case (Cons x xs)
  have le: "length (filter (\<lambda>x. P x \<and> Q x) xs) \<le> length (filter P xs)"
  proof -
    have "filter (\<lambda>x. P x \<and> Q x) xs = filter Q (filter P xs)" by (simp add: conj_commute)
    then show ?thesis by (simp del: filter_filter)
  qed
  show ?case
  proof (cases "P x")
    case False
    with Cons show ?thesis by simp
  next
    case True
    show ?thesis
    proof (cases "Q x")
      case True
      with \<open>P x\<close> Cons show ?thesis by simp
    next
      case False
      with \<open>P x\<close> le show ?thesis by auto
    qed
  qed
qed

lemma bump_stats_other:
  "seasonNum (r_ref res) \<noteq> sn \<Longrightarrow> bump_stats res m sn = m sn"
  by (simp add: bump_stats_def Let_def)

lemma bump_stats_same:
  "seasonNum (r_ref res) = sn \<Longrightarrow>
     bump_stats res m sn =
       Some (fst (stat_of m sn) + (if is_notFound res then 1 else 0), snd (stat_of m sn) + 1)"
  by (simp add: bump_stats_def Let_def stat_of_def is_notFound_def)

lemma fold_bump_stats:
  "fold bump_stats rs m sn =
     (if filter (in_season sn) rs = [] then m sn
      else Some (fst (stat_of m sn) + length (filter (\<lambda>r. in_season sn r \<and> is_notFound r) rs),
                 snd (stat_of m sn) + length (filter (in_season sn) rs)))"
proof (induction rs arbitrary: m)
  case Nil
  then show ?case by simp
next
  case (Cons r rs)
  show ?case
  proof (cases "seasonNum (r_ref r) = sn")
    case False
    then have "\<not> in_season sn r" by (simp add: in_season_def)
    with False Cons [of "bump_stats r m"] show ?thesis
      by (simp add: bump_stats_other stat_of_def)
  next
    case True
    then have i: "in_season sn r" by (simp add: in_season_def)
    have s: "stat_of (bump_stats r m) sn =
        (fst (stat_of m sn) + (if is_notFound r then 1 else 0), snd (stat_of m sn) + 1)"
      using bump_stats_same [OF True, of m] by (simp add: stat_of_def)
    show ?thesis
      using Cons [of "bump_stats r m"] i s bump_stats_same [OF True, of m]
      by (cases "filter (in_season sn) rs = []") (auto simp: filter_empty_conv)
  qed
qed

lemma seasonNotFound_eq:
  "seasonNotFound results sn =
     (if filter (in_season sn) results = [] then None
      else Some (length (filter (\<lambda>r. in_season sn r \<and> is_notFound r) results),
                 length (filter (in_season sn) results)))"
  unfolding seasonNotFound_def fold_bump_stats by (simp add: stat_of_def)

lemma omni_candidate_iff:
  assumes "i < length results"
  shows "omni_candidate results i \<longleftrightarrow>
     (\<forall>j<length results. seasonNum (r_ref (results ! j)) = seasonNum (r_ref (results ! i)) \<longrightarrow>
          f_notFound (r_fetched (results ! j))) \<and>
     seasonNum (r_ref (results ! i)) \<noteq> 1"
proof -
  let ?sn = "seasonNum (r_ref (results ! i))"
  have mem: "results ! i \<in> set results" using assms by simp
  have ne: "filter (in_season ?sn) results \<noteq> []"
    using mem by (auto simp: filter_empty_conv in_season_def)
  have all: "(length (filter (\<lambda>r. in_season ?sn r \<and> is_notFound r) results) =
              length (filter (in_season ?sn) results)) \<longleftrightarrow>
             (\<forall>r\<in>set results. in_season ?sn r \<longrightarrow> is_notFound r)"
    by (rule filter_conj_length)
  have idx: "(\<forall>r\<in>set results. in_season ?sn r \<longrightarrow> is_notFound r) \<longleftrightarrow>
     (\<forall>j<length results. seasonNum (r_ref (results ! j)) = ?sn \<longrightarrow>
          f_notFound (r_fetched (results ! j)))"
    by (auto simp: in_season_def is_notFound_def all_set_conv_all_nth)
  have self: "(\<forall>j<length results. seasonNum (r_ref (results ! j)) = ?sn \<longrightarrow>
          f_notFound (r_fetched (results ! j))) \<Longrightarrow> f_notFound (r_fetched (results ! i))"
    using assms by blast
  show ?thesis
    unfolding omni_candidate_def Let_def seasonNotFound_eq
    using ne all idx self by auto
qed

lemma omniRetry_iff:
  "i \<in> set (omniRetry results) \<longleftrightarrow>
     i < length results \<and>
     (\<forall>j<length results. seasonNum (r_ref (results ! j)) = seasonNum (r_ref (results ! i)) \<longrightarrow>
          f_notFound (r_fetched (results ! j))) \<and>
     seasonNum (r_ref (results ! i)) \<noteq> 1"
  using omni_candidate_iff [of i results] by (auto simp: omniRetry_def)

lemma omniRetry_distinct: "distinct (omniRetry results)"
  by (simp add: omniRetry_def)

lemma map_ref_update:
  "map r_ref (rs[idx := \<lparr>r_ref = r_ref (rs ! idx), r_fetched = f\<rparr>]) = map r_ref rs"
proof (cases "idx < length rs")
  case True
  have "map r_ref (rs[idx := \<lparr>r_ref = r_ref (rs ! idx), r_fetched = f\<rparr>]) =
        (map r_ref rs)[idx := map r_ref rs ! idx]"
    using True by (simp add: map_update)
  then show ?thesis by simp
next
  case False
  then have "length rs \<le> idx" by simp
  then show ?thesis by (simp only: list_update_beyond)
qed

lemma retry_one_refs:
  "map r_ref (fst (retry_one key api tmdbID offsets idx (rs, c, w))) = map r_ref rs"
proof -
  obtain f c1 w1 where
    "fetchAndStoreEpisodeData key api tmdbID 1 (absEp offsets (r_ref (rs ! idx)))
       (episodeID (r_ref (rs ! idx))) = (f, c1, w1)"
    by (cases "fetchAndStoreEpisodeData key api tmdbID 1 (absEp offsets (r_ref (rs ! idx)))
       (episodeID (r_ref (rs ! idx)))") auto
  then show ?thesis
    using map_ref_update [of rs idx] by (simp add: retry_one_def Let_def)
qed

lemma retry_one_calls:
  "fst (snd (retry_one key api tmdbID offsets idx (rs, c, w))) =
     c @ fst (snd (retry_call key api tmdbID offsets (r_ref (rs ! idx))))"
  by (auto simp: retry_one_def retry_call_def Let_def split: prod.splits)

lemma fold_retry_one:
  assumes "\<forall>i\<in>set idxs. i < length rs"
  shows "map r_ref (fst (fold (retry_one key api tmdbID offsets) idxs (rs, c, w))) = map r_ref rs \<and>
         fst (snd (fold (retry_one key api tmdbID offsets) idxs (rs, c, w))) =
           c @ concat (map (\<lambda>i. fst (snd (retry_call key api tmdbID offsets (r_ref (rs ! i))))) idxs)"
  using assms
proof (induction idxs arbitrary: rs c w)
  case Nil
  then show ?case by simp
next
  case (Cons i idxs)
  obtain rs' c' w' where step: "retry_one key api tmdbID offsets i (rs, c, w) = (rs', c', w')"
    by (cases "retry_one key api tmdbID offsets i (rs, c, w)") auto
  have refs: "map r_ref rs' = map r_ref rs"
    using retry_one_refs [of key api tmdbID offsets i rs c w] step by simp
  then have len: "length rs' = length rs" by (metis length_map)
  have c': "c' = c @ fst (snd (retry_call key api tmdbID offsets (r_ref (rs ! i))))"
    using retry_one_calls [of key api tmdbID offsets i rs c w] step by simp
  have same: "\<And>j. j < length rs \<Longrightarrow> r_ref (rs' ! j) = r_ref (rs ! j)"
  proof -
    fix j assume "j < length rs"
    with len have "map r_ref rs' ! j = r_ref (rs' ! j)" "map r_ref rs ! j = r_ref (rs ! j)" by simp_all
    with refs show "r_ref (rs' ! j) = r_ref (rs ! j)" by simp
  qed
  have "\<forall>j\<in>set idxs. j < length rs'" using Cons.prems len by simp
  from Cons.IH [OF this, of c' w']
  have ih: "map r_ref (fst (fold (retry_one key api tmdbID offsets) idxs (rs', c', w'))) = map r_ref rs'"
    "fst (snd (fold (retry_one key api tmdbID offsets) idxs (rs', c', w'))) =
       c' @ concat (map (\<lambda>i. fst (snd (retry_call key api tmdbID offsets (r_ref (rs' ! i))))) idxs)"
    by simp_all
  have "map (\<lambda>i. fst (snd (retry_call key api tmdbID offsets (r_ref (rs' ! i))))) idxs =
        map (\<lambda>i. fst (snd (retry_call key api tmdbID offsets (r_ref (rs ! i))))) idxs"
    using same Cons.prems by simp
  with ih refs c' step show ?case by simp
qed

lemma retry_round_calls:
  "fst (snd (retry_round key api tmdbID offsets results)) =
     concat (map (\<lambda>i. fst (snd (retry_call key api tmdbID offsets (r_ref (results ! i)))))
       (omniRetry results))"
proof -
  have "\<forall>i\<in>set (omniRetry results). i < length results" by (simp add: omniRetry_def)
  from fold_retry_one [OF this, of key api tmdbID offsets "[]" "[]"]
  show ?thesis by (simp add: retry_round_def)
qed

lemma attempts_count: "snd (attempts get k n prev) \<le> k + n"
proof (induction n arbitrary: k prev)
  case 0
  then show ?case by simp
next
  case (Suc n)
  show ?case
  proof (cases "get k")
    case NetErr
    then show ?thesis by simp
  next
    case (Reply code decoded body)
    with Suc [of "Suc k" "Reply code decoded body"] show ?thesis by auto
  qed
qed

lemma fetchAndStoreEpisodeData_calls:
  "\<exists>n\<le>3. fst (snd (fetchAndStoreEpisodeData key api tmdbID sn en eid)) =
      replicate n (EpisodeCall tmdbID sn en)"
proof (cases "key = []")
  case True
  then show ?thesis by (simp add: fetchAndStoreEpisodeData_def)
next
  case False
  obtain resp n where a: "attempts (get_episode api (tmdbID, sn, en, eid)) 0 3 NetErr = (resp, n)"
    by (cases "attempts (get_episode api (tmdbID, sn, en, eid)) 0 3 NetErr") auto
  with attempts_count [of "get_episode api (tmdbID, sn, en, eid)" 0 3 NetErr]
  have n: "n \<le> 3" by simp
  have "fst (snd (fetchAndStoreEpisodeData key api tmdbID sn en eid)) =
      replicate n (EpisodeCall tmdbID sn en)"
    using False a by (auto simp: fetchAndStoreEpisodeData_def Let_def split: reply.splits)
  with n show ?thesis by blast
qed

lemma attempts_sent: "k < snd (attempts get k (Suc n) prev)"
proof (induction n arbitrary: k prev)
  case 0
  show ?case by (cases "get k") simp_all
next
  case (Suc n)
  show ?case
  proof (cases "get k")
    case NetErr
    then show ?thesis by simp
  next
    case (Reply code decoded body)
    with Suc [of "Suc k" "Reply code decoded body"] show ?thesis by auto
  qed
qed

lemma fetchAndStoreEpisodeData_sent:
  assumes "key \<noteq> []"
  shows "\<exists>n. 1 \<le> n \<and> n \<le> 3 \<and>
           fst (snd (fetchAndStoreEpisodeData key api tmdbID sn en eid)) =
             replicate n (EpisodeCall tmdbID sn en)"
proof -
  obtain resp n where a: "attempts (get_episode api (tmdbID, sn, en, eid)) 0 3 NetErr = (resp, n)"
    by (cases "attempts (get_episode api (tmdbID, sn, en, eid)) 0 3 NetErr") auto
  with attempts_count [of "get_episode api (tmdbID, sn, en, eid)" 0 3 NetErr]
  have n: "n \<le> 3" by simp
  from a attempts_sent [of 0 "get_episode api (tmdbID, sn, en, eid)" 2 NetErr]
  have n1: "1 \<le> n" by (simp add: numeral_3_eq_3)
  have "fst (snd (fetchAndStoreEpisodeData key api tmdbID sn en eid)) =
      replicate n (EpisodeCall tmdbID sn en)"
    using assms a by (auto simp: fetchAndStoreEpisodeData_def Let_def split: reply.splits)
  with n n1 show ?thesis by blast
qed

lemma episodeOffset_loop_absent:
  "sn \<notin> SeasonNumber ` set ss \<Longrightarrow> episodeOffset_loop ss c m sn = m sn"
  by (induction ss arbitrary: c m) auto

lemma episodeOffset_loop_present:
  assumes "sorted_wrt (\<lambda>a b. SeasonNumber a < SeasonNumber b) ss" "sn \<in> SeasonNumber ` set ss"
  shows "episodeOffset_loop ss c m sn = Some (c + episodes_before ss sn)"
  using assms
proof (induction ss arbitrary: c m)
  case Nil
  then show ?case by simp
next
  case (Cons s ss)
  have later: "\<forall>x\<in>set ss. SeasonNumber s < SeasonNumber x" using Cons.prems(1) by simp
  show ?case
  proof (cases "SeasonNumber s = sn")
    case True
    with later have "sn \<notin> SeasonNumber ` set ss" by auto
    moreover have "filter (\<lambda>x. SeasonNumber x < sn) ss = []"
      using later True by (auto simp: filter_empty_conv)
    ultimately show ?thesis
      using True by (simp add: episodeOffset_loop_absent episodes_before_def)
  next
    case False
    with Cons.prems(2) have in_rest: "sn \<in> SeasonNumber ` set ss" by auto
    then obtain x where "x \<in> set ss" "SeasonNumber x = sn" by auto
    with later have lt: "SeasonNumber s < sn" by auto
    have srt: "sorted_wrt (\<lambda>a b. SeasonNumber a < SeasonNumber b) ss" using Cons.prems(1) by simp
    have "episodeOffset_loop (s # ss) c m sn =
          episodeOffset_loop ss (c + int (length (Episodes s))) (m(SeasonNumber s \<mapsto> c)) sn"
      by simp
    also have "\<dots> = Some (c + int (length (Episodes s)) + episodes_before ss sn)"
      by (rule Cons.IH [OF srt in_rest])
    also have "c + int (length (Episodes s)) + episodes_before ss sn = c + episodes_before (s # ss) sn"
      using lt by (simp add: episodes_before_def)
    finally show ?thesis .
  qed
qed

lemma offset_of_episodeOffset:
  assumes "sorted_wrt (\<lambda>a b. SeasonNumber a < SeasonNumber b) seasons"
    and "sn \<in> SeasonNumber ` set seasons"
  shows "offset_of (episodeOffset seasons) sn = episodes_before seasons sn"
  using episodeOffset_loop_present [OF assms, of 0 Map.empty]
  by (simp add: offset_of_def episodeOffset_def)

lemma season_refs_places:
  "map ref_place (season_refs (n, s)) =
     map (Pair n) (map fst (filter (\<lambda>(ei, ep). wants_fetch ep) (enumerate 0 (Episodes s))))"
  by (simp add: season_refs_def ref_place_def comp_def case_prod_beta)

lemma season_refs_distinct: "distinct (map ref_place (season_refs (n, s)))"
proof -
  have "distinct (map fst (enumerate 0 (Episodes s)))" by simp
  then have "distinct (map fst (filter (\<lambda>(ei, ep). wants_fetch ep) (enumerate 0 (Episodes s))))"
    by (rule distinct_map_filter)
  then show ?thesis
    unfolding season_refs_places by (simp add: distinct_map inj_on_def)
qed

lemma season_refs_idx: "r \<in> set (season_refs (n, s)) \<Longrightarrow> seasonIdx r = n"
  by (auto simp: season_refs_def)

lemma places_disjoint:
  assumes "\<forall>r\<in>set A. seasonIdx r = n" "\<forall>r\<in>set B. Suc n \<le> seasonIdx r"
  shows "set (map ref_place A) \<inter> set (map ref_place B) = {}"
proof (rule ccontr)
  assume "set (map ref_place A) \<inter> set (map ref_place B) \<noteq> {}"
  then obtain k where "k \<in> ref_place ` set A" "k \<in> ref_place ` set B" by auto
  then obtain a b where "a \<in> set A" "b \<in> set B" "ref_place a = k" "ref_place b = k"
    by (auto simp: image_iff)
  with assms have "seasonIdx a = n" "Suc n \<le> seasonIdx b" "seasonIdx a = seasonIdx b"
    by (auto simp: ref_place_def)
  then show False by simp
qed

lemma enumerate_refs_distinct:
  "distinct (map ref_place (concat (map season_refs (enumerate n seasons)))) \<and>
   (\<forall>r\<in>set (concat (map season_refs (enumerate n seasons))). n \<le> seasonIdx r)"
proof (induction seasons arbitrary: n)
  case Nil
  then show ?case by simp
next
  case (Cons s ss)
  define A where "A = season_refs (n, s)"
  define B where "B = concat (map season_refs (enumerate (Suc n) ss))"
  have B: "distinct (map ref_place B)" "\<forall>r\<in>set B. Suc n \<le> seasonIdx r"
    using Cons.IH [of "Suc n"] by (simp_all add: B_def)
  have A: "distinct (map ref_place A)" "\<forall>r\<in>set A. seasonIdx r = n"
    using season_refs_distinct [of n s] season_refs_idx [of _ n s] by (auto simp: A_def)
  have disj: "set (map ref_place A) \<inter> set (map ref_place B) = {}"
    by (rule places_disjoint [OF A(2) B(2)])
  have eq: "concat (map season_refs (enumerate n (s # ss))) = A @ B" by (simp add: A_def B_def)
  have d: "distinct (map ref_place (A @ B))" using A(1) B(1) disj by simp
  have g: "\<forall>r\<in>set (A @ B). n \<le> seasonIdx r" using A(2) B(2) by auto
  from d g show ?case unfolding eq by blast
qed

lemma collect_toFetch_distinct: "distinct (map ref_place (collect_toFetch seasons))"
  using enumerate_refs_distinct [of 0 seasons] by (simp add: collect_toFetch_def)

lemma collect_toFetch_season:
  assumes "ref \<in> set (collect_toFetch seasons)"
  shows "seasonNum ref \<in> SeasonNumber ` set seasons"
proof -
  from assms obtain p where p: "p \<in> set (enumerate 0 seasons)" "ref \<in> set (season_refs p)"
    by (auto simp: collect_toFetch_def)
  obtain si s where ps: "p = (si, s)" by (cases p)
  with p(1) have "s \<in> set seasons" by (auto simp: in_set_enumerate_eq)
  moreover from p(2) ps have "seasonNum ref = SeasonNumber s" by (auto simp: season_refs_def)
  ultimately show ?thesis by auto
qed

lemma first_results_refs: "map r_ref (first_results key api tmdbID toFetch) = toFetch"
  by (simp add: first_results_def comp_def)

lemma first_results_nth:
  "i < length toFetch \<Longrightarrow> r_ref (first_results key api tmdbID toFetch ! i) = toFetch ! i"
  by (simp add: first_results_def)

lemma fetch_rounds_calls:
  "g_calls (fetch_rounds key api now tmdbID row sh toFetch) =
     first_calls key api tmdbID toFetch @
     fst (snd (retry_round key api tmdbID (episodeOffset (Seasons sh))
                 (first_results key api tmdbID toFetch)))"
  by (simp add: fetch_rounds_def Let_def split: prod.splits)

lemma absEp_sorted:
  assumes "sorted_wrt (\<lambda>a b. SeasonNumber a < SeasonNumber b) seasons"
    and "ref \<in> set (collect_toFetch seasons)"
  shows "absEp (episodeOffset seasons) ref = episodes_before seasons (seasonNum ref) + episodeNum ref"
  using offset_of_episodeOffset [OF assms(1) collect_toFetch_season [OF assms(2)]]
  by (simp add: absEp_def)

text \<open>The gate lets the request through: an API key, an IMDb id, a TMDB id known or found
  by the lookup, and no check of the episodes in the last 24 hours.\<close>

lemma maybeFetchEpisodes_open:
  assumes "key \<noteq> []" "IMDbID (ShowTitle sh) = Some imdb" "imdb \<noteq> []"
    and l: "looked = (if (case TMDBID (ShowTitle sh) of None \<Rightarrow> 0 | Some i \<Rightarrow> i) = 0
                      then fetchAndStoreTMDBImage key api imdb ''show'' row
                      else (([], case TMDBID (ShowTitle sh) of None \<Rightarrow> 0 | Some i \<Rightarrow> i), [], row))"
    and t: "snd (fst looked) \<noteq> 0"
    and due: "case EpisodesCheckedAt (ShowTitle sh) of None \<Rightarrow> True | Some t \<Rightarrow> cooldown \<le> now - t"
  shows "g_calls (maybeFetchEpisodes key api now row sh) =
           fst (snd looked) @
           first_calls key api (snd (fst looked)) (collect_toFetch (Seasons sh)) @
           fst (snd (retry_round key api (snd (fst looked)) (episodeOffset (Seasons sh))
                       (first_results key api (snd (fst looked)) (collect_toFetch (Seasons sh)))))"
proof -
  have e: "\<And>i. retry_round key api i (episodeOffset (Seasons sh)) [] = ([], [], [])"
    by (simp add: retry_round_def omniRetry_def)
  have d: "\<not> (case EpisodesCheckedAt (ShowTitle sh) of None \<Rightarrow> False | Some t \<Rightarrow> now - t < cooldown)"
    using due by (cases "EpisodesCheckedAt (ShowTitle sh)") simp_all
  show ?thesis
  proof (cases "(case TMDBID (ShowTitle sh) of None \<Rightarrow> 0 | Some i \<Rightarrow> i) = 0")
    case True
    with l t have f: "looked = fetchAndStoreTMDBImage key api imdb ''show'' row"
      "snd (fst (fetchAndStoreTMDBImage key api imdb ''show'' row)) \<noteq> 0" by simp_all
    show ?thesis
    proof (cases "collect_toFetch (Seasons sh) = []")
      case empty: True
      with assms(1-3) True f(2) d show ?thesis
        unfolding f(1)
        by (simp add: maybeFetchEpisodes_def Let_def first_calls_def first_results_def e)
    next
      case False
      with assms(1-3) True f(2) d show ?thesis
        unfolding f(1) by (simp add: maybeFetchEpisodes_def Let_def fetch_rounds_calls)
    qed
  next
    case False
    with l have f: "looked = (([], case TMDBID (ShowTitle sh) of None \<Rightarrow> 0 | Some i \<Rightarrow> i), [], row)"
      by simp
    show ?thesis
    proof (cases "collect_toFetch (Seasons sh) = []")
      case True
      with assms(1-3) False d show ?thesis
        unfolding f
        by (simp add: maybeFetchEpisodes_def Let_def first_calls_def first_results_def e)
    next
      case nonempty: False
      with assms(1-3) False d show ?thesis
        unfolding f by (simp add: maybeFetchEpisodes_def Let_def fetch_rounds_calls)
    qed
  qed
qed

text \<open>
  Claim C4. An invocation of \<^verbatim>\<open>maybeFetchEpisodes\<close> that the gate lets through (an API
  key, a non-empty IMDb id, a TMDB id \<open>tmdbID\<close> known or found by the lookup, no check in
  the last 24 hours), for a show whose seasons are loaded in strictly ascending order of
  season number; \<open>results\<close> are the results of the first round over the requested
  episodes. The retry list holds an index exactly when every result of the same season
  number is not-found and that number is not 1; it holds no index twice, and no two
  results name the same episode. The requests of the invocation are those of the id
  lookup, then those of the first round, then, for each index of the retry list in
  order, those of one call for season 1 and the episode number \<open>target i\<close>: the number of
  episodes of all seasons with a smaller season number plus the episode's own number.
  Each such call sends at least one request and at most three, all for season 1 and
  \<open>target i\<close>.
\<close>

theorem C4_omniseason_retry:
  fixes key :: string and api :: tmdb_api and now :: int and row :: Title and sh :: Show
    and imdb :: string
  assumes gate: "key \<noteq> []" "IMDbID (ShowTitle sh) = Some imdb" "imdb \<noteq> []"
  defines "known \<equiv> (case TMDBID (ShowTitle sh) of None \<Rightarrow> 0 | Some i \<Rightarrow> i)"
  defines "looked \<equiv> (if known = 0 then fetchAndStoreTMDBImage key api imdb ''show'' row
                      else (([], known), [], row))"
  defines "tmdbID \<equiv> snd (fst looked)"
  assumes id: "tmdbID \<noteq> 0"
    and due: "case EpisodesCheckedAt (ShowTitle sh) of None \<Rightarrow> True | Some t \<Rightarrow> cooldown \<le> now - t"
    and sorted: "sorted_wrt (\<lambda>a b. SeasonNumber a < SeasonNumber b) (Seasons sh)"
  defines "results \<equiv> first_results key api tmdbID (collect_toFetch (Seasons sh))"
  defines "target \<equiv> \<lambda>i. episodes_before (Seasons sh) (seasonNum (r_ref (results ! i))) +
                          episodeNum (r_ref (results ! i))"
  shows "(\<forall>i. i \<in> set (omniRetry results) \<longleftrightarrow>
            i < length results \<and>
            (\<forall>j<length results. seasonNum (r_ref (results ! j)) = seasonNum (r_ref (results ! i)) \<longrightarrow>
                f_notFound (r_fetched (results ! j))) \<and>
            seasonNum (r_ref (results ! i)) \<noteq> 1) \<and>
         distinct (omniRetry results) \<and>
         distinct (map (ref_place \<circ> r_ref) results) \<and>
         g_calls (maybeFetchEpisodes key api now row sh) =
           fst (snd looked) @
           first_calls key api tmdbID (collect_toFetch (Seasons sh)) @
           concat (map (\<lambda>i. fst (snd (fetchAndStoreEpisodeData key api tmdbID 1 (target i)
                                          (episodeID (r_ref (results ! i))))))
                     (omniRetry results)) \<and>
         (\<forall>i\<in>set (omniRetry results). \<exists>n. 1 \<le> n \<and> n \<le> 3 \<and>
            fst (snd (fetchAndStoreEpisodeData key api tmdbID 1 (target i)
                        (episodeID (r_ref (results ! i))))) =
            replicate n (EpisodeCall tmdbID 1 (target i)))"
proof -
  let ?toFetch = "collect_toFetch (Seasons sh)"
  have 1: "\<forall>i. i \<in> set (omniRetry results) \<longleftrightarrow>
            i < length results \<and>
            (\<forall>j<length results. seasonNum (r_ref (results ! j)) = seasonNum (r_ref (results ! i)) \<longrightarrow>
                f_notFound (r_fetched (results ! j))) \<and>
            seasonNum (r_ref (results ! i)) \<noteq> 1"
    using omniRetry_iff [of _ results] by blast
  have 2: "distinct (omniRetry results)" by (rule omniRetry_distinct)
  have refs: "map r_ref results = ?toFetch"
    unfolding results_def by (rule first_results_refs)
  have 3: "distinct (map (ref_place \<circ> r_ref) results)"
  proof -
    have "map (ref_place \<circ> r_ref) results = map ref_place (map r_ref results)" by simp
    then show ?thesis unfolding refs using collect_toFetch_distinct [of "Seasons sh"] by simp
  qed
  have len: "length results = length ?toFetch" using refs by (metis length_map)
  have tgt: "\<And>i. i \<in> set (omniRetry results) \<Longrightarrow>
      absEp (episodeOffset (Seasons sh)) (r_ref (results ! i)) = target i"
  proof -
    fix i assume "i \<in> set (omniRetry results)"
    then have i: "i < length results" by (simp add: omniRetry_def)
    with len have "r_ref (results ! i) = ?toFetch ! i"
      unfolding results_def by (simp add: first_results_nth)
    moreover from i len have "?toFetch ! i \<in> set ?toFetch" by simp
    ultimately have "r_ref (results ! i) \<in> set ?toFetch" by simp
    from absEp_sorted [OF sorted this] show "absEp (episodeOffset (Seasons sh)) (r_ref (results ! i)) = target i"
      by (simp add: target_def)
  qed
  have "map (\<lambda>i. fst (snd (retry_call key api tmdbID (episodeOffset (Seasons sh)) (r_ref (results ! i)))))
          (omniRetry results) =
        map (\<lambda>i. fst (snd (fetchAndStoreEpisodeData key api tmdbID 1 (target i)
                              (episodeID (r_ref (results ! i))))))
          (omniRetry results)"
    using tgt by (simp add: retry_call_def)
  then have cc: "concat (map (\<lambda>i. fst (snd (retry_call key api tmdbID (episodeOffset (Seasons sh)) (r_ref (results ! i)))))
          (omniRetry results)) =
        concat (map (\<lambda>i. fst (snd (fetchAndStoreEpisodeData key api tmdbID 1 (target i)
                              (episodeID (r_ref (results ! i))))))
          (omniRetry results))" by (rule arg_cong)
  have l: "looked = (if (case TMDBID (ShowTitle sh) of None \<Rightarrow> 0 | Some i \<Rightarrow> i) = 0
                      then fetchAndStoreTMDBImage key api imdb ''show'' row
                      else (([], case TMDBID (ShowTitle sh) of None \<Rightarrow> 0 | Some i \<Rightarrow> i), [], row))"
    by (simp add: looked_def known_def)
  have t: "snd (fst looked) \<noteq> 0" using id by (simp add: tmdbID_def)
  have "g_calls (maybeFetchEpisodes key api now row sh) =
           fst (snd looked) @
           first_calls key api tmdbID ?toFetch @
           fst (snd (retry_round key api tmdbID (episodeOffset (Seasons sh)) results))"
    unfolding results_def tmdbID_def by (rule maybeFetchEpisodes_open [OF gate l t due])
  then have 4: "g_calls (maybeFetchEpisodes key api now row sh) =
           fst (snd looked) @
           first_calls key api tmdbID ?toFetch @
           concat (map (\<lambda>i. fst (snd (fetchAndStoreEpisodeData key api tmdbID 1 (target i)
                                          (episodeID (r_ref (results ! i))))))
                     (omniRetry results))"
    unfolding retry_round_calls using cc by simp
  have 5: "\<forall>i\<in>set (omniRetry results). \<exists>n. 1 \<le> n \<and> n \<le> 3 \<and>
            fst (snd (fetchAndStoreEpisodeData key api tmdbID 1 (target i)
                        (episodeID (r_ref (results ! i))))) =
            replicate n (EpisodeCall tmdbID 1 (target i))"
    using fetchAndStoreEpisodeData_sent [OF gate(1)] by blast
  from 1 2 3 4 5 show ?thesis by blast
qed

lemma demo_sorted: "sorted_wrt (\<lambda>a b. SeasonNumber a < SeasonNumber b) (Seasons demo_show)"
  by (simp add: demo_show_def demo_season_def)

lemma demo_toFetch: "collect_toFetch (Seasons demo_show) = [demo_ref 1, demo_ref 2]"
  by code_simp

lemma demo_first_results:
  "first_results ''k'' demo_ep_api 77 [demo_ref 1, demo_ref 2] =
     [\<lparr>r_ref = demo_ref 1, r_fetched = fetched_zero\<lparr>f_notFound := True\<rparr>\<rparr>,
      \<lparr>r_ref = demo_ref 2, r_fetched = fetched_zero\<lparr>f_notFound := True\<rparr>\<rparr>]"
  by code_simp

lemma demo_first_calls:
  "first_calls ''k'' demo_ep_api 77 [demo_ref 1, demo_ref 2] = [EpisodeCall 77 3 1, EpisodeCall 77 3 2]"
  by code_simp

lemma demo_omniRetry:
  "omniRetry [\<lparr>r_ref = demo_ref 1, r_fetched = fetched_zero\<lparr>f_notFound := True\<rparr>\<rparr>,
              \<lparr>r_ref = demo_ref 2, r_fetched = fetched_zero\<lparr>f_notFound := True\<rparr>\<rparr>] = [0, 1]"
  by code_simp

lemma demo_before: "episodes_before (Seasons demo_show) 3 = 48"
  by code_simp

lemma demo_retry_calls:
  "fst (snd (fetchAndStoreEpisodeData ''k'' demo_ep_api 77 1 49 301)) = [EpisodeCall 77 1 49]"
  "fst (snd (fetchAndStoreEpisodeData ''k'' demo_ep_api 77 1 50 302)) = [EpisodeCall 77 1 50]"
  by code_simp+

theorem C4_witness:
  "sorted_wrt (\<lambda>a b. SeasonNumber a < SeasonNumber b) (Seasons demo_show) \<and>
   IMDbID (ShowTitle demo_show) = Some ''tt09'' \<and>
   TMDBID (ShowTitle demo_show) = Some 77 \<and>
   EpisodesCheckedAt (ShowTitle demo_show) = None \<and>
   map (seasonNum \<circ> r_ref) (first_results ''k'' demo_ep_api 77 (collect_toFetch (Seasons demo_show))) = [3, 3] \<and>
   map (f_notFound \<circ> r_fetched) (first_results ''k'' demo_ep_api 77 (collect_toFetch (Seasons demo_show)))
     = [True, True] \<and>
   omniRetry (first_results ''k'' demo_ep_api 77 (collect_toFetch (Seasons demo_show))) = [0, 1] \<and>
   episodes_before (Seasons demo_show) 3 + 1 = 49 \<and>
   g_calls (maybeFetchEpisodes ''k'' demo_ep_api 0 demo_show_title demo_show) =
     [EpisodeCall 77 3 1, EpisodeCall 77 3 2, EpisodeCall 77 1 49, EpisodeCall 77 1 50]"
proof -
  have res: "first_results ''k'' demo_ep_api 77 (collect_toFetch (Seasons demo_show)) =
     [\<lparr>r_ref = demo_ref 1, r_fetched = fetched_zero\<lparr>f_notFound := True\<rparr>\<rparr>,
      \<lparr>r_ref = demo_ref 2, r_fetched = fetched_zero\<lparr>f_notFound := True\<rparr>\<rparr>]"
    unfolding demo_toFetch by (rule demo_first_results)
  have r: "map (seasonNum \<circ> r_ref) (first_results ''k'' demo_ep_api 77 (collect_toFetch (Seasons demo_show))) = [3, 3]"
    "map (f_notFound \<circ> r_fetched) (first_results ''k'' demo_ep_api 77 (collect_toFetch (Seasons demo_show)))
     = [True, True]"
    unfolding res by (simp_all add: demo_ref_def fetched_zero_def)
  have o: "omniRetry (first_results ''k'' demo_ep_api 77 (collect_toFetch (Seasons demo_show))) = [0, 1]"
    unfolding res by (rule demo_omniRetry)
  have t: "seasonNum (demo_ref 1) = 3" "seasonNum (demo_ref 2) = 3" "episodeNum (demo_ref 1) = 1"
    "episodeNum (demo_ref 2) = 2" "episodeID (demo_ref 1) = 301" "episodeID (demo_ref 2) = 302"
    by (simp_all add: demo_ref_def)
  have g: "''k'' \<noteq> []" "IMDbID (ShowTitle demo_show) = Some ''tt09''" "''tt09'' \<noteq> []"
    by (simp_all add: demo_show_def demo_show_title_def)
  have k: "TMDBID (ShowTitle demo_show) = Some 77" "EpisodesCheckedAt (ShowTitle demo_show) = None"
    by (simp_all add: demo_show_def demo_show_title_def)
  have i: "snd (fst (if (case TMDBID (ShowTitle demo_show) of None \<Rightarrow> 0 | Some i \<Rightarrow> i) = 0
                     then fetchAndStoreTMDBImage ''k'' demo_ep_api ''tt09'' ''show'' demo_show_title
                     else (([], case TMDBID (ShowTitle demo_show) of None \<Rightarrow> 0 | Some i \<Rightarrow> i), [],
                           demo_show_title))) \<noteq> 0"
    by (simp add: k)
  have d: "case EpisodesCheckedAt (ShowTitle demo_show) of None \<Rightarrow> True | Some t \<Rightarrow> cooldown \<le> 0 - t"
    by (simp add: k)
  from C4_omniseason_retry [OF g i d demo_sorted]
  have "g_calls (maybeFetchEpisodes ''k'' demo_ep_api 0 demo_show_title demo_show) =
     fst (snd (if (case TMDBID (ShowTitle demo_show) of None \<Rightarrow> 0 | Some i \<Rightarrow> i) = 0
               then fetchAndStoreTMDBImage ''k'' demo_ep_api ''tt09'' ''show'' demo_show_title
               else (([], case TMDBID (ShowTitle demo_show) of None \<Rightarrow> 0 | Some i \<Rightarrow> i), [],
                     demo_show_title))) @
     first_calls ''k'' demo_ep_api
       (snd (fst (if (case TMDBID (ShowTitle demo_show) of None \<Rightarrow> 0 | Some i \<Rightarrow> i) = 0
                  then fetchAndStoreTMDBImage ''k'' demo_ep_api ''tt09'' ''show'' demo_show_title
                  else (([], case TMDBID (ShowTitle demo_show) of None \<Rightarrow> 0 | Some i \<Rightarrow> i), [],
                        demo_show_title))))
       (collect_toFetch (Seasons demo_show)) @
     concat (map (\<lambda>i. fst (snd (fetchAndStoreEpisodeData ''k'' demo_ep_api
         (snd (fst (if (case TMDBID (ShowTitle demo_show) of None \<Rightarrow> 0 | Some i \<Rightarrow> i) = 0
                    then fetchAndStoreTMDBImage ''k'' demo_ep_api ''tt09'' ''show'' demo_show_title
                    else (([], case TMDBID (ShowTitle demo_show) of None \<Rightarrow> 0 | Some i \<Rightarrow> i), [],
                          demo_show_title)))) 1
         (episodes_before (Seasons demo_show)
            (seasonNum (r_ref (first_results ''k'' demo_ep_api
               (snd (fst (if (case TMDBID (ShowTitle demo_show) of None \<Rightarrow> 0 | Some i \<Rightarrow> i) = 0
                          then fetchAndStoreTMDBImage ''k'' demo_ep_api ''tt09'' ''show'' demo_show_title
                          else (([], case TMDBID (ShowTitle demo_show) of None \<Rightarrow> 0 | Some i \<Rightarrow> i), [],
                                demo_show_title))))
               (collect_toFetch (Seasons demo_show)) ! i))) +
          episodeNum (r_ref (first_results ''k'' demo_ep_api
               (snd (fst (if (case TMDBID (ShowTitle demo_show) of None \<Rightarrow> 0 | Some i \<Rightarrow> i) = 0
                          then fetchAndStoreTMDBImage ''k'' demo_ep_api ''tt09'' ''show'' demo_show_title
                          else (([], case TMDBID (ShowTitle demo_show) of None \<Rightarrow> 0 | Some i \<Rightarrow> i), [],
                                demo_show_title))))
               (collect_toFetch (Seasons demo_show)) ! i)))
         (episodeID (r_ref (first_results ''k'' demo_ep_api
               (snd (fst (if (case TMDBID (ShowTitle demo_show) of None \<Rightarrow> 0 | Some i \<Rightarrow> i) = 0
                          then fetchAndStoreTMDBImage ''k'' demo_ep_api ''tt09'' ''show'' demo_show_title
                          else (([], case TMDBID (ShowTitle demo_show) of None \<Rightarrow> 0 | Some i \<Rightarrow> i), [],
                                demo_show_title))))
               (collect_toFetch (Seasons demo_show)) ! i))))))
       (omniRetry (first_results ''k'' demo_ep_api
               (snd (fst (if (case TMDBID (ShowTitle demo_show) of None \<Rightarrow> 0 | Some i \<Rightarrow> i) = 0
                          then fetchAndStoreTMDBImage ''k'' demo_ep_api ''tt09'' ''show'' demo_show_title
                          else (([], case TMDBID (ShowTitle demo_show) of None \<Rightarrow> 0 | Some i \<Rightarrow> i), [],
                                demo_show_title))))
               (collect_toFetch (Seasons demo_show)))))"
    by blast
  then have "g_calls (maybeFetchEpisodes ''k'' demo_ep_api 0 demo_show_title demo_show) =
     first_calls ''k'' demo_ep_api 77 (collect_toFetch (Seasons demo_show)) @
     concat (map (\<lambda>i. fst (snd (fetchAndStoreEpisodeData ''k'' demo_ep_api 77 1
         (episodes_before (Seasons demo_show)
            (seasonNum (r_ref (first_results ''k'' demo_ep_api 77 (collect_toFetch (Seasons demo_show)) ! i))) +
          episodeNum (r_ref (first_results ''k'' demo_ep_api 77 (collect_toFetch (Seasons demo_show)) ! i)))
         (episodeID (r_ref (first_results ''k'' demo_ep_api 77 (collect_toFetch (Seasons demo_show)) ! i))))))
       (omniRetry (first_results ''k'' demo_ep_api 77 (collect_toFetch (Seasons demo_show)))))"
    unfolding k by simp
  then have "g_calls (maybeFetchEpisodes ''k'' demo_ep_api 0 demo_show_title demo_show) =
     [EpisodeCall 77 3 1, EpisodeCall 77 3 2, EpisodeCall 77 1 49, EpisodeCall 77 1 50]"
    unfolding o unfolding res unfolding demo_toFetch demo_first_calls
    by (simp add: t demo_before demo_retry_calls)
  with demo_sorted g(2) k r o demo_before show ?thesis by simp
qed

end
